theory Spec2Isabelle
  imports Complex_Main "HOL-Library.Monad_Syntax"
begin

section \<open>Shared value types of the implant schemes\<close>

text \<open>
  Modelled from the spec: the class \<open>SboShape3Label\<close> is declared outside the scheme
  files. A shape label is an opaque ordered integer identifier (\<open>uid()\<close>) that supports
  \<open>next(k)\<close>, difference and the closed-range membership test; a default-constructed
  label \<open>{}\<close> is the label that is not set (\<open>isSet()\<close> is false) and lies in no range.
\<close>

datatype SboShape3Label = NullLabel | S3 int

fun isSet :: "SboShape3Label \<Rightarrow> bool" where
  "isSet NullLabel = False"
| "isSet (S3 u) = True"

text \<open>
  The label that is not set has no identifier: reading its \<open>uid()\<close>, stepping it with
  \<open>next\<close> or subtracting it has no specified result, which is the value \<open>None\<close>.
\<close>

fun uid :: "SboShape3Label \<Rightarrow> int option" where
  "uid (S3 u) = Some u"
| "uid NullLabel = None"

fun label_next :: "SboShape3Label \<Rightarrow> int \<Rightarrow> SboShape3Label option" where
  "label_next (S3 u) k = Some (S3 (u + k))"
| "label_next NullLabel k = None"

fun label_diff :: "SboShape3Label \<Rightarrow> SboShape3Label \<Rightarrow> int option" where
  "label_diff (S3 a) (S3 b) = Some (a - b)"
| "label_diff _ _ = None"

fun in_closed_range :: "SboShape3Label \<Rightarrow> SboShape3Label \<Rightarrow> SboShape3Label \<Rightarrow> bool" where
  "in_closed_range (S3 u) (S3 lo) (S3 hi) = (lo \<le> u \<and> u \<le> hi)"
| "in_closed_range _ _ _ = False"

text \<open>\<open>s3\<close> wraps an enumerator of a product's \<open>S3UID\<close> enumeration into a label.\<close>

definition s3 :: "int \<Rightarrow> SboShape3Label" where
  "s3 e = S3 e"

text \<open>
  Modelled from the spec: \<open>SboML::clamp\<close> is a helper of the mathematics library, which is
  not among the scheme files; it clamps a value into the closed interval \<open>[lo, hi]\<close>.
\<close>

definition clamp :: "int \<Rightarrow> int \<Rightarrow> int \<Rightarrow> int" where
  "clamp v lo hi = (if v < lo then lo else if hi < v then hi else v)"

text \<open>
  Modelled from the spec: \<open>HPROJ_DCHECK2\<close> is the assertion macro of the host project
  (precondition violations are asserted and fatal). A failed check is the value \<open>None\<close>;
  a function that passes its checks returns \<open>Some\<close> of what it computes.
\<close>

definition HPROJ_DCHECK2 :: "bool \<Rightarrow> 'a option \<Rightarrow> 'a option" where
  "HPROJ_DCHECK2 c k = (if c then k else None)"

text \<open>
  Modelled from the spec: \<open>SboAnatomLocation\<close> and \<open>SboFemImplantConfig\<close> are declared
  outside the scheme files. The configuration record carries the requested anatomical side,
  the side of the implant, the stem, head, neck and cut-plane labels, the per-part product
  names and the \<open>validAssembly\<close> flag. An empty \<open>QString\<close> (\<open>{}\<close>) is the empty string.
\<close>

datatype SboAnatomLocation = AnatomNone | AnatomLeft | AnatomRight

record SboFemImplantConfig =
  requestedSide :: SboAnatomLocation
  implantSide :: SboAnatomLocation
  stemLabel :: SboShape3Label
  headLabel :: SboShape3Label
  neckLabel :: SboShape3Label
  cutPlaneLabel :: SboShape3Label
  stemProductName :: string
  distalShaftProductName :: string
  headProductName :: string
  neckProductName :: string
  validAssembly :: bool

subsection \<open>Points, vectors and rigid transforms\<close>

text \<open>
  Modelled from the spec: \<open>SboPoint3\<close>, \<open>SboVector3\<close>, \<open>SboMatrix3\<close> and the helpers
  \<open>SboML::unit3\<close>, \<open>SboML::transMat3\<close>, \<open>SboML::idMat3\<close> belong to the mathematics
  library, which is not among the scheme files. Coordinates are millimetres, taken here as
  real numbers. A transform is rigid (a 3x3 block given by its rows, and a translation);
  composition is standard matrix multiplication, the right factor applied first to a point.
  \<open>unit3\<close> is the unit vector of its argument; the zero vector has none.
\<close>

datatype SboPoint3 = SboPoint3 (px: real) (py: real) (pz: real)

type_synonym SboVector3 = SboPoint3

fun add3 :: "SboPoint3 \<Rightarrow> SboPoint3 \<Rightarrow> SboPoint3" where
  "add3 (SboPoint3 a b c) (SboPoint3 x y z) = SboPoint3 (a + x) (b + y) (c + z)"

fun sub3 :: "SboPoint3 \<Rightarrow> SboPoint3 \<Rightarrow> SboPoint3" where
  "sub3 (SboPoint3 a b c) (SboPoint3 x y z) = SboPoint3 (a - x) (b - y) (c - z)"

fun scale3 :: "SboPoint3 \<Rightarrow> real \<Rightarrow> SboPoint3" where
  "scale3 (SboPoint3 a b c) k = SboPoint3 (a * k) (b * k) (c * k)"

fun dot3 :: "SboPoint3 \<Rightarrow> SboPoint3 \<Rightarrow> real" where
  "dot3 (SboPoint3 a b c) (SboPoint3 x y z) = a * x + b * y + c * z"

definition norm3 :: "SboPoint3 \<Rightarrow> real" where
  "norm3 v = sqrt (dot3 v v)"

definition unit3 :: "SboPoint3 \<Rightarrow> SboPoint3 option" where
  "unit3 v = (if norm3 v = 0 then None else Some (scale3 v (1 / norm3 v)))"

datatype SboMatrix3 =
  SboMatrix3 (row1: SboPoint3) (row2: SboPoint3) (row3: SboPoint3) (translation: SboPoint3)

definition idMat3 :: SboMatrix3 where
  "idMat3 = SboMatrix3 (SboPoint3 1 0 0) (SboPoint3 0 1 0) (SboPoint3 0 0 1) (SboPoint3 0 0 0)"

definition transMat3 :: "SboPoint3 \<Rightarrow> SboMatrix3" where
  "transMat3 t = SboMatrix3 (SboPoint3 1 0 0) (SboPoint3 0 1 0) (SboPoint3 0 0 1) t"

definition mat_linear :: "SboMatrix3 \<Rightarrow> SboPoint3 \<Rightarrow> SboPoint3" where
  "mat_linear m v = SboPoint3 (dot3 (row1 m) v) (dot3 (row2 m) v) (dot3 (row3 m) v)"

definition mat_apply :: "SboMatrix3 \<Rightarrow> SboPoint3 \<Rightarrow> SboPoint3" where
  "mat_apply m p = add3 (mat_linear m p) (translation m)"

definition mat_col :: "SboMatrix3 \<Rightarrow> (SboPoint3 \<Rightarrow> real) \<Rightarrow> SboPoint3" where
  "mat_col m sel = SboPoint3 (sel (row1 m)) (sel (row2 m)) (sel (row3 m))"

definition mat_row_times :: "SboPoint3 \<Rightarrow> SboMatrix3 \<Rightarrow> SboPoint3" where
  "mat_row_times r m = SboPoint3 (dot3 r (mat_col m px)) (dot3 r (mat_col m py)) (dot3 r (mat_col m pz))"

definition mat_mult :: "SboMatrix3 \<Rightarrow> SboMatrix3 \<Rightarrow> SboMatrix3" where
  "mat_mult a b =
     SboMatrix3 (mat_row_times (row1 a) b) (mat_row_times (row2 a) b) (mat_row_times (row3 a) b)
       (mat_apply a (translation b))"

section \<open>Corail (johnson\_corail\_scheme.h)\<close>

text \<open>
  The enumeration \<open>S3UID\<close> starts at \<open>ProductRangeStartsAt + 90\<close>; the constant
  \<open>ProductRangeStartsAt\<close> is supplied by the product registry and is the parameter \<open>P\<close>
  of every enumerator below. Only the enumerators the code names are listed.
\<close>

definition Corail_STEM_KHO_A_135_0 :: "int \<Rightarrow> int" where "Corail_STEM_KHO_A_135_0 P = P + 90"
definition Corail_STEM_KHO_A_135_9 :: "int \<Rightarrow> int" where "Corail_STEM_KHO_A_135_9 P = P + 90 + 9"
definition Corail_STEM_KS_STD135_0 :: "int \<Rightarrow> int" where "Corail_STEM_KS_STD135_0 P = P + 90 + 10"
definition Corail_STEM_KS_STD135_5 :: "int \<Rightarrow> int" where "Corail_STEM_KS_STD135_5 P = P + 90 + 15"
definition Corail_STEM_KS_STD135_10 :: "int \<Rightarrow> int" where "Corail_STEM_KS_STD135_10 P = P + 90 + 20"
definition Corail_STEM_KA_STD135_0 :: "int \<Rightarrow> int" where "Corail_STEM_KA_STD135_0 P = P + 90 + 21"
definition Corail_STEM_KA_STD135_5 :: "int \<Rightarrow> int" where "Corail_STEM_KA_STD135_5 P = P + 90 + 26"
definition Corail_STEM_KA_STD135_10 :: "int \<Rightarrow> int" where "Corail_STEM_KA_STD135_10 P = P + 90 + 31"
definition Corail_STEM_KHO_S_135_0 :: "int \<Rightarrow> int" where "Corail_STEM_KHO_S_135_0 P = P + 90 + 32"
definition Corail_STEM_KHO_S_135_9 :: "int \<Rightarrow> int" where "Corail_STEM_KHO_S_135_9 P = P + 90 + 41"
definition Corail_STEM_KLA_125_0 :: "int \<Rightarrow> int" where "Corail_STEM_KLA_125_0 P = P + 90 + 42"
definition Corail_STEM_KLA_125_9 :: "int \<Rightarrow> int" where "Corail_STEM_KLA_125_9 P = P + 90 + 51"
definition Corail_STEM_STD125_S_0 :: "int \<Rightarrow> int" where "Corail_STEM_STD125_S_0 P = P + 90 + 52"
definition Corail_STEM_STD125_S_3 :: "int \<Rightarrow> int" where "Corail_STEM_STD125_S_3 P = P + 90 + 55"
definition Corail_STEM_STD125_A_0 :: "int \<Rightarrow> int" where "Corail_STEM_STD125_A_0 P = P + 90 + 56"
definition Corail_STEM_STD125_A_7 :: "int \<Rightarrow> int" where "Corail_STEM_STD125_A_7 P = P + 90 + 63"
definition Corail_STEM_SN_S_0 :: "int \<Rightarrow> int" where "Corail_STEM_SN_S_0 P = P + 90 + 64"
definition Corail_STEM_SN_S_3 :: "int \<Rightarrow> int" where "Corail_STEM_SN_S_3 P = P + 90 + 67"
definition Corail_STEM_SN_A_0 :: "int \<Rightarrow> int" where "Corail_STEM_SN_A_0 P = P + 90 + 68"
definition Corail_STEM_SN_A_7 :: "int \<Rightarrow> int" where "Corail_STEM_SN_A_7 P = P + 90 + 75"
definition Corail_CUTPLANE :: "int \<Rightarrow> int" where "Corail_CUTPLANE P = P + 90 + 76"
definition Corail_HEAD_M4 :: "int \<Rightarrow> int" where "Corail_HEAD_M4 P = P + 90 + 77"
definition Corail_HEAD_P0 :: "int \<Rightarrow> int" where "Corail_HEAD_P0 P = P + 90 + 78"
definition Corail_HEAD_P4 :: "int \<Rightarrow> int" where "Corail_HEAD_P4 P = P + 90 + 79"
definition Corail_HEAD_P8 :: "int \<Rightarrow> int" where "Corail_HEAD_P8 P = P + 90 + 80"
definition Corail_RANGE_CCD_KS_STD135 :: "int \<Rightarrow> int" where "Corail_RANGE_CCD_KS_STD135 P = P + 90 + 81"
definition Corail_RANGE_CCD_KA_STD135 :: "int \<Rightarrow> int" where "Corail_RANGE_CCD_KA_STD135 P = P + 90 + 82"
definition Corail_RANGE_CCD_KHO_S_135 :: "int \<Rightarrow> int" where "Corail_RANGE_CCD_KHO_S_135 P = P + 90 + 83"
definition Corail_RANGE_CCD_KHO_A_135 :: "int \<Rightarrow> int" where "Corail_RANGE_CCD_KHO_A_135 P = P + 90 + 84"
definition Corail_RANGE_CCD_KLA_125 :: "int \<Rightarrow> int" where "Corail_RANGE_CCD_KLA_125 P = P + 90 + 85"
definition Corail_RANGE_CCD_STD125_S :: "int \<Rightarrow> int" where "Corail_RANGE_CCD_STD125_S P = P + 90 + 86"
definition Corail_RANGE_CCD_STD125_A :: "int \<Rightarrow> int" where "Corail_RANGE_CCD_STD125_A P = P + 90 + 87"
definition Corail_RANGE_CCD_SN_S :: "int \<Rightarrow> int" where "Corail_RANGE_CCD_SN_S P = P + 90 + 88"
definition Corail_RANGE_CCD_SN_A :: "int \<Rightarrow> int" where "Corail_RANGE_CCD_SN_A P = P + 90 + 89"

definition Corail_lowerS3UID :: "int \<Rightarrow> int" where
  "Corail_lowerS3UID P = Corail_STEM_KHO_A_135_0 P"

definition Corail_defaultS3StemRUID :: "int \<Rightarrow> int" where
  "Corail_defaultS3StemRUID P = Corail_STEM_KA_STD135_5 P"

definition Corail_defaultS3HeadUID :: "int \<Rightarrow> int" where
  "Corail_defaultS3HeadUID P = Corail_HEAD_P0 P"

lemmas Corail_S3UID_defs =
  Corail_STEM_KHO_A_135_0_def Corail_STEM_KHO_A_135_9_def
  Corail_STEM_KS_STD135_0_def Corail_STEM_KS_STD135_5_def Corail_STEM_KS_STD135_10_def
  Corail_STEM_KA_STD135_0_def Corail_STEM_KA_STD135_5_def Corail_STEM_KA_STD135_10_def
  Corail_STEM_KHO_S_135_0_def Corail_STEM_KHO_S_135_9_def
  Corail_STEM_KLA_125_0_def Corail_STEM_KLA_125_9_def
  Corail_STEM_STD125_S_0_def Corail_STEM_STD125_S_3_def
  Corail_STEM_STD125_A_0_def Corail_STEM_STD125_A_7_def
  Corail_STEM_SN_S_0_def Corail_STEM_SN_S_3_def
  Corail_STEM_SN_A_0_def Corail_STEM_SN_A_7_def
  Corail_CUTPLANE_def Corail_HEAD_M4_def Corail_HEAD_P0_def Corail_HEAD_P4_def Corail_HEAD_P8_def
  Corail_RANGE_CCD_KS_STD135_def Corail_RANGE_CCD_KA_STD135_def
  Corail_RANGE_CCD_KHO_S_135_def Corail_RANGE_CCD_KHO_A_135_def
  Corail_RANGE_CCD_KLA_125_def Corail_RANGE_CCD_STD125_S_def Corail_RANGE_CCD_STD125_A_def
  Corail_RANGE_CCD_SN_S_def Corail_RANGE_CCD_SN_A_def
  Corail_lowerS3UID_def Corail_defaultS3StemRUID_def Corail_defaultS3HeadUID_def

subsection \<open>Label classification\<close>

definition Corail_isCCD_KS_STD135 :: "int \<Rightarrow> SboShape3Label \<Rightarrow> bool" where
  "Corail_isCCD_KS_STD135 P l =
     in_closed_range l (s3 (Corail_STEM_KS_STD135_0 P)) (s3 (Corail_STEM_KS_STD135_10 P))"

definition Corail_isCCD_KA_STD135 :: "int \<Rightarrow> SboShape3Label \<Rightarrow> bool" where
  "Corail_isCCD_KA_STD135 P l =
     in_closed_range l (s3 (Corail_STEM_KA_STD135_0 P)) (s3 (Corail_STEM_KA_STD135_10 P))"

definition Corail_isCCD_KHO_S_135 :: "int \<Rightarrow> SboShape3Label \<Rightarrow> bool" where
  "Corail_isCCD_KHO_S_135 P l =
     in_closed_range l (s3 (Corail_STEM_KHO_S_135_0 P)) (s3 (Corail_STEM_KHO_S_135_9 P))"

definition Corail_isCCD_KHO_A_135 :: "int \<Rightarrow> SboShape3Label \<Rightarrow> bool" where
  "Corail_isCCD_KHO_A_135 P l =
     in_closed_range l (s3 (Corail_STEM_KHO_A_135_0 P)) (s3 (Corail_STEM_KHO_A_135_9 P))"

definition Corail_isCCD_KLA_125 :: "int \<Rightarrow> SboShape3Label \<Rightarrow> bool" where
  "Corail_isCCD_KLA_125 P l =
     in_closed_range l (s3 (Corail_STEM_KLA_125_0 P)) (s3 (Corail_STEM_KLA_125_9 P))"

definition Corail_isCCD_STD125_S :: "int \<Rightarrow> SboShape3Label \<Rightarrow> bool" where
  "Corail_isCCD_STD125_S P l =
     in_closed_range l (s3 (Corail_STEM_STD125_S_0 P)) (s3 (Corail_STEM_STD125_S_3 P))"

definition Corail_isCCD_STD125_A :: "int \<Rightarrow> SboShape3Label \<Rightarrow> bool" where
  "Corail_isCCD_STD125_A P l =
     in_closed_range l (s3 (Corail_STEM_STD125_A_0 P)) (s3 (Corail_STEM_STD125_A_7 P))"

definition Corail_isCCD_SN_S :: "int \<Rightarrow> SboShape3Label \<Rightarrow> bool" where
  "Corail_isCCD_SN_S P l =
     in_closed_range l (s3 (Corail_STEM_SN_S_0 P)) (s3 (Corail_STEM_SN_S_3 P))"

definition Corail_isCCD_SN_A :: "int \<Rightarrow> SboShape3Label \<Rightarrow> bool" where
  "Corail_isCCD_SN_A P l =
     in_closed_range l (s3 (Corail_STEM_SN_A_0 P)) (s3 (Corail_STEM_SN_A_7 P))"

definition Corail_isStem :: "int \<Rightarrow> SboShape3Label \<Rightarrow> bool" where
  "Corail_isStem P l =
     in_closed_range l (s3 (Corail_STEM_KHO_A_135_0 P)) (s3 (Corail_STEM_SN_A_7 P))"

definition Corail_isHead :: "int \<Rightarrow> SboShape3Label \<Rightarrow> bool" where
  "Corail_isHead P l = in_closed_range l (s3 (Corail_HEAD_M4 P)) (s3 (Corail_HEAD_P8 P))"

definition Corail_hasCollar :: "int \<Rightarrow> SboShape3Label \<Rightarrow> bool" where
  "Corail_hasCollar P l =
     (Corail_isCCD_KHO_A_135 P l \<or> Corail_isCCD_KA_STD135 P l \<or> Corail_isCCD_KLA_125 P l
      \<or> Corail_isCCD_STD125_A P l \<or> Corail_isCCD_SN_A P l)"

lemmas Corail_isCCD_defs =
  Corail_isCCD_KS_STD135_def Corail_isCCD_KA_STD135_def Corail_isCCD_KHO_S_135_def
  Corail_isCCD_KHO_A_135_def Corail_isCCD_KLA_125_def Corail_isCCD_STD125_S_def
  Corail_isCCD_STD125_A_def Corail_isCCD_SN_S_def Corail_isCCD_SN_A_def

definition Corail_nextPrevStem :: "int \<Rightarrow> SboShape3Label \<Rightarrow> bool \<Rightarrow> SboShape3Label option" where
  "Corail_nextPrevStem P aL aNext =
     HPROJ_DCHECK2 (Corail_isStem P aL)
       (do {
          nL \<leftarrow> label_next aL (if aNext then 1 else - 1);
          Some
         (if Corail_isCCD_KS_STD135 P aL then (if Corail_isCCD_KS_STD135 P nL then nL else aL)
          else if Corail_isCCD_KA_STD135 P aL then (if Corail_isCCD_KA_STD135 P nL then nL else aL)
          else if Corail_isCCD_KHO_S_135 P aL then (if Corail_isCCD_KHO_S_135 P nL then nL else aL)
          else if Corail_isCCD_KHO_A_135 P aL then (if Corail_isCCD_KHO_A_135 P nL then nL else aL)
          else if Corail_isCCD_STD125_S P aL then (if Corail_isCCD_STD125_S P nL then nL else aL)
          else if Corail_isCCD_STD125_A P aL then (if Corail_isCCD_STD125_A P nL then nL else aL)
          else if Corail_isCCD_SN_S P aL then (if Corail_isCCD_SN_S P nL then nL else aL)
          else if Corail_isCCD_SN_A P aL then (if Corail_isCCD_SN_A P nL then nL else aL)
          else (if Corail_isCCD_KLA_125 P nL then nL else aL))
        })"

definition Corail_getCCDRange :: "int \<Rightarrow> SboShape3Label \<Rightarrow> SboShape3Label option" where
  "Corail_getCCDRange P aL =
     HPROJ_DCHECK2 (Corail_isStem P aL)
       (Some
         (if Corail_isCCD_KS_STD135 P aL then s3 (Corail_RANGE_CCD_KS_STD135 P)
          else if Corail_isCCD_KA_STD135 P aL then s3 (Corail_RANGE_CCD_KA_STD135 P)
          else if Corail_isCCD_KHO_S_135 P aL then s3 (Corail_RANGE_CCD_KHO_S_135 P)
          else if Corail_isCCD_KHO_A_135 P aL then s3 (Corail_RANGE_CCD_KHO_A_135 P)
          else if Corail_isCCD_KLA_125 P aL then s3 (Corail_RANGE_CCD_KLA_125 P)
          else if Corail_isCCD_STD125_S P aL then s3 (Corail_RANGE_CCD_STD125_S P)
          else if Corail_isCCD_STD125_A P aL then s3 (Corail_RANGE_CCD_STD125_A P)
          else if Corail_isCCD_SN_S P aL then s3 (Corail_RANGE_CCD_SN_S P)
          else if Corail_isCCD_SN_A P aL then s3 (Corail_RANGE_CCD_SN_A P)
          else NullLabel))"

definition Corail_getCCDStartIdx :: "int \<Rightarrow> SboShape3Label \<Rightarrow> int option" where
  "Corail_getCCDStartIdx P aL =
     HPROJ_DCHECK2 (Corail_isStem P aL)
       (Some
         (if Corail_isCCD_KHO_A_135 P aL then 0
          else if Corail_isCCD_KS_STD135 P aL then 10
          else if Corail_isCCD_KA_STD135 P aL then 21
          else if Corail_isCCD_KHO_S_135 P aL then 32
          else if Corail_isCCD_KLA_125 P aL then 42
          else if Corail_isCCD_STD125_S P aL then 52
          else if Corail_isCCD_STD125_A P aL then 56
          else if Corail_isCCD_SN_S P aL then 64
          else if Corail_isCCD_SN_A P aL then 68
          else 0))"

text \<open>
  The sub-range membership predicates of the product line, in the order of
  \<open>getCCDRange\<close>, each paired with the range label that \<open>getCCDRange\<close> returns for it.
\<close>

definition Corail_subRanges :: "int \<Rightarrow> ((SboShape3Label \<Rightarrow> bool) \<times> SboShape3Label) list" where
  "Corail_subRanges P =
     [(Corail_isCCD_KS_STD135 P, s3 (Corail_RANGE_CCD_KS_STD135 P)),
      (Corail_isCCD_KA_STD135 P, s3 (Corail_RANGE_CCD_KA_STD135 P)),
      (Corail_isCCD_KHO_S_135 P, s3 (Corail_RANGE_CCD_KHO_S_135 P)),
      (Corail_isCCD_KHO_A_135 P, s3 (Corail_RANGE_CCD_KHO_A_135 P)),
      (Corail_isCCD_KLA_125 P, s3 (Corail_RANGE_CCD_KLA_125 P)),
      (Corail_isCCD_STD125_S P, s3 (Corail_RANGE_CCD_STD125_S P)),
      (Corail_isCCD_STD125_A P, s3 (Corail_RANGE_CCD_STD125_A P)),
      (Corail_isCCD_SN_S P, s3 (Corail_RANGE_CCD_SN_S P)),
      (Corail_isCCD_SN_A P, s3 (Corail_RANGE_CCD_SN_A P))]"

subsection \<open>Similar size in another sub-range\<close>

definition Corail_getSimilarOffset :: "int \<Rightarrow> int \<Rightarrow> SboShape3Label \<Rightarrow> SboShape3Label \<Rightarrow> int" where
  "Corail_getSimilarOffset P aOffset aSourceR aTargetR =
     (if aSourceR = s3 (Corail_RANGE_CCD_KS_STD135 P) then
        (let aOffset = (if aTargetR = s3 (Corail_RANGE_CCD_KHO_S_135 P) then clamp (aOffset - 1) 0 9 else aOffset);
             aOffset = (if aTargetR = s3 (Corail_RANGE_CCD_KHO_A_135 P) then clamp (aOffset - 1) 0 9 else aOffset);
             aOffset = (if aTargetR = s3 (Corail_RANGE_CCD_KLA_125 P) then clamp (aOffset - 1) 0 9 else aOffset);
             aOffset = (if aTargetR = s3 (Corail_RANGE_CCD_STD125_S P) then clamp (aOffset + 1) 0 3 else aOffset);
             aOffset = (if aTargetR = s3 (Corail_RANGE_CCD_STD125_A P) then clamp (aOffset + 1) 0 7 else aOffset);
             aOffset = (if aTargetR = s3 (Corail_RANGE_CCD_SN_S P) then clamp (aOffset + 1) 0 3 else aOffset);
             aOffset = (if aTargetR = s3 (Corail_RANGE_CCD_SN_A P) then clamp (aOffset + 1) 0 7 else aOffset)
         in aOffset)
     else if aSourceR = s3 (Corail_RANGE_CCD_KA_STD135 P) then
        (let aOffset = (if aTargetR = s3 (Corail_RANGE_CCD_KHO_S_135 P) then clamp (aOffset - 1) 0 9 else aOffset);
             aOffset = (if aTargetR = s3 (Corail_RANGE_CCD_KHO_A_135 P) then clamp (aOffset - 1) 0 9 else aOffset);
             aOffset = (if aTargetR = s3 (Corail_RANGE_CCD_KLA_125 P) then clamp (aOffset - 1) 0 9 else aOffset);
             aOffset = (if aTargetR = s3 (Corail_RANGE_CCD_STD125_S P) then clamp (aOffset + 1) 0 3 else aOffset);
             aOffset = (if aTargetR = s3 (Corail_RANGE_CCD_STD125_A P) then clamp (aOffset + 1) 0 7 else aOffset);
             aOffset = (if aTargetR = s3 (Corail_RANGE_CCD_SN_S P) then clamp (aOffset + 1) 0 3 else aOffset);
             aOffset = (if aTargetR = s3 (Corail_RANGE_CCD_SN_A P) then clamp (aOffset + 1) 0 7 else aOffset)
         in aOffset)
     else if aSourceR = s3 (Corail_RANGE_CCD_KHO_S_135 P) \<or> aSourceR = s3 (Corail_RANGE_CCD_KHO_A_135 P) \<or> aSourceR = s3 (Corail_RANGE_CCD_KLA_125 P) then
        (let aOffset = (if aTargetR = s3 (Corail_RANGE_CCD_KS_STD135 P) then clamp (aOffset + 1) 0 10 else aOffset);
             aOffset = (if aTargetR = s3 (Corail_RANGE_CCD_KA_STD135 P) then clamp (aOffset + 1) 0 10 else aOffset);
             aOffset = (if aTargetR = s3 (Corail_RANGE_CCD_STD125_S P) then clamp (aOffset + 2) 0 3 else aOffset);
             aOffset = (if aTargetR = s3 (Corail_RANGE_CCD_STD125_A P) then clamp (aOffset + 2) 0 7 else aOffset);
             aOffset = (if aTargetR = s3 (Corail_RANGE_CCD_SN_S P) then clamp (aOffset + 2) 0 3 else aOffset);
             aOffset = (if aTargetR = s3 (Corail_RANGE_CCD_SN_A P) then clamp (aOffset + 2) 0 7 else aOffset)
         in aOffset)
     else if aSourceR = s3 (Corail_RANGE_CCD_STD125_S P) then
        (let aOffset = (if aTargetR = s3 (Corail_RANGE_CCD_KS_STD135 P) then clamp (aOffset - 1) 0 10 else aOffset);
             aOffset = (if aTargetR = s3 (Corail_RANGE_CCD_KA_STD135 P) then clamp (aOffset - 1) 0 10 else aOffset);
             aOffset = (if aTargetR = s3 (Corail_RANGE_CCD_KHO_S_135 P) then clamp (aOffset - 2) 0 9 else aOffset);
             aOffset = (if aTargetR = s3 (Corail_RANGE_CCD_KHO_A_135 P) then clamp (aOffset - 2) 0 9 else aOffset);
             aOffset = (if aTargetR = s3 (Corail_RANGE_CCD_KLA_125 P) then clamp (aOffset - 2) 0 9 else aOffset);
             aOffset = (if aTargetR = s3 (Corail_RANGE_CCD_STD125_A P) then clamp aOffset 0 7 else aOffset);
             aOffset = (if aTargetR = s3 (Corail_RANGE_CCD_SN_A P) then clamp aOffset 0 7 else aOffset)
         in aOffset)
     else if aSourceR = s3 (Corail_RANGE_CCD_STD125_A P) then
        (let aOffset = (if aTargetR = s3 (Corail_RANGE_CCD_KS_STD135 P) then clamp (aOffset - 1) 0 10 else aOffset);
             aOffset = (if aTargetR = s3 (Corail_RANGE_CCD_KA_STD135 P) then clamp (aOffset - 1) 0 10 else aOffset);
             aOffset = (if aTargetR = s3 (Corail_RANGE_CCD_KHO_S_135 P) then clamp (aOffset - 2) 0 9 else aOffset);
             aOffset = (if aTargetR = s3 (Corail_RANGE_CCD_KHO_A_135 P) then clamp (aOffset - 2) 0 9 else aOffset);
             aOffset = (if aTargetR = s3 (Corail_RANGE_CCD_KLA_125 P) then clamp (aOffset - 2) 0 9 else aOffset);
             aOffset = (if aTargetR = s3 (Corail_RANGE_CCD_STD125_S P) then clamp aOffset 0 3 else aOffset);
             aOffset = (if aTargetR = s3 (Corail_RANGE_CCD_SN_S P) then clamp aOffset 0 3 else aOffset)
         in aOffset)
     else if aSourceR = s3 (Corail_RANGE_CCD_SN_S P) then
        (let aOffset = (if aTargetR = s3 (Corail_RANGE_CCD_KS_STD135 P) then clamp (aOffset - 1) 0 10 else aOffset);
             aOffset = (if aTargetR = s3 (Corail_RANGE_CCD_KA_STD135 P) then clamp (aOffset - 1) 0 10 else aOffset);
             aOffset = (if aTargetR = s3 (Corail_RANGE_CCD_KHO_S_135 P) then clamp (aOffset - 2) 0 9 else aOffset);
             aOffset = (if aTargetR = s3 (Corail_RANGE_CCD_KHO_A_135 P) then clamp (aOffset - 2) 0 9 else aOffset);
             aOffset = (if aTargetR = s3 (Corail_RANGE_CCD_KLA_125 P) then clamp (aOffset - 2) 0 9 else aOffset);
             aOffset = (if aTargetR = s3 (Corail_RANGE_CCD_STD125_A P) then clamp aOffset 0 7 else aOffset);
             aOffset = (if aTargetR = s3 (Corail_RANGE_CCD_SN_A P) then clamp aOffset 0 7 else aOffset)
         in aOffset)
     else if aSourceR = s3 (Corail_RANGE_CCD_SN_A P) then
        (let aOffset = (if aTargetR = s3 (Corail_RANGE_CCD_KS_STD135 P) then clamp (aOffset - 1) 0 10 else aOffset);
             aOffset = (if aTargetR = s3 (Corail_RANGE_CCD_KA_STD135 P) then clamp (aOffset - 1) 0 10 else aOffset);
             aOffset = (if aTargetR = s3 (Corail_RANGE_CCD_KHO_S_135 P) then clamp (aOffset - 2) 0 9 else aOffset);
             aOffset = (if aTargetR = s3 (Corail_RANGE_CCD_KHO_A_135 P) then clamp (aOffset - 2) 0 9 else aOffset);
             aOffset = (if aTargetR = s3 (Corail_RANGE_CCD_KLA_125 P) then clamp (aOffset - 2) 0 9 else aOffset);
             aOffset = (if aTargetR = s3 (Corail_RANGE_CCD_STD125_S P) then clamp aOffset 0 3 else aOffset);
             aOffset = (if aTargetR = s3 (Corail_RANGE_CCD_SN_S P) then clamp aOffset 0 3 else aOffset)
         in aOffset)
      else aOffset)"

definition Corail_getOffset :: "int \<Rightarrow> SboShape3Label \<Rightarrow> int option" where
  "Corail_getOffset P aL =
     HPROJ_DCHECK2 (Corail_isStem P aL)
       (do {
          lower \<leftarrow> uid (s3 (Corail_lowerS3UID P));
          rIdx \<leftarrow> Corail_getCCDStartIdx P aL;
          u \<leftarrow> uid aL;
          Some (u - rIdx - lower)
        })"

text \<open>
  Modelled from the spec: the range descriptor \<open>RT\<close> of \<open>SboTPCPartMonoStem::CCD\<close> is
  declared outside the scheme files. It is initialised as \<open>{startIdx, endIdx, label, name}\<close>:
  the inclusive offset bounds of the sub-range within the flat label space, the range label
  and the display name.
\<close>

record RT =
  startIdx :: int
  endIdx :: int
  label :: SboShape3Label
  rangeName :: string

definition Corail_rKS_STD135 :: "int \<Rightarrow> RT" where
  "Corail_rKS_STD135 P =
     \<lparr>startIdx = 10, endIdx = 20, label = s3 (Corail_RANGE_CCD_KS_STD135 P), rangeName = ''135 STD''\<rparr>"

definition Corail_rKA_STD135 :: "int \<Rightarrow> RT" where
  "Corail_rKA_STD135 P =
     \<lparr>startIdx = 21, endIdx = 31, label = s3 (Corail_RANGE_CCD_KA_STD135 P),
      rangeName = ''135 STD COLLAR''\<rparr>"

definition Corail_rKHO_S_135 :: "int \<Rightarrow> RT" where
  "Corail_rKHO_S_135 P =
     \<lparr>startIdx = 32, endIdx = 41, label = s3 (Corail_RANGE_CCD_KHO_S_135 P), rangeName = ''135 KHO''\<rparr>"

definition Corail_rKHO_A_135 :: "int \<Rightarrow> RT" where
  "Corail_rKHO_A_135 P =
     \<lparr>startIdx = 0, endIdx = 9, label = s3 (Corail_RANGE_CCD_KHO_A_135 P),
      rangeName = ''135 KHO COLLAR''\<rparr>"

definition Corail_rKLA_125 :: "int \<Rightarrow> RT" where
  "Corail_rKLA_125 P =
     \<lparr>startIdx = 42, endIdx = 51, label = s3 (Corail_RANGE_CCD_KLA_125 P), rangeName = ''125 KLA''\<rparr>"

definition Corail_rSTD125_S :: "int \<Rightarrow> RT" where
  "Corail_rSTD125_S P =
     \<lparr>startIdx = 52, endIdx = 55, label = s3 (Corail_RANGE_CCD_STD125_S P), rangeName = ''125 STD''\<rparr>"

definition Corail_rSTD125_A :: "int \<Rightarrow> RT" where
  "Corail_rSTD125_A P =
     \<lparr>startIdx = 56, endIdx = 63, label = s3 (Corail_RANGE_CCD_STD125_A P),
      rangeName = ''125 STD COLLAR''\<rparr>"

definition Corail_rSN_S :: "int \<Rightarrow> RT" where
  "Corail_rSN_S P =
     \<lparr>startIdx = 64, endIdx = 67, label = s3 (Corail_RANGE_CCD_SN_S P), rangeName = ''135 SN''\<rparr>"

definition Corail_rSN_A :: "int \<Rightarrow> RT" where
  "Corail_rSN_A P =
     \<lparr>startIdx = 68, endIdx = 75, label = s3 (Corail_RANGE_CCD_SN_A P), rangeName = ''135 SN COLLAR''\<rparr>"

definition Corail_ranges :: "int \<Rightarrow> RT list" where
  "Corail_ranges P =
     [Corail_rKS_STD135 P, Corail_rKA_STD135 P, Corail_rKHO_S_135 P, Corail_rKHO_A_135 P,
      Corail_rKLA_125 P, Corail_rSTD125_S P, Corail_rSTD125_A P, Corail_rSN_S P, Corail_rSN_A P]"

lemmas Corail_RT_defs =
  Corail_ranges_def Corail_rKS_STD135_def Corail_rKA_STD135_def Corail_rKHO_S_135_def
  Corail_rKHO_A_135_def Corail_rKLA_125_def Corail_rSTD125_S_def Corail_rSTD125_A_def
  Corail_rSN_S_def Corail_rSN_A_def

text \<open>
  \<open>CCD_CORAIL::similarLabel\<close>. \<open>std::find_if\<close> is \<open>find\<close>; dereferencing the end iterator
  (no descriptor carries the label) has no result.
\<close>

definition Corail_similarLabel :: "int \<Rightarrow> SboShape3Label \<Rightarrow> SboShape3Label \<Rightarrow> SboShape3Label option" where
  "Corail_similarLabel P aL aNextCCDRange =
     do {
       currR \<leftarrow> Corail_getCCDRange P aL;
       itCurrR \<leftarrow> find (\<lambda>x. label x = currR) (Corail_ranges P);
       itNextR \<leftarrow> find (\<lambda>x. label x = aNextCCDRange) (Corail_ranges P);
       let lower = s3 (Corail_lowerS3UID P);
       offset \<leftarrow> Corail_getOffset P aL;
       let offset = Corail_getSimilarOffset P offset (label itCurrR) (label itNextR);
       label_next lower (offset + startIdx itNextR)
     }"

text \<open>
  The catalogue of \<open>SboCorail::parts\<close> names every stem by its family and its size number
  (for instance \<open>STEM_KS_STD135_0\<close> is size 8 and \<open>STEM_KLA_125_0\<close> is size 9). The size
  numbers of a sub-range, in offset order, keyed by the range label:
\<close>

definition Corail_catalogSizes :: "int \<Rightarrow> SboShape3Label \<Rightarrow> nat list" where
  "Corail_catalogSizes P r =
     (if r = s3 (Corail_RANGE_CCD_KS_STD135 P) then [8, 9, 10, 11, 12, 13, 14, 15, 16, 18, 20]
      else if r = s3 (Corail_RANGE_CCD_KA_STD135 P) then [8, 9, 10, 11, 12, 13, 14, 15, 16, 18, 20]
      else if r = s3 (Corail_RANGE_CCD_KHO_S_135 P) then [9, 10, 11, 12, 13, 14, 15, 16, 18, 20]
      else if r = s3 (Corail_RANGE_CCD_KHO_A_135 P) then [9, 10, 11, 12, 13, 14, 15, 16, 18, 20]
      else if r = s3 (Corail_RANGE_CCD_KLA_125 P) then [9, 10, 11, 12, 13, 14, 15, 16, 18, 20]
      else if r = s3 (Corail_RANGE_CCD_STD125_S P) then [7, 8, 9, 10]
      else if r = s3 (Corail_RANGE_CCD_STD125_A P) then [7, 8, 9, 10, 11, 12, 13, 14]
      else if r = s3 (Corail_RANGE_CCD_SN_S P) then [7, 8, 9, 10]
      else if r = s3 (Corail_RANGE_CCD_SN_A P) then [7, 8, 9, 10, 11, 12, 13, 14]
      else [])"

text \<open>The catalogue size of a stem label, and whether a sub-range offers that size.\<close>

definition Corail_catalogSize :: "int \<Rightarrow> SboShape3Label \<Rightarrow> nat option" where
  "Corail_catalogSize P aL =
     do {
       r \<leftarrow> Corail_getCCDRange P aL;
       offset \<leftarrow> Corail_getOffset P aL;
       if 0 \<le> offset \<and> nat offset < length (Corail_catalogSizes P r)
       then Some (Corail_catalogSizes P r ! nat offset) else None
     }"

definition Corail_hasCorrespondent :: "int \<Rightarrow> SboShape3Label \<Rightarrow> SboShape3Label \<Rightarrow> bool" where
  "Corail_hasCorrespondent P aL aTargetR =
     (case Corail_catalogSize P aL of
        None \<Rightarrow> False
      | Some sz \<Rightarrow> sz \<in> set (Corail_catalogSizes P aTargetR))"

text \<open>
  The offset adjustment between two sub-ranges, read off the catalogue: the sub-ranges
  start at different sizes, so the offset of a size moves by the difference of the first
  sizes. \<open>Corail_shiftedOffset\<close> is the target offset before any clamping and
  \<open>Corail_maxOffset\<close> the last offset of a sub-range.
\<close>

definition Corail_shiftedOffset :: "int \<Rightarrow> int \<Rightarrow> SboShape3Label \<Rightarrow> SboShape3Label \<Rightarrow> int" where
  "Corail_shiftedOffset P off sourceR targetR =
     off + int (hd (Corail_catalogSizes P sourceR)) - int (hd (Corail_catalogSizes P targetR))"

definition Corail_maxOffset :: "int \<Rightarrow> SboShape3Label \<Rightarrow> int" where
  "Corail_maxOffset P r = int (length (Corail_catalogSizes P r)) - 1"

subsection \<open>Landmarks\<close>

definition Corail_getRES_01 :: "int \<Rightarrow> SboShape3Label \<Rightarrow> SboPoint3 option" where
  "Corail_getRES_01 P aL =
     HPROJ_DCHECK2 (Corail_isStem P aL)
       (do {
          offset \<leftarrow> Corail_getOffset P aL;
          Some
            (if Corail_isCCD_KS_STD135 P aL \<or> Corail_isCCD_KA_STD135 P aL then
               (if offset = 0 then SboPoint3 (- 11.07) 0 11.07
               else if offset = 1 then SboPoint3 (- 11.57) 0 11.57
               else if offset = 2 then SboPoint3 (- 12.32) 0 12.32
               else if offset = 3 then SboPoint3 (- 13.07) 0 13.07
               else if offset = 4 then SboPoint3 (- 13.8) 0 13.8
               else if offset = 5 then SboPoint3 (- 14.44) 0 14.44
               else if offset = 6 then SboPoint3 (- 15.07) 0 15.07
               else if offset = 7 then SboPoint3 (- 15.82) 0 15.82
               else if offset = 8 then SboPoint3 (- 16.57) 0 16.57
               else if offset = 9 then SboPoint3 (- 17.57) 0 17.57
               else if offset = 10 then SboPoint3 (- 18.57) 0 18.57
               else SboPoint3 0 0 0)
            else if Corail_isCCD_KHO_S_135 P aL \<or> Corail_isCCD_KHO_A_135 P aL then
               (if offset = 0 then SboPoint3 (- 15.1) 0 15.1
               else if offset = 1 then SboPoint3 (- 15.85) 0 15.85
               else if offset = 2 then SboPoint3 (- 16.6) 0 16.6
               else if offset = 3 then SboPoint3 (- 17.35) 0 17.35
               else if offset = 4 then SboPoint3 (- 17.98) 0 17.98
               else if offset = 5 then SboPoint3 (- 18.6) 0 18.6
               else if offset = 6 then SboPoint3 (- 19.35) 0 19.35
               else if offset = 7 then SboPoint3 (- 20.1) 0 20.1
               else if offset = 8 then SboPoint3 (- 21.1) 0 21.1
               else if offset = 9 then SboPoint3 (- 22.1) 0 22.1
               else SboPoint3 0 0 0)
            else if Corail_isCCD_KLA_125 P aL then
               (if offset = 0 then SboPoint3 (- 12.62) 0 8.84
               else if offset = 1 then SboPoint3 (- 13.37) 0 9.36
               else if offset = 2 then SboPoint3 (- 14.12) 0 9.89
               else if offset = 3 then SboPoint3 (- 14.86) 0 10.4
               else if offset = 4 then SboPoint3 (- 15.5) 0 10.85
               else if offset = 5 then SboPoint3 (- 16.12) 0 11.29
               else if offset = 6 then SboPoint3 (- 16.87) 0 11.81
               else if offset = 7 then SboPoint3 (- 17.62) 0 12.34
               else if offset = 8 then SboPoint3 (- 18.58) 0 13.01
               else if offset = 9 then SboPoint3 (- 19.59) 0 13.72
               else SboPoint3 0 0 0)
            else if Corail_isCCD_STD125_S P aL then
               (if offset = 0 then SboPoint3 (- 8.76) 0 6.13
               else if offset = 1 then SboPoint3 (- 9.26) 0 6.48
               else if offset = 2 then SboPoint3 (- 9.76) 0 6.83
               else if offset = 3 then SboPoint3 (- 10.51) 0 7.36
               else SboPoint3 0 0 0)
            else if Corail_isCCD_STD125_A P aL then
               (if offset = 0 then SboPoint3 (- 8.76) 0 6.13
               else if offset = 1 then SboPoint3 (- 9.26) 0 6.48
               else if offset = 2 then SboPoint3 (- 9.76) 0 6.83
               else if offset = 3 then SboPoint3 (- 10.51) 0 7.36
               else if offset = 4 then SboPoint3 (- 11.26) 0 7.88
               else if offset = 5 then SboPoint3 (- 12.01) 0 8.41
               else if offset = 6 then SboPoint3 (- 12.63) 0 8.84
               else if offset = 7 then SboPoint3 (- 13.26) 0 9.28
               else SboPoint3 0 0 0)
            else if Corail_isCCD_SN_S P aL then
               (if offset = 0 then SboPoint3 (- 10.22) 0 10.22
               else if offset = 1 then SboPoint3 (- 10.71) 0 10.71
               else if offset = 2 then SboPoint3 (- 11.21) 0 11.21
               else if offset = 3 then SboPoint3 (- 11.96) 0 11.96
               else SboPoint3 0 0 0)
            else if Corail_isCCD_SN_A P aL then
               (if offset = 0 then SboPoint3 (- 10.21) 0 10.21
               else if offset = 1 then SboPoint3 (- 10.71) 0 10.71
               else if offset = 2 then SboPoint3 (- 11.21) 0 11.21
               else if offset = 3 then SboPoint3 (- 11.96) 0 11.96
               else if offset = 4 then SboPoint3 (- 12.71) 0 12.71
               else if offset = 5 then SboPoint3 (- 13.46) 0 13.46
               else if offset = 6 then SboPoint3 (- 14.09) 0 14.09
               else if offset = 7 then SboPoint3 (- 14.71) 0 14.71
               else SboPoint3 0 0 0)
            else SboPoint3 0 0 0)
        })"

definition Corail_getRES_02 :: "int \<Rightarrow> SboShape3Label \<Rightarrow> SboPoint3 option" where
  "Corail_getRES_02 P aL =
     HPROJ_DCHECK2 (Corail_isStem P aL)
       (do {
          offset \<leftarrow> Corail_getOffset P aL;
          Some
            (if Corail_isCCD_KS_STD135 P aL \<or> Corail_isCCD_KA_STD135 P aL then
               (if offset = 0 then SboPoint3 (- 19.5) 0 2.64
               else if offset = 1 then SboPoint3 (- 20) 0 3.14
               else if offset = 2 then SboPoint3 (- 20.75) 0 3.89
               else if offset = 3 then SboPoint3 (- 21.5) 0 4.64
               else if offset = 4 then SboPoint3 (- 22.25) 0 5.36
               else if offset = 5 then SboPoint3 (- 22.87) 0 6.01
               else if offset = 6 then SboPoint3 (- 23.5) 0 6.64
               else if offset = 7 then SboPoint3 (- 24.25) 0 7.39
               else if offset = 8 then SboPoint3 (- 25) 0 8.14
               else if offset = 9 then SboPoint3 (- 26) 0 9.14
               else if offset = 10 then SboPoint3 (- 27) 0 10.14
               else SboPoint3 0 0 0)
            else if Corail_isCCD_KHO_S_135 P aL \<or> Corail_isCCD_KHO_A_135 P aL then
               (if offset = 0 then SboPoint3 (- 20) 0 10.21
               else if offset = 1 then SboPoint3 (- 20.75) 0 10.96
               else if offset = 2 then SboPoint3 (- 21.5) 0 11.71
               else if offset = 3 then SboPoint3 (- 22.25) 0 12.46
               else if offset = 4 then SboPoint3 (- 22.87) 0 13.08
               else if offset = 5 then SboPoint3 (- 23.5) 0 13.71
               else if offset = 6 then SboPoint3 (- 24.25) 0 14.46
               else if offset = 7 then SboPoint3 (- 25) 0 15.21
               else if offset = 8 then SboPoint3 (- 26) 0 16.21
               else if offset = 9 then SboPoint3 (- 27) 0 17.21
               else SboPoint3 0 0 0)
            else if Corail_isCCD_KLA_125 P aL then
               (if offset = 0 then SboPoint3 (- 19.99) 0 1.46
               else if offset = 1 then SboPoint3 (- 20.74) 0 1.99
               else if offset = 2 then SboPoint3 (- 21.5) 0 2.51
               else if offset = 3 then SboPoint3 (- 22.26) 0 3
               else if offset = 4 then SboPoint3 (- 22.88) 0 3.47
               else if offset = 5 then SboPoint3 (- 23.49) 0 3.92
               else if offset = 6 then SboPoint3 (- 24.21) 0 4.47
               else if offset = 7 then SboPoint3 (- 24.96) 0 5.01
               else if offset = 8 then SboPoint3 (- 25.85) 0 5.74
               else if offset = 9 then SboPoint3 (- 26.78) 0 6.53
               else SboPoint3 0 0 0)
            else if Corail_isCCD_STD125_S P aL then
               (if offset = 0 then SboPoint3 (- 19) 0 (- 4.11)
               else if offset = 1 then SboPoint3 (- 19.5) 0 (- 3.76)
               else if offset = 2 then SboPoint3 (- 20) 0 (- 3.41)
               else if offset = 3 then SboPoint3 (- 20.75) 0 (- 2.89)
               else SboPoint3 0 0 0)
            else if Corail_isCCD_STD125_A P aL then
               (if offset = 0 then SboPoint3 (- 19) 0 (- 4.11)
               else if offset = 1 then SboPoint3 (- 19.5) 0 (- 3.76)
               else if offset = 2 then SboPoint3 (- 20) 0 (- 3.41)
               else if offset = 3 then SboPoint3 (- 20.75) 0 (- 2.89)
               else if offset = 4 then SboPoint3 (- 21.5) 0 (- 2.36)
               else if offset = 5 then SboPoint3 (- 22.25) 0 (- 1.84)
               else if offset = 6 then SboPoint3 (- 22.87) 0 (- 1.4)
               else if offset = 7 then SboPoint3 (- 23.5) 0 (- 0.96)
               else SboPoint3 0 0 0)
            else if Corail_isCCD_SN_S P aL then
               (if offset = 0 then SboPoint3 (- 19) 0 1.43
               else if offset = 1 then SboPoint3 (- 19.5) 0 1.93
               else if offset = 2 then SboPoint3 (- 20) 0 2.43
               else if offset = 3 then SboPoint3 (- 20.75) 0 3.18
               else SboPoint3 0 0 0)
            else if Corail_isCCD_SN_A P aL then
               (if offset = 0 then SboPoint3 (- 19) 0 1.43
               else if offset = 1 then SboPoint3 (- 19.5) 0 1.93
               else if offset = 2 then SboPoint3 (- 20) 0 2.43
               else if offset = 3 then SboPoint3 (- 20.75) 0 3.18
               else if offset = 4 then SboPoint3 (- 21.5) 0 3.93
               else if offset = 5 then SboPoint3 (- 22.25) 0 4.68
               else if offset = 6 then SboPoint3 (- 22.87) 0 5.3
               else if offset = 7 then SboPoint3 (- 23.5) 0 5.93
               else SboPoint3 0 0 0)
            else SboPoint3 0 0 0)
        })"

definition Corail_getTPR_01 :: "int \<Rightarrow> SboShape3Label \<Rightarrow> SboPoint3 option" where
  "Corail_getTPR_01 P aL =
     HPROJ_DCHECK2 (Corail_isStem P aL)
       (do {
          offset \<leftarrow> Corail_getOffset P aL;
          Some
            (if Corail_isCCD_KS_STD135 P aL \<or> Corail_isCCD_KA_STD135 P aL then
               (if offset = 0 then SboPoint3 (- 38.29) 0 38.29
               else if offset = 1 then SboPoint3 (- 38.79) 0 38.79
               else if offset = 2 then SboPoint3 (- 39.54) 0 39.54
               else if offset = 3 then SboPoint3 (- 40.29) 0 40.29
               else if offset = 4 then SboPoint3 (- 41.03) 0 41.03
               else if offset = 5 then SboPoint3 (- 41.67) 0 41.67
               else if offset = 6 then SboPoint3 (- 42.29) 0 42.29
               else if offset = 7 then SboPoint3 (- 43.04) 0 43.04
               else if offset = 8 then SboPoint3 (- 43.79) 0 43.79
               else if offset = 9 then SboPoint3 (- 44.78) 0 44.78
               else if offset = 10 then SboPoint3 (- 45.79) 0 45.79
               else SboPoint3 0 0 0)
            else if Corail_isCCD_KHO_S_135 P aL \<or> Corail_isCCD_KHO_A_135 P aL then
               (if offset = 0 then SboPoint3 (- 45.65) 0 45.65
               else if offset = 1 then SboPoint3 (- 46.4) 0 46.4
               else if offset = 2 then SboPoint3 (- 47.15) 0 47.15
               else if offset = 3 then SboPoint3 (- 47.9) 0 47.9
               else if offset = 4 then SboPoint3 (- 48.53) 0 48.53
               else if offset = 5 then SboPoint3 (- 49.15) 0 49.15
               else if offset = 6 then SboPoint3 (- 49.9) 0 49.9
               else if offset = 7 then SboPoint3 (- 50.65) 0 50.65
               else if offset = 8 then SboPoint3 (- 51.83) 0 51.83
               else if offset = 9 then SboPoint3 (- 52.86) 0 52.86
               else SboPoint3 0 0 0)
            else if Corail_isCCD_KLA_125 P aL then
               (if offset = 0 then SboPoint3 (- 45.59) 0 31.92
               else if offset = 1 then SboPoint3 (- 46.35) 0 32.45
               else if offset = 2 then SboPoint3 (- 47.09) 0 32.98
               else if offset = 3 then SboPoint3 (- 47.83) 0 33.49
               else if offset = 4 then SboPoint3 (- 48.46) 0 33.93
               else if offset = 5 then SboPoint3 (- 49.08) 0 34.37
               else if offset = 6 then SboPoint3 (- 49.83) 0 34.89
               else if offset = 7 then SboPoint3 (- 50.58) 0 35.41
               else if offset = 8 then SboPoint3 (- 51.78) 0 36.26
               else if offset = 9 then SboPoint3 (- 52.79) 0 36.97
               else SboPoint3 0 0 0)
            else if Corail_isCCD_STD125_S P aL then
               (if offset = 0 then SboPoint3 (- 37.87) 0 26.52
               else if offset = 1 then SboPoint3 (- 38.37) 0 26.87
               else if offset = 2 then SboPoint3 (- 38.87) 0 27.22
               else if offset = 3 then SboPoint3 (- 39.62) 0 27.74
               else SboPoint3 0 0 0)
            else if Corail_isCCD_STD125_A P aL then
               (if offset = 0 then SboPoint3 (- 37.87) 0 26.52
               else if offset = 1 then SboPoint3 (- 38.37) 0 26.87
               else if offset = 2 then SboPoint3 (- 38.87) 0 27.22
               else if offset = 3 then SboPoint3 (- 39.62) 0 27.74
               else if offset = 4 then SboPoint3 (- 40.37) 0 28.27
               else if offset = 5 then SboPoint3 (- 41.12) 0 28.79
               else if offset = 6 then SboPoint3 (- 41.74) 0 29.23
               else if offset = 7 then SboPoint3 (- 42.37) 0 29.67
               else SboPoint3 0 0 0)
            else if Corail_isCCD_SN_S P aL then
               (if offset = 0 then SboPoint3 (- 32.49) 0 32.49
               else if offset = 1 then SboPoint3 (- 32.99) 0 32.99
               else if offset = 2 then SboPoint3 (- 33.49) 0 33.49
               else if offset = 3 then SboPoint3 (- 34.24) 0 34.24
               else SboPoint3 0 0 0)
            else if Corail_isCCD_SN_A P aL then
               (if offset = 0 then SboPoint3 (- 32.49) 0 32.49
               else if offset = 1 then SboPoint3 (- 32.99) 0 32.99
               else if offset = 2 then SboPoint3 (- 33.49) 0 33.49
               else if offset = 3 then SboPoint3 (- 34.24) 0 34.24
               else if offset = 4 then SboPoint3 (- 34.99) 0 34.99
               else if offset = 5 then SboPoint3 (- 35.74) 0 35.74
               else if offset = 6 then SboPoint3 (- 36.36) 0 36.36
               else if offset = 7 then SboPoint3 (- 36.99) 0 36.99
               else SboPoint3 0 0 0)
            else SboPoint3 0 0 0)
        })"

subsection \<open>Transforms\<close>

definition Corail_headToStemMatrix :: "int \<Rightarrow> SboShape3Label \<Rightarrow> SboShape3Label \<Rightarrow> SboMatrix3 option" where
  "Corail_headToStemMatrix P aHeadLabel aStemLabel =
     do {
       neckO \<leftarrow> Corail_getRES_01 P aStemLabel;
       headO \<leftarrow> Corail_getTPR_01 P aStemLabel;
       neckAxis \<leftarrow> unit3 (sub3 headO neckO);
       let l = (if aHeadLabel = s3 (Corail_HEAD_M4 P) then - 3.5
                else if aHeadLabel = s3 (Corail_HEAD_P4 P) then 3.5
                else if aHeadLabel = s3 (Corail_HEAD_P8 P) then 7.0
                else 0);
       Some (transMat3 (add3 headO (scale3 neckAxis l)))
     }"

definition Corail_stemToStemMatrix :: "int \<Rightarrow> SboFemImplantConfig \<Rightarrow> SboFemImplantConfig \<Rightarrow> SboMatrix3 option" where
  "Corail_stemToStemMatrix P aOriginFemIC aTargetFemIC =
     do {
       neck2 \<leftarrow> Corail_getRES_02 P (stemLabel aOriginFemIC);
       neckT2 \<leftarrow> Corail_getRES_02 P (stemLabel aTargetFemIC);
       Some (transMat3 (sub3 neck2 neckT2))
     }"

subsection \<open>Configurations\<close>

text \<open>
  \<open>productName()\<close> returns a constant of the product registry; it is the parameter
  \<open>productName\<close> of \<open>fillAndValidAssembly\<close>.
\<close>

definition Corail_fillAndValidAssembly :: "int \<Rightarrow> string \<Rightarrow> SboFemImplantConfig \<Rightarrow> SboFemImplantConfig" where
  "Corail_fillAndValidAssembly P productName aFemIC =
     (let myFemIC = aFemIC\<lparr>validAssembly := False\<rparr> in
      if requestedSide myFemIC \<noteq> AnatomNone then
        (let bs = Corail_isStem P (stemLabel myFemIC);
             bh = Corail_isHead P (headLabel myFemIC);
             bn = (\<not> isSet (neckLabel myFemIC));
             myFemIC = (if \<not> isSet (cutPlaneLabel myFemIC)
                        then myFemIC\<lparr>cutPlaneLabel := s3 (Corail_CUTPLANE P)\<rparr> else myFemIC);
             b = (bs \<and> bh \<and> bn)
         in if b then
              myFemIC\<lparr>stemProductName := productName, distalShaftProductName := [],
                      headProductName := productName, neckProductName := [],
                      implantSide := AnatomNone, validAssembly := True\<rparr>
            else myFemIC)
      else myFemIC)"

definition Corail_nextPrev :: "int \<Rightarrow> SboFemImplantConfig \<Rightarrow> bool \<Rightarrow> SboFemImplantConfig option" where
  "Corail_nextPrev P aFemIC aNext =
     do {
       l \<leftarrow> Corail_nextPrevStem P (stemLabel aFemIC) aNext;
       Some (aFemIC\<lparr>stemLabel := l\<rparr>)
     }"

section \<open>Amistem (amistem\_scheme.h)\<close>

text \<open>The enumeration \<open>S3UID\<close> starts at \<open>ProductRangeStartsAt + 50\<close>.\<close>

definition Amistem_STEM_STD_0 :: "int \<Rightarrow> int" where "Amistem_STEM_STD_0 P = P + 50"
definition Amistem_STEM_STD_1 :: "int \<Rightarrow> int" where "Amistem_STEM_STD_1 P = P + 50 + 1"
definition Amistem_STEM_STD_2 :: "int \<Rightarrow> int" where "Amistem_STEM_STD_2 P = P + 50 + 2"
definition Amistem_STEM_STD_3 :: "int \<Rightarrow> int" where "Amistem_STEM_STD_3 P = P + 50 + 3"
definition Amistem_STEM_STD_4 :: "int \<Rightarrow> int" where "Amistem_STEM_STD_4 P = P + 50 + 4"
definition Amistem_STEM_STD_5 :: "int \<Rightarrow> int" where "Amistem_STEM_STD_5 P = P + 50 + 5"
definition Amistem_STEM_STD_6 :: "int \<Rightarrow> int" where "Amistem_STEM_STD_6 P = P + 50 + 6"
definition Amistem_STEM_STD_7 :: "int \<Rightarrow> int" where "Amistem_STEM_STD_7 P = P + 50 + 7"
definition Amistem_STEM_STD_8 :: "int \<Rightarrow> int" where "Amistem_STEM_STD_8 P = P + 50 + 8"
definition Amistem_STEM_STD_9 :: "int \<Rightarrow> int" where "Amistem_STEM_STD_9 P = P + 50 + 9"
definition Amistem_STEM_STD_10 :: "int \<Rightarrow> int" where "Amistem_STEM_STD_10 P = P + 50 + 10"
definition Amistem_STEM_LAT_0 :: "int \<Rightarrow> int" where "Amistem_STEM_LAT_0 P = P + 50 + 11"
definition Amistem_STEM_LAT_1 :: "int \<Rightarrow> int" where "Amistem_STEM_LAT_1 P = P + 50 + 12"
definition Amistem_STEM_LAT_2 :: "int \<Rightarrow> int" where "Amistem_STEM_LAT_2 P = P + 50 + 13"
definition Amistem_STEM_LAT_3 :: "int \<Rightarrow> int" where "Amistem_STEM_LAT_3 P = P + 50 + 14"
definition Amistem_STEM_LAT_4 :: "int \<Rightarrow> int" where "Amistem_STEM_LAT_4 P = P + 50 + 15"
definition Amistem_STEM_LAT_5 :: "int \<Rightarrow> int" where "Amistem_STEM_LAT_5 P = P + 50 + 16"
definition Amistem_STEM_LAT_6 :: "int \<Rightarrow> int" where "Amistem_STEM_LAT_6 P = P + 50 + 17"
definition Amistem_STEM_LAT_7 :: "int \<Rightarrow> int" where "Amistem_STEM_LAT_7 P = P + 50 + 18"
definition Amistem_STEM_LAT_8 :: "int \<Rightarrow> int" where "Amistem_STEM_LAT_8 P = P + 50 + 19"
definition Amistem_STEM_STD_SN_0 :: "int \<Rightarrow> int" where "Amistem_STEM_STD_SN_0 P = P + 50 + 20"
definition Amistem_STEM_STD_SN_1 :: "int \<Rightarrow> int" where "Amistem_STEM_STD_SN_1 P = P + 50 + 21"
definition Amistem_STEM_STD_SN_2 :: "int \<Rightarrow> int" where "Amistem_STEM_STD_SN_2 P = P + 50 + 22"
definition Amistem_STEM_STD_SN_3 :: "int \<Rightarrow> int" where "Amistem_STEM_STD_SN_3 P = P + 50 + 23"
definition Amistem_STEM_STD_SN_4 :: "int \<Rightarrow> int" where "Amistem_STEM_STD_SN_4 P = P + 50 + 24"
definition Amistem_STEM_STD_SN_5 :: "int \<Rightarrow> int" where "Amistem_STEM_STD_SN_5 P = P + 50 + 25"
definition Amistem_STEM_STD_SN_6 :: "int \<Rightarrow> int" where "Amistem_STEM_STD_SN_6 P = P + 50 + 26"
definition Amistem_STEM_STD_SN_7 :: "int \<Rightarrow> int" where "Amistem_STEM_STD_SN_7 P = P + 50 + 27"
definition Amistem_STEM_STD_SN_8 :: "int \<Rightarrow> int" where "Amistem_STEM_STD_SN_8 P = P + 50 + 28"
definition Amistem_STEM_STD_SN_9 :: "int \<Rightarrow> int" where "Amistem_STEM_STD_SN_9 P = P + 50 + 29"
definition Amistem_STEM_STD_SN_10 :: "int \<Rightarrow> int" where "Amistem_STEM_STD_SN_10 P = P + 50 + 30"
definition Amistem_STEM_LAT_SN_0 :: "int \<Rightarrow> int" where "Amistem_STEM_LAT_SN_0 P = P + 50 + 31"
definition Amistem_STEM_LAT_SN_1 :: "int \<Rightarrow> int" where "Amistem_STEM_LAT_SN_1 P = P + 50 + 32"
definition Amistem_STEM_LAT_SN_2 :: "int \<Rightarrow> int" where "Amistem_STEM_LAT_SN_2 P = P + 50 + 33"
definition Amistem_STEM_LAT_SN_3 :: "int \<Rightarrow> int" where "Amistem_STEM_LAT_SN_3 P = P + 50 + 34"
definition Amistem_STEM_LAT_SN_4 :: "int \<Rightarrow> int" where "Amistem_STEM_LAT_SN_4 P = P + 50 + 35"
definition Amistem_STEM_LAT_SN_5 :: "int \<Rightarrow> int" where "Amistem_STEM_LAT_SN_5 P = P + 50 + 36"
definition Amistem_STEM_LAT_SN_6 :: "int \<Rightarrow> int" where "Amistem_STEM_LAT_SN_6 P = P + 50 + 37"
definition Amistem_STEM_LAT_SN_7 :: "int \<Rightarrow> int" where "Amistem_STEM_LAT_SN_7 P = P + 50 + 38"
definition Amistem_STEM_LAT_SN_8 :: "int \<Rightarrow> int" where "Amistem_STEM_LAT_SN_8 P = P + 50 + 39"
definition Amistem_CUTPLANE :: "int \<Rightarrow> int" where "Amistem_CUTPLANE P = P + 50 + 40"
definition Amistem_HEAD_M4 :: "int \<Rightarrow> int" where "Amistem_HEAD_M4 P = P + 50 + 41"
definition Amistem_HEAD_P0 :: "int \<Rightarrow> int" where "Amistem_HEAD_P0 P = P + 50 + 42"
definition Amistem_HEAD_P4 :: "int \<Rightarrow> int" where "Amistem_HEAD_P4 P = P + 50 + 43"
definition Amistem_HEAD_P8 :: "int \<Rightarrow> int" where "Amistem_HEAD_P8 P = P + 50 + 44"
definition Amistem_HEAD_P12 :: "int \<Rightarrow> int" where "Amistem_HEAD_P12 P = P + 50 + 45"
definition Amistem_RANGE_CCD_STD :: "int \<Rightarrow> int" where "Amistem_RANGE_CCD_STD P = P + 50 + 46"
definition Amistem_RANGE_CCD_LAT :: "int \<Rightarrow> int" where "Amistem_RANGE_CCD_LAT P = P + 50 + 47"
definition Amistem_RANGE_CCD_STD_SN :: "int \<Rightarrow> int" where "Amistem_RANGE_CCD_STD_SN P = P + 50 + 48"
definition Amistem_RANGE_CCD_LAT_SN :: "int \<Rightarrow> int" where "Amistem_RANGE_CCD_LAT_SN P = P + 50 + 49"

lemmas Amistem_S3UID_defs =
  Amistem_STEM_STD_0_def Amistem_STEM_STD_1_def Amistem_STEM_STD_2_def Amistem_STEM_STD_3_def
  Amistem_STEM_STD_4_def Amistem_STEM_STD_5_def Amistem_STEM_STD_6_def Amistem_STEM_STD_7_def
  Amistem_STEM_STD_8_def Amistem_STEM_STD_9_def Amistem_STEM_STD_10_def Amistem_STEM_LAT_0_def
  Amistem_STEM_LAT_1_def Amistem_STEM_LAT_2_def Amistem_STEM_LAT_3_def Amistem_STEM_LAT_4_def
  Amistem_STEM_LAT_5_def Amistem_STEM_LAT_6_def Amistem_STEM_LAT_7_def Amistem_STEM_LAT_8_def
  Amistem_STEM_STD_SN_0_def Amistem_STEM_STD_SN_1_def Amistem_STEM_STD_SN_2_def
  Amistem_STEM_STD_SN_3_def Amistem_STEM_STD_SN_4_def Amistem_STEM_STD_SN_5_def
  Amistem_STEM_STD_SN_6_def Amistem_STEM_STD_SN_7_def Amistem_STEM_STD_SN_8_def
  Amistem_STEM_STD_SN_9_def Amistem_STEM_STD_SN_10_def Amistem_STEM_LAT_SN_0_def
  Amistem_STEM_LAT_SN_1_def Amistem_STEM_LAT_SN_2_def Amistem_STEM_LAT_SN_3_def
  Amistem_STEM_LAT_SN_4_def Amistem_STEM_LAT_SN_5_def Amistem_STEM_LAT_SN_6_def
  Amistem_STEM_LAT_SN_7_def Amistem_STEM_LAT_SN_8_def Amistem_CUTPLANE_def Amistem_HEAD_M4_def
  Amistem_HEAD_P0_def Amistem_HEAD_P4_def Amistem_HEAD_P8_def Amistem_HEAD_P12_def
  Amistem_RANGE_CCD_STD_def Amistem_RANGE_CCD_LAT_def Amistem_RANGE_CCD_STD_SN_def
  Amistem_RANGE_CCD_LAT_SN_def

subsection \<open>Label classification\<close>

definition Amistem_isCCD_STD :: "int \<Rightarrow> SboShape3Label \<Rightarrow> bool" where
  "Amistem_isCCD_STD P l = in_closed_range l (s3 (Amistem_STEM_STD_0 P)) (s3 (Amistem_STEM_STD_10 P))"

definition Amistem_isCCD_LAT :: "int \<Rightarrow> SboShape3Label \<Rightarrow> bool" where
  "Amistem_isCCD_LAT P l = in_closed_range l (s3 (Amistem_STEM_LAT_0 P)) (s3 (Amistem_STEM_LAT_8 P))"

definition Amistem_isCCD_STD_SN :: "int \<Rightarrow> SboShape3Label \<Rightarrow> bool" where
  "Amistem_isCCD_STD_SN P l =
     in_closed_range l (s3 (Amistem_STEM_STD_SN_0 P)) (s3 (Amistem_STEM_STD_SN_10 P))"

definition Amistem_isCCD_LAT_SN :: "int \<Rightarrow> SboShape3Label \<Rightarrow> bool" where
  "Amistem_isCCD_LAT_SN P l =
     in_closed_range l (s3 (Amistem_STEM_LAT_SN_0 P)) (s3 (Amistem_STEM_LAT_SN_8 P))"

definition Amistem_isSTD :: "int \<Rightarrow> SboShape3Label \<Rightarrow> bool" where
  "Amistem_isSTD P l = (Amistem_isCCD_STD P l \<or> Amistem_isCCD_STD_SN P l)"

definition Amistem_isLAT :: "int \<Rightarrow> SboShape3Label \<Rightarrow> bool" where
  "Amistem_isLAT P l = (Amistem_isCCD_LAT P l \<or> Amistem_isCCD_LAT_SN P l)"

definition Amistem_isStem :: "int \<Rightarrow> SboShape3Label \<Rightarrow> bool" where
  "Amistem_isStem P l =
     (Amistem_isCCD_STD P l \<or> Amistem_isCCD_LAT P l \<or> Amistem_isCCD_STD_SN P l
      \<or> Amistem_isCCD_LAT_SN P l)"

definition Amistem_isHead :: "int \<Rightarrow> SboShape3Label \<Rightarrow> bool" where
  "Amistem_isHead P l = in_closed_range l (s3 (Amistem_HEAD_M4 P)) (s3 (Amistem_HEAD_P12 P))"

definition Amistem_isRange :: "int \<Rightarrow> SboShape3Label \<Rightarrow> bool" where
  "Amistem_isRange P l =
     in_closed_range l (s3 (Amistem_RANGE_CCD_STD P)) (s3 (Amistem_RANGE_CCD_LAT_SN P))"

lemmas Amistem_isCCD_defs =
  Amistem_isCCD_STD_def Amistem_isCCD_LAT_def Amistem_isCCD_STD_SN_def Amistem_isCCD_LAT_SN_def
  Amistem_isSTD_def Amistem_isLAT_def Amistem_isStem_def Amistem_isHead_def Amistem_isRange_def

definition Amistem_nextPrevStem :: "int \<Rightarrow> SboShape3Label \<Rightarrow> bool \<Rightarrow> SboShape3Label option" where
  "Amistem_nextPrevStem P aL aNext =
     HPROJ_DCHECK2 (Amistem_isStem P aL)
       (do {
          nL \<leftarrow> label_next aL (if aNext then 1 else - 1);
          Some
           (if Amistem_isCCD_STD_SN P aL then (if Amistem_isCCD_STD_SN P nL then nL else aL)
            else if Amistem_isCCD_LAT_SN P aL then (if Amistem_isCCD_LAT_SN P nL then nL else aL)
            else if Amistem_isCCD_LAT P aL then (if Amistem_isCCD_LAT P nL then nL else aL)
            else (if Amistem_isCCD_STD P nL then nL else aL))
        })"

definition Amistem_getCCDRange :: "int \<Rightarrow> SboShape3Label \<Rightarrow> SboShape3Label" where
  "Amistem_getCCDRange P aL =
     (if Amistem_isCCD_STD P aL then s3 (Amistem_RANGE_CCD_STD P)
      else if Amistem_isCCD_LAT P aL then s3 (Amistem_RANGE_CCD_LAT P)
      else if Amistem_isCCD_STD_SN P aL then s3 (Amistem_RANGE_CCD_STD_SN P)
      else if Amistem_isCCD_LAT_SN P aL then s3 (Amistem_RANGE_CCD_LAT_SN P)
      else NullLabel)"

text \<open>The local structure \<open>R\<close> of \<open>getRangeStats\<close>: \<open>{r0, r1, l, s, label0}\<close>.\<close>

record Amistem_R =
  Amistem_r0 :: int
  Amistem_r1 :: int
  Amistem_l :: int
  Amistem_s :: int
  Amistem_label0 :: SboShape3Label

definition Amistem_getRangeStats :: "int \<Rightarrow> SboShape3Label \<Rightarrow> Amistem_R option" where
  "Amistem_getRangeStats P aL =
     HPROJ_DCHECK2 (Amistem_isStem P aL \<or> Amistem_isRange P aL)
       (Some
         (if Amistem_isStem P aL \<and> Amistem_isCCD_STD P aL then
            \<lparr>Amistem_r0 = 0, Amistem_r1 = 10, Amistem_l = 0, Amistem_s = 10,
             Amistem_label0 = s3 (Amistem_STEM_STD_0 P)\<rparr>
          else if Amistem_isStem P aL \<and> Amistem_isCCD_LAT P aL then
            \<lparr>Amistem_r0 = 0, Amistem_r1 = 8, Amistem_l = 11, Amistem_s = 19,
             Amistem_label0 = s3 (Amistem_STEM_LAT_0 P)\<rparr>
          else if Amistem_isStem P aL \<and> Amistem_isCCD_STD_SN P aL then
            \<lparr>Amistem_r0 = 0, Amistem_r1 = 10, Amistem_l = 20, Amistem_s = 30,
             Amistem_label0 = s3 (Amistem_STEM_STD_SN_0 P)\<rparr>
          else if Amistem_isStem P aL \<and> Amistem_isCCD_LAT_SN P aL then
            \<lparr>Amistem_r0 = 0, Amistem_r1 = 8, Amistem_l = 31, Amistem_s = 39,
             Amistem_label0 = s3 (Amistem_STEM_LAT_SN_0 P)\<rparr>
          else if aL = s3 (Amistem_RANGE_CCD_STD P) then
            \<lparr>Amistem_r0 = 0, Amistem_r1 = 10, Amistem_l = 0, Amistem_s = 10,
             Amistem_label0 = s3 (Amistem_STEM_STD_0 P)\<rparr>
          else if aL = s3 (Amistem_RANGE_CCD_LAT P) then
            \<lparr>Amistem_r0 = 0, Amistem_r1 = 8, Amistem_l = 11, Amistem_s = 19,
             Amistem_label0 = s3 (Amistem_STEM_LAT_0 P)\<rparr>
          else if aL = s3 (Amistem_RANGE_CCD_STD_SN P) then
            \<lparr>Amistem_r0 = 0, Amistem_r1 = 10, Amistem_l = 20, Amistem_s = 30,
             Amistem_label0 = s3 (Amistem_STEM_STD_SN_0 P)\<rparr>
          else if aL = s3 (Amistem_RANGE_CCD_LAT_SN P) then
            \<lparr>Amistem_r0 = 0, Amistem_r1 = 8, Amistem_l = 31, Amistem_s = 39,
             Amistem_label0 = s3 (Amistem_STEM_LAT_SN_0 P)\<rparr>
          else
            \<lparr>Amistem_r0 = 0, Amistem_r1 = 0, Amistem_l = 0, Amistem_s = 0,
             Amistem_label0 = NullLabel\<rparr>))"

definition Amistem_getStemSize :: "int \<Rightarrow> SboShape3Label \<Rightarrow> int option" where
  "Amistem_getStemSize P aL =
     HPROJ_DCHECK2 (Amistem_isStem P aL)
       (Some
         (if aL = s3 (Amistem_STEM_STD_0 P) then 0
         else if aL = s3 (Amistem_STEM_STD_1 P) then 1
         else if aL = s3 (Amistem_STEM_STD_2 P) then 2
         else if aL = s3 (Amistem_STEM_STD_3 P) then 3
         else if aL = s3 (Amistem_STEM_STD_4 P) then 4
         else if aL = s3 (Amistem_STEM_STD_5 P) then 5
         else if aL = s3 (Amistem_STEM_STD_6 P) then 6
         else if aL = s3 (Amistem_STEM_STD_7 P) then 7
         else if aL = s3 (Amistem_STEM_STD_8 P) then 8
         else if aL = s3 (Amistem_STEM_STD_9 P) then 9
         else if aL = s3 (Amistem_STEM_STD_10 P) then 10
         else if aL = s3 (Amistem_STEM_LAT_0 P) then 0
         else if aL = s3 (Amistem_STEM_LAT_1 P) then 1
         else if aL = s3 (Amistem_STEM_LAT_2 P) then 2
         else if aL = s3 (Amistem_STEM_LAT_3 P) then 3
         else if aL = s3 (Amistem_STEM_LAT_4 P) then 4
         else if aL = s3 (Amistem_STEM_LAT_5 P) then 5
         else if aL = s3 (Amistem_STEM_LAT_6 P) then 6
         else if aL = s3 (Amistem_STEM_LAT_7 P) then 7
         else if aL = s3 (Amistem_STEM_LAT_8 P) then 8
         else if aL = s3 (Amistem_STEM_STD_SN_0 P) then 0
         else if aL = s3 (Amistem_STEM_STD_SN_1 P) then 1
         else if aL = s3 (Amistem_STEM_STD_SN_2 P) then 2
         else if aL = s3 (Amistem_STEM_STD_SN_3 P) then 3
         else if aL = s3 (Amistem_STEM_STD_SN_4 P) then 4
         else if aL = s3 (Amistem_STEM_STD_SN_5 P) then 5
         else if aL = s3 (Amistem_STEM_STD_SN_6 P) then 6
         else if aL = s3 (Amistem_STEM_STD_SN_7 P) then 7
         else if aL = s3 (Amistem_STEM_STD_SN_8 P) then 8
         else if aL = s3 (Amistem_STEM_STD_SN_9 P) then 9
         else if aL = s3 (Amistem_STEM_STD_SN_10 P) then 10
         else if aL = s3 (Amistem_STEM_LAT_SN_0 P) then 0
         else if aL = s3 (Amistem_STEM_LAT_SN_1 P) then 1
         else if aL = s3 (Amistem_STEM_LAT_SN_2 P) then 2
         else if aL = s3 (Amistem_STEM_LAT_SN_3 P) then 3
         else if aL = s3 (Amistem_STEM_LAT_SN_4 P) then 4
         else if aL = s3 (Amistem_STEM_LAT_SN_5 P) then 5
         else if aL = s3 (Amistem_STEM_LAT_SN_6 P) then 6
         else if aL = s3 (Amistem_STEM_LAT_SN_7 P) then 7
         else if aL = s3 (Amistem_STEM_LAT_SN_8 P) then 8
          else 0))"

subsection \<open>Similar size in another sub-range\<close>

text \<open>
  \<open>getSimilarLabel\<close>. The two early \<open>return aLabel\<close> statements are the \<open>Inl\<close> branches;
  \<open>Inr\<close> carries the value of \<open>tsz\<close> on to the statements that follow.
\<close>

definition Amistem_getSimilarLabel :: "int \<Rightarrow> SboShape3Label \<Rightarrow> SboShape3Label \<Rightarrow> SboShape3Label option" where
  "Amistem_getSimilarLabel P aLabel aTargetR =
     HPROJ_DCHECK2 (Amistem_isStem P aLabel \<or> Amistem_isRange P aLabel)
       (do {
          let sourceR = Amistem_getCCDRange P aLabel;
          sz \<leftarrow> Amistem_getStemSize P aLabel;
          S \<leftarrow> Amistem_getRangeStats P sourceR;
          T \<leftarrow> Amistem_getRangeStats P aTargetR;
          let tsz = sz;
          if sourceR = s3 (Amistem_RANGE_CCD_STD P) then
            (case (if aTargetR = s3 (Amistem_RANGE_CCD_STD_SN P)
                   then Inr (clamp sz (Amistem_r0 T) (Amistem_r1 T))
                   else if sz = 0 \<or> sz = 10 then Inl aLabel else Inr tsz) of
               Inl same \<Rightarrow> Some same
             | Inr tsz \<Rightarrow>
                 (let tsz = (if aTargetR = s3 (Amistem_RANGE_CCD_LAT P)
                             then clamp (sz - 1) (Amistem_r0 T) (Amistem_r1 T) else tsz);
                      tsz = (if aTargetR = s3 (Amistem_RANGE_CCD_LAT_SN P)
                             then clamp (sz - 1) (Amistem_r0 T) (Amistem_r1 T) else tsz)
                  in label_next (Amistem_label0 T) tsz))
          else if sourceR = s3 (Amistem_RANGE_CCD_LAT P) then
            (let tsz = (if aTargetR = s3 (Amistem_RANGE_CCD_STD P)
                        then clamp (sz + 1) (Amistem_r0 T) (Amistem_r1 T) else tsz);
                 tsz = (if aTargetR = s3 (Amistem_RANGE_CCD_STD_SN P)
                        then clamp (sz + 1) (Amistem_r0 T) (Amistem_r1 T) else tsz)
             in label_next (Amistem_label0 T) tsz)
          else if sourceR = s3 (Amistem_RANGE_CCD_STD_SN P) then
            (case (if aTargetR = s3 (Amistem_RANGE_CCD_STD P)
                   then Inr (clamp sz (Amistem_r0 T) (Amistem_r1 T))
                   else if sz = 0 \<or> sz = 10 then Inl aLabel else Inr tsz) of
               Inl same \<Rightarrow> Some same
             | Inr tsz \<Rightarrow>
                 (let tsz = (if aTargetR = s3 (Amistem_RANGE_CCD_LAT P)
                             then clamp (sz - 1) (Amistem_r0 T) (Amistem_r1 T) else tsz);
                      tsz = (if aTargetR = s3 (Amistem_RANGE_CCD_LAT_SN P)
                             then clamp (sz - 1) (Amistem_r0 T) (Amistem_r1 T) else tsz)
                  in label_next (Amistem_label0 T) tsz))
          else if sourceR = s3 (Amistem_RANGE_CCD_LAT_SN P) then
            (let tsz = (if aTargetR = s3 (Amistem_RANGE_CCD_STD P)
                        then clamp (sz + 1) (Amistem_r0 T) (Amistem_r1 T) else tsz);
                 tsz = (if aTargetR = s3 (Amistem_RANGE_CCD_STD_SN P)
                        then clamp (sz + 1) (Amistem_r0 T) (Amistem_r1 T) else tsz)
             in label_next (Amistem_label0 T) tsz)
          else label_next (Amistem_label0 T) tsz
        })"

text \<open>
  The catalogue of \<open>SboAmistem::parts\<close> names every stem by its family and its size name:
  the STD and SN STD families run 00, 0, 1, ..., 9 and the LAT and SN LAT families run
  0, 1, ..., 8. The size names of a sub-range, in size order, keyed by the range label:
\<close>

definition Amistem_stdSizeNames :: "string list" where
  "Amistem_stdSizeNames =
     [''00'', ''0'', ''1'', ''2'', ''3'', ''4''] @ [''5'', ''6'', ''7'', ''8'', ''9'']"

definition Amistem_latSizeNames :: "string list" where
  "Amistem_latSizeNames = [''0'', ''1'', ''2'', ''3'', ''4''] @ [''5'', ''6'', ''7'', ''8'']"

definition Amistem_catalogSizes :: "int \<Rightarrow> SboShape3Label \<Rightarrow> string list" where
  "Amistem_catalogSizes P r =
     (if r = s3 (Amistem_RANGE_CCD_STD P) \<or> r = s3 (Amistem_RANGE_CCD_STD_SN P)
      then Amistem_stdSizeNames
      else if r = s3 (Amistem_RANGE_CCD_LAT P) \<or> r = s3 (Amistem_RANGE_CCD_LAT_SN P)
      then Amistem_latSizeNames
      else [])"

definition Amistem_catalogSize :: "int \<Rightarrow> SboShape3Label \<Rightarrow> string option" where
  "Amistem_catalogSize P aL =
     do {
       sz \<leftarrow> Amistem_getStemSize P aL;
       let names = Amistem_catalogSizes P (Amistem_getCCDRange P aL);
       if 0 \<le> sz \<and> nat sz < length names then Some (names ! nat sz) else None
     }"

definition Amistem_hasCorrespondent :: "int \<Rightarrow> SboShape3Label \<Rightarrow> SboShape3Label \<Rightarrow> bool" where
  "Amistem_hasCorrespondent P aL aTargetR =
     (case Amistem_catalogSize P aL of
        None \<Rightarrow> False
      | Some n \<Rightarrow> n \<in> set (Amistem_catalogSizes P aTargetR))"

subsection \<open>Landmarks and shifts\<close>

definition Amistem_getRES_01 :: "int \<Rightarrow> SboShape3Label \<Rightarrow> SboPoint3 option" where
  "Amistem_getRES_01 P aLabel =
     HPROJ_DCHECK2 (Amistem_isStem P aLabel)
       (do {
          let sourceR = Amistem_getCCDRange P aLabel;
          sz \<leftarrow> Amistem_getStemSize P aLabel;
          Some
            (if sourceR = s3 (Amistem_RANGE_CCD_STD P) then
               (if sz = 0 then SboPoint3 0 14.52 14.52
               else if sz = 1 then SboPoint3 0 14.78 14.78
               else if sz = 2 then SboPoint3 0 15.49 15.49
               else if sz = 3 then SboPoint3 0 16.19 16.19
               else if sz = 4 then SboPoint3 0 16.90 16.90
               else if sz = 5 then SboPoint3 0 17.54 17.54
               else if sz = 6 then SboPoint3 0 18.17 18.17
               else if sz = 7 then SboPoint3 0 18.80 18.80
               else if sz = 8 then SboPoint3 0 19.37 19.37
               else if sz = 9 then SboPoint3 0 20.07 20.07
               else if sz = 10 then SboPoint3 0 20.78 20.78
               else SboPoint3 0 0 0)
            else if sourceR = s3 (Amistem_RANGE_CCD_LAT P) then
               (if sz = 0 then SboPoint3 0 13.99 10.54
               else if sz = 1 then SboPoint3 0 14.70 11.08
               else if sz = 2 then SboPoint3 0 15.40 11.61
               else if sz = 3 then SboPoint3 0 16.35 12.32
               else if sz = 4 then SboPoint3 0 16.76 12.63
               else if sz = 5 then SboPoint3 0 17.38 13.1
               else if sz = 6 then SboPoint3 0 17.88 13.55
               else if sz = 7 then SboPoint3 0 18.59 14.01
               else if sz = 8 then SboPoint3 0 19.2 14.47
               else SboPoint3 0 0 0)
            else if sourceR = s3 (Amistem_RANGE_CCD_STD_SN P) then
               (if sz = 0 then SboPoint3 0 14.51 14.51
               else if sz = 1 then SboPoint3 0 14.77 14.77
               else if sz = 2 then SboPoint3 0 15.48 15.48
               else if sz = 3 then SboPoint3 0 16.19 16.19
               else if sz = 4 then SboPoint3 0 16.9 16.9
               else if sz = 5 then SboPoint3 0 17.53 17.53
               else if sz = 6 then SboPoint3 0 18.17 18.17
               else if sz = 7 then SboPoint3 0 18.8 18.8
               else if sz = 8 then SboPoint3 0 19.36 19.36
               else if sz = 9 then SboPoint3 0 20.07 20.07
               else if sz = 10 then SboPoint3 0 20.78 20.78
               else SboPoint3 0 0 0)
            else if sourceR = s3 (Amistem_RANGE_CCD_LAT_SN P) then
               (if sz = 0 then SboPoint3 0 13.99 10.54
               else if sz = 1 then SboPoint3 0 14.7 11.08
               else if sz = 2 then SboPoint3 0 15.4 11.61
               else if sz = 3 then SboPoint3 0 16.35 12.32
               else if sz = 4 then SboPoint3 0 16.76 12.63
               else if sz = 5 then SboPoint3 0 17.38 13.1
               else if sz = 6 then SboPoint3 0 17.98 13.55
               else if sz = 7 then SboPoint3 0 18.59 14.01
               else if sz = 8 then SboPoint3 0 19.2 14.47
               else SboPoint3 0 0 0)
            else SboPoint3 0 0 0)
        })"

definition Amistem_getRES_02 :: "int \<Rightarrow> SboShape3Label \<Rightarrow> SboPoint3 option" where
  "Amistem_getRES_02 P aLabel =
     HPROJ_DCHECK2 (Amistem_isStem P aLabel)
       (do {
          let sourceR = Amistem_getCCDRange P aLabel;
          sz \<leftarrow> Amistem_getStemSize P aLabel;
          Some (SboPoint3 0 0 0)
        })"

definition Amistem_getShift :: "int \<Rightarrow> SboShape3Label \<Rightarrow> SboShape3Label \<Rightarrow> SboMatrix3 option" where
  "Amistem_getShift P aSourceL aTargetL =
     do {
       neckOS \<leftarrow> Amistem_getRES_01 P aSourceL;
       neckOT \<leftarrow> Amistem_getRES_01 P aTargetL;
       sz \<leftarrow> Amistem_getStemSize P aSourceL;
       Some
        (if Amistem_isSTD P aSourceL \<and> Amistem_isSTD P aTargetL then
           transMat3 (sub3 neckOS neckOT)
         else if Amistem_isCCD_LAT P aSourceL \<and> Amistem_isCCD_LAT P aTargetL then
           transMat3 (sub3 neckOS neckOT)
         else if Amistem_isCCD_LAT_SN P aSourceL \<and> Amistem_isCCD_LAT_SN P aTargetL then
           transMat3 (sub3 neckOS neckOT)
         else if Amistem_isCCD_STD P aSourceL \<and> Amistem_isCCD_LAT P aTargetL then
           (let t = (if sz = 1 then 5.89
                    else if sz = 2 then 6.03
                    else if sz = 3 then 6.22
                    else if sz = 4 then 6.39
                    else if sz = 5 then 6.55
                    else if sz = 6 then 6.71
                    else if sz = 7 then 6.85
                    else if sz = 8 then 7.0
                    else if sz = 9 then 7.26
                    else 0)
            in transMat3 (SboPoint3 0 0 t))
         else if Amistem_isCCD_LAT P aSourceL \<and> Amistem_isCCD_STD P aTargetL then
           (let t = (if sz = 0 then 5.89
                    else if sz = 1 then 6.03
                    else if sz = 2 then 6.22
                    else if sz = 3 then 6.39
                    else if sz = 4 then 6.55
                    else if sz = 5 then 6.71
                    else if sz = 6 then 6.85
                    else if sz = 7 then 7.0
                    else if sz = 8 then 7.26
                    else 0)
            in transMat3 (SboPoint3 0 0 (- t)))
         else if Amistem_isCCD_STD_SN P aSourceL \<and> Amistem_isCCD_LAT_SN P aTargetL then
           (let t = (if sz = 1 then 5.01
                    else if sz = 2 then 5.19
                    else if sz = 3 then 5.38
                    else if sz = 4 then 5.58
                    else if sz = 5 then 5.69
                    else if sz = 6 then 5.87
                    else if sz = 7 then 6.07
                    else if sz = 8 then 6.13
                    else if sz = 9 then 6.48
                    else 0)
            in transMat3 (SboPoint3 0 0 t))
         else if Amistem_isCCD_LAT_SN P aSourceL \<and> Amistem_isCCD_STD_SN P aTargetL then
           (let t = (if sz = 0 then 5.01
                    else if sz = 1 then 5.19
                    else if sz = 2 then 5.38
                    else if sz = 3 then 5.58
                    else if sz = 4 then 5.69
                    else if sz = 5 then 5.87
                    else if sz = 6 then 6.07
                    else if sz = 7 then 6.13
                    else if sz = 8 then 6.48
                    else 0)
            in transMat3 (SboPoint3 0 0 (- t)))
         else idMat3)
     }"

definition Amistem_stemToStemMatrix :: "int \<Rightarrow> SboFemImplantConfig \<Rightarrow> SboFemImplantConfig \<Rightarrow> SboMatrix3 option" where
  "Amistem_stemToStemMatrix P aOriginFemIC aTargetFemIC =
     (let src = stemLabel aOriginFemIC; tgt = stemLabel aTargetFemIC in
      if Amistem_isCCD_STD P src \<and> Amistem_isCCD_LAT_SN P tgt then
        do {
          sno \<leftarrow> Amistem_getSimilarLabel P src (s3 (Amistem_RANGE_CCD_STD_SN P));
          a \<leftarrow> Amistem_getShift P sno tgt;
          b \<leftarrow> Amistem_getShift P src sno;
          Some (mat_mult a b)
        }
      else if Amistem_isCCD_LAT_SN P src \<and> Amistem_isCCD_STD P tgt then
        do {
          snt \<leftarrow> Amistem_getSimilarLabel P tgt (s3 (Amistem_RANGE_CCD_STD_SN P));
          a \<leftarrow> Amistem_getShift P snt tgt;
          b \<leftarrow> Amistem_getShift P src snt;
          Some (mat_mult a b)
        }
      else if Amistem_isCCD_LAT_SN P src \<and> Amistem_isCCD_LAT P tgt then
        do {
          sno \<leftarrow> Amistem_getSimilarLabel P src (s3 (Amistem_RANGE_CCD_STD_SN P));
          stdt \<leftarrow> Amistem_getSimilarLabel P tgt (s3 (Amistem_RANGE_CCD_STD P));
          a \<leftarrow> Amistem_getShift P stdt tgt;
          b \<leftarrow> Amistem_getShift P sno stdt;
          c \<leftarrow> Amistem_getShift P src sno;
          Some (mat_mult (mat_mult a b) c)
        }
      else if Amistem_isCCD_STD_SN P src \<and> Amistem_isCCD_LAT P tgt then
        do {
          stdo \<leftarrow> Amistem_getSimilarLabel P src (s3 (Amistem_RANGE_CCD_STD P));
          a \<leftarrow> Amistem_getShift P stdo tgt;
          b \<leftarrow> Amistem_getShift P src stdo;
          Some (mat_mult a b)
        }
      else if Amistem_isCCD_LAT P src \<and> Amistem_isCCD_STD_SN P tgt then
        do {
          stdo \<leftarrow> Amistem_getSimilarLabel P src (s3 (Amistem_RANGE_CCD_STD P));
          a \<leftarrow> Amistem_getShift P stdo tgt;
          b \<leftarrow> Amistem_getShift P src stdo;
          Some (mat_mult a b)
        }
      else if Amistem_isCCD_LAT P src \<and> Amistem_isCCD_LAT_SN P tgt then
        do {
          stdo \<leftarrow> Amistem_getSimilarLabel P src (s3 (Amistem_RANGE_CCD_STD P));
          snt \<leftarrow> Amistem_getSimilarLabel P tgt (s3 (Amistem_RANGE_CCD_STD_SN P));
          a \<leftarrow> Amistem_getShift P snt tgt;
          b \<leftarrow> Amistem_getShift P stdo snt;
          c \<leftarrow> Amistem_getShift P src stdo;
          Some (mat_mult (mat_mult a b) c)
        }
      else Amistem_getShift P src tgt)"

section \<open>The sub-range structure of Ecofit and Actis\<close>

text \<open>
  \<open>implantcast_ecofit_scheme.h\<close> and \<open>johnson_actis_scheme.h\<close> declare the same structure
  \<open>R\<close> with the same member functions: the inclusive size bounds, the label of size 0 and
  the range label.
\<close>

record R =
  r0 :: int
  r1 :: int
  label0 :: SboShape3Label
  subRange :: SboShape3Label

definition R_idx :: "R \<Rightarrow> SboShape3Label \<Rightarrow> int option" where
  "R_idx r aL = label_diff aL (label0 r)"

definition R_inSubRange :: "R \<Rightarrow> SboShape3Label \<Rightarrow> bool option" where
  "R_inSubRange r aL = do { sz \<leftarrow> R_idx r aL; Some (r0 r \<le> sz \<and> sz \<le> r1 r) }"

definition R_next :: "R \<Rightarrow> SboShape3Label \<Rightarrow> int \<Rightarrow> SboShape3Label option" where
  "R_next r aL aStep =
     do { l \<leftarrow> label_next aL aStep; b \<leftarrow> R_inSubRange r l; Some (if b then l else aL) }"

definition R_size :: "R \<Rightarrow> SboShape3Label \<Rightarrow> int option" where
  "R_size r aL = do { b \<leftarrow> R_inSubRange r aL; if b then R_idx r aL else Some 0 }"

definition R_clampSize :: "R \<Rightarrow> int \<Rightarrow> int" where
  "R_clampSize r sz = clamp sz (r0 r) (r1 r)"

definition R_default :: R where
  "R_default = \<lparr>r0 = 0, r1 = 0, label0 = NullLabel, subRange = NullLabel\<rparr>"

lemmas R_defs = R_idx_def R_inSubRange_def R_next_def R_size_def R_clampSize_def R_default_def

section \<open>Ecofit (implantcast\_ecofit\_scheme.h)\<close>

text \<open>The enumeration \<open>S3UID\<close> starts at \<open>ProductRangeStartsAt + 90\<close>.\<close>

definition Ecofit_STEM_STD_133_0 :: "int \<Rightarrow> int" where "Ecofit_STEM_STD_133_0 P = P + 90"
definition Ecofit_STEM_STD_133_5 :: "int \<Rightarrow> int" where "Ecofit_STEM_STD_133_5 P = P + 90 + 5"
definition Ecofit_STEM_STD_133_11 :: "int \<Rightarrow> int" where "Ecofit_STEM_STD_133_11 P = P + 90 + 11"
definition Ecofit_STEM_LAT_133_0 :: "int \<Rightarrow> int" where "Ecofit_STEM_LAT_133_0 P = P + 90 + 12"
definition Ecofit_STEM_LAT_133_11 :: "int \<Rightarrow> int" where "Ecofit_STEM_LAT_133_11 P = P + 90 + 23"
definition Ecofit_STEM_STD_138_0 :: "int \<Rightarrow> int" where "Ecofit_STEM_STD_138_0 P = P + 90 + 24"
definition Ecofit_STEM_STD_138_9 :: "int \<Rightarrow> int" where "Ecofit_STEM_STD_138_9 P = P + 90 + 33"
definition Ecofit_STEM_LAT_138_0 :: "int \<Rightarrow> int" where "Ecofit_STEM_LAT_138_0 P = P + 90 + 34"
definition Ecofit_STEM_LAT_138_9 :: "int \<Rightarrow> int" where "Ecofit_STEM_LAT_138_9 P = P + 90 + 43"
definition Ecofit_STEM_CV_0 :: "int \<Rightarrow> int" where "Ecofit_STEM_CV_0 P = P + 90 + 44"
definition Ecofit_STEM_CV_9 :: "int \<Rightarrow> int" where "Ecofit_STEM_CV_9 P = P + 90 + 53"
definition Ecofit_CUTPLANE :: "int \<Rightarrow> int" where "Ecofit_CUTPLANE P = P + 90 + 54"
definition Ecofit_HEAD_M4 :: "int \<Rightarrow> int" where "Ecofit_HEAD_M4 P = P + 90 + 55"
definition Ecofit_HEAD_P0 :: "int \<Rightarrow> int" where "Ecofit_HEAD_P0 P = P + 90 + 56"
definition Ecofit_HEAD_P4 :: "int \<Rightarrow> int" where "Ecofit_HEAD_P4 P = P + 90 + 57"
definition Ecofit_HEAD_P8 :: "int \<Rightarrow> int" where "Ecofit_HEAD_P8 P = P + 90 + 58"
definition Ecofit_RANGE_CCD_STD_133 :: "int \<Rightarrow> int" where "Ecofit_RANGE_CCD_STD_133 P = P + 90 + 59"
definition Ecofit_RANGE_CCD_LAT_133 :: "int \<Rightarrow> int" where "Ecofit_RANGE_CCD_LAT_133 P = P + 90 + 60"
definition Ecofit_RANGE_CCD_STD_138 :: "int \<Rightarrow> int" where "Ecofit_RANGE_CCD_STD_138 P = P + 90 + 61"
definition Ecofit_RANGE_CCD_LAT_138 :: "int \<Rightarrow> int" where "Ecofit_RANGE_CCD_LAT_138 P = P + 90 + 62"
definition Ecofit_RANGE_CCD_CV :: "int \<Rightarrow> int" where "Ecofit_RANGE_CCD_CV P = P + 90 + 63"

lemmas Ecofit_S3UID_defs =
  Ecofit_STEM_STD_133_0_def Ecofit_STEM_STD_133_5_def Ecofit_STEM_STD_133_11_def
  Ecofit_STEM_LAT_133_0_def Ecofit_STEM_LAT_133_11_def Ecofit_STEM_STD_138_0_def
  Ecofit_STEM_STD_138_9_def Ecofit_STEM_LAT_138_0_def Ecofit_STEM_LAT_138_9_def
  Ecofit_STEM_CV_0_def Ecofit_STEM_CV_9_def Ecofit_CUTPLANE_def Ecofit_HEAD_M4_def
  Ecofit_HEAD_P0_def Ecofit_HEAD_P4_def Ecofit_HEAD_P8_def Ecofit_RANGE_CCD_STD_133_def
  Ecofit_RANGE_CCD_LAT_133_def Ecofit_RANGE_CCD_STD_138_def Ecofit_RANGE_CCD_LAT_138_def
  Ecofit_RANGE_CCD_CV_def

definition Ecofit_isCCD_STD_133 :: "int \<Rightarrow> SboShape3Label \<Rightarrow> bool" where
  "Ecofit_isCCD_STD_133 P l =
     in_closed_range l (s3 (Ecofit_STEM_STD_133_0 P)) (s3 (Ecofit_STEM_STD_133_11 P))"

definition Ecofit_isCCD_LAT_133 :: "int \<Rightarrow> SboShape3Label \<Rightarrow> bool" where
  "Ecofit_isCCD_LAT_133 P l =
     in_closed_range l (s3 (Ecofit_STEM_LAT_133_0 P)) (s3 (Ecofit_STEM_LAT_133_11 P))"

definition Ecofit_isCCD_STD_138 :: "int \<Rightarrow> SboShape3Label \<Rightarrow> bool" where
  "Ecofit_isCCD_STD_138 P l =
     in_closed_range l (s3 (Ecofit_STEM_STD_138_0 P)) (s3 (Ecofit_STEM_STD_138_9 P))"

definition Ecofit_isCCD_LAT_138 :: "int \<Rightarrow> SboShape3Label \<Rightarrow> bool" where
  "Ecofit_isCCD_LAT_138 P l =
     in_closed_range l (s3 (Ecofit_STEM_LAT_138_0 P)) (s3 (Ecofit_STEM_LAT_138_9 P))"

definition Ecofit_isCCD_CV :: "int \<Rightarrow> SboShape3Label \<Rightarrow> bool" where
  "Ecofit_isCCD_CV P l = in_closed_range l (s3 (Ecofit_STEM_CV_0 P)) (s3 (Ecofit_STEM_CV_9 P))"

definition Ecofit_isCCD_133 :: "int \<Rightarrow> SboShape3Label \<Rightarrow> bool" where
  "Ecofit_isCCD_133 P l = (Ecofit_isCCD_STD_133 P l \<or> Ecofit_isCCD_LAT_133 P l)"

definition Ecofit_isStem :: "int \<Rightarrow> SboShape3Label \<Rightarrow> bool" where
  "Ecofit_isStem P l =
     (Ecofit_isCCD_STD_133 P l \<or> Ecofit_isCCD_LAT_133 P l \<or> Ecofit_isCCD_STD_138 P l
      \<or> Ecofit_isCCD_LAT_138 P l \<or> Ecofit_isCCD_CV P l)"

definition Ecofit_isHead :: "int \<Rightarrow> SboShape3Label \<Rightarrow> bool" where
  "Ecofit_isHead P l = in_closed_range l (s3 (Ecofit_HEAD_M4 P)) (s3 (Ecofit_HEAD_P8 P))"

definition Ecofit_isSubRange :: "int \<Rightarrow> SboShape3Label \<Rightarrow> bool" where
  "Ecofit_isSubRange P l =
     in_closed_range l (s3 (Ecofit_RANGE_CCD_STD_133 P)) (s3 (Ecofit_RANGE_CCD_CV P))"

definition Ecofit_isSubRange133 :: "int \<Rightarrow> SboShape3Label \<Rightarrow> bool" where
  "Ecofit_isSubRange133 P l =
     (l = s3 (Ecofit_RANGE_CCD_STD_133 P) \<or> l = s3 (Ecofit_RANGE_CCD_LAT_133 P))"

lemmas Ecofit_isCCD_defs =
  Ecofit_isCCD_STD_133_def Ecofit_isCCD_LAT_133_def Ecofit_isCCD_STD_138_def
  Ecofit_isCCD_LAT_138_def Ecofit_isCCD_CV_def Ecofit_isCCD_133_def Ecofit_isStem_def
  Ecofit_isHead_def Ecofit_isSubRange_def Ecofit_isSubRange133_def

definition Ecofit_getRangeStats :: "int \<Rightarrow> SboShape3Label \<Rightarrow> R option" where
  "Ecofit_getRangeStats P aL =
     HPROJ_DCHECK2 (Ecofit_isStem P aL \<or> Ecofit_isSubRange P aL)
       (let myRL = aL;
            myRL = (if Ecofit_isStem P aL \<and> Ecofit_isCCD_STD_133 P aL
                    then s3 (Ecofit_RANGE_CCD_STD_133 P) else myRL);
            myRL = (if Ecofit_isStem P aL \<and> Ecofit_isCCD_LAT_133 P aL
                    then s3 (Ecofit_RANGE_CCD_LAT_133 P) else myRL);
            myRL = (if Ecofit_isStem P aL \<and> Ecofit_isCCD_STD_138 P aL
                    then s3 (Ecofit_RANGE_CCD_STD_138 P) else myRL);
            myRL = (if Ecofit_isStem P aL \<and> Ecofit_isCCD_LAT_138 P aL
                    then s3 (Ecofit_RANGE_CCD_LAT_138 P) else myRL);
            myRL = (if Ecofit_isStem P aL \<and> Ecofit_isCCD_CV P aL
                    then s3 (Ecofit_RANGE_CCD_CV P) else myRL)
        in Some
          (if Ecofit_isSubRange P myRL \<and> myRL = s3 (Ecofit_RANGE_CCD_STD_133 P) then
             \<lparr>r0 = 0, r1 = 11, label0 = s3 (Ecofit_STEM_STD_133_0 P), subRange = myRL\<rparr>
           else if Ecofit_isSubRange P myRL \<and> myRL = s3 (Ecofit_RANGE_CCD_LAT_133 P) then
             \<lparr>r0 = 0, r1 = 11, label0 = s3 (Ecofit_STEM_LAT_133_0 P), subRange = myRL\<rparr>
           else if Ecofit_isSubRange P myRL \<and> myRL = s3 (Ecofit_RANGE_CCD_STD_138 P) then
             \<lparr>r0 = 0, r1 = 9, label0 = s3 (Ecofit_STEM_STD_138_0 P), subRange = myRL\<rparr>
           else if Ecofit_isSubRange P myRL \<and> myRL = s3 (Ecofit_RANGE_CCD_LAT_138 P) then
             \<lparr>r0 = 0, r1 = 9, label0 = s3 (Ecofit_STEM_LAT_138_0 P), subRange = myRL\<rparr>
           else if Ecofit_isSubRange P myRL \<and> myRL = s3 (Ecofit_RANGE_CCD_CV P) then
             \<lparr>r0 = 0, r1 = 9, label0 = s3 (Ecofit_STEM_CV_0 P), subRange = myRL\<rparr>
           else R_default))"

definition Ecofit_nextPrevStem :: "int \<Rightarrow> SboShape3Label \<Rightarrow> bool \<Rightarrow> SboShape3Label option" where
  "Ecofit_nextPrevStem P aL aNext =
     HPROJ_DCHECK2 (Ecofit_isStem P aL)
       (do { r \<leftarrow> Ecofit_getRangeStats P aL; R_next r aL (if aNext then 1 else - 1) })"

definition Ecofit_getSimilarLabel :: "int \<Rightarrow> SboShape3Label \<Rightarrow> SboShape3Label \<Rightarrow> SboShape3Label option" where
  "Ecofit_getSimilarLabel P aLabel aTargetR =
     HPROJ_DCHECK2 (Ecofit_isStem P aLabel \<or> Ecofit_isSubRange P aLabel)
       (do {
          S \<leftarrow> Ecofit_getRangeStats P aLabel;
          let sourceR = subRange S;
          sz \<leftarrow> R_size S aLabel;
          T \<leftarrow> Ecofit_getRangeStats P aTargetR;
          let tsz = sz;
          let tsz =
            (if \<not> Ecofit_isSubRange133 P sourceR \<and> Ecofit_isSubRange133 P aTargetR then
               (if sz = 8 then 9 else if sz = 9 then 11 else tsz)
             else if Ecofit_isSubRange133 P sourceR \<and> \<not> Ecofit_isSubRange133 P aTargetR then
               (if sz = 9 then 8 else if sz = 11 then 9 else tsz)
             else tsz);
          let tsz = R_clampSize T tsz;
          label_next (label0 T) tsz
        })"

definition Ecofit_fillAndValidAssembly :: "int \<Rightarrow> string \<Rightarrow> SboFemImplantConfig \<Rightarrow> SboFemImplantConfig" where
  "Ecofit_fillAndValidAssembly P productName aFemIC =
     (let myFemIC = aFemIC\<lparr>validAssembly := False\<rparr> in
      if requestedSide myFemIC \<noteq> AnatomNone then
        (let bs = Ecofit_isStem P (stemLabel myFemIC);
             bh = Ecofit_isHead P (headLabel myFemIC);
             bn = (\<not> isSet (neckLabel myFemIC));
             myFemIC = (if \<not> isSet (cutPlaneLabel myFemIC)
                        then myFemIC\<lparr>cutPlaneLabel := s3 (Ecofit_CUTPLANE P)\<rparr> else myFemIC);
             okSide = True;
             b = (bs \<and> bh \<and> bn \<and> okSide)
         in if b then
              myFemIC\<lparr>stemProductName := productName, distalShaftProductName := [],
                      headProductName := productName, neckProductName := [],
                      implantSide := requestedSide myFemIC, validAssembly := True\<rparr>
            else myFemIC)
      else myFemIC)"

definition Ecofit_nextPrev :: "int \<Rightarrow> SboFemImplantConfig \<Rightarrow> bool \<Rightarrow> SboFemImplantConfig option" where
  "Ecofit_nextPrev P aFemIC aNext =
     do {
       l \<leftarrow> Ecofit_nextPrevStem P (stemLabel aFemIC) aNext;
       Some (aFemIC\<lparr>stemLabel := l\<rparr>)
     }"

section \<open>Actis (johnson\_actis\_scheme.h)\<close>

text \<open>The enumeration \<open>S3UID\<close> starts at \<open>ProductRangeStartsAt + 90\<close>.\<close>

definition Actis_STEM_STD_0 :: "int \<Rightarrow> int" where "Actis_STEM_STD_0 P = P + 90"
definition Actis_STEM_STD_6 :: "int \<Rightarrow> int" where "Actis_STEM_STD_6 P = P + 90 + 6"
definition Actis_STEM_STD_12 :: "int \<Rightarrow> int" where "Actis_STEM_STD_12 P = P + 90 + 12"
definition Actis_STEM_HO_0 :: "int \<Rightarrow> int" where "Actis_STEM_HO_0 P = P + 90 + 13"
definition Actis_STEM_HO_12 :: "int \<Rightarrow> int" where "Actis_STEM_HO_12 P = P + 90 + 25"
definition Actis_CUTPLANE :: "int \<Rightarrow> int" where "Actis_CUTPLANE P = P + 90 + 26"
definition Actis_HEAD_M4 :: "int \<Rightarrow> int" where "Actis_HEAD_M4 P = P + 90 + 27"
definition Actis_HEAD_P0 :: "int \<Rightarrow> int" where "Actis_HEAD_P0 P = P + 90 + 28"
definition Actis_HEAD_P4 :: "int \<Rightarrow> int" where "Actis_HEAD_P4 P = P + 90 + 29"
definition Actis_HEAD_P8 :: "int \<Rightarrow> int" where "Actis_HEAD_P8 P = P + 90 + 30"
definition Actis_RANGE_CCD_STD :: "int \<Rightarrow> int" where "Actis_RANGE_CCD_STD P = P + 90 + 31"
definition Actis_RANGE_CCD_HO :: "int \<Rightarrow> int" where "Actis_RANGE_CCD_HO P = P + 90 + 32"

lemmas Actis_S3UID_defs =
  Actis_STEM_STD_0_def Actis_STEM_STD_6_def Actis_STEM_STD_12_def Actis_STEM_HO_0_def
  Actis_STEM_HO_12_def Actis_CUTPLANE_def Actis_HEAD_M4_def Actis_HEAD_P0_def Actis_HEAD_P4_def
  Actis_HEAD_P8_def Actis_RANGE_CCD_STD_def Actis_RANGE_CCD_HO_def

definition Actis_isCCD_STD :: "int \<Rightarrow> SboShape3Label \<Rightarrow> bool" where
  "Actis_isCCD_STD P l = in_closed_range l (s3 (Actis_STEM_STD_0 P)) (s3 (Actis_STEM_STD_12 P))"

definition Actis_isCCD_HO :: "int \<Rightarrow> SboShape3Label \<Rightarrow> bool" where
  "Actis_isCCD_HO P l = in_closed_range l (s3 (Actis_STEM_HO_0 P)) (s3 (Actis_STEM_HO_12 P))"

definition Actis_isStem :: "int \<Rightarrow> SboShape3Label \<Rightarrow> bool" where
  "Actis_isStem P l = (Actis_isCCD_STD P l \<or> Actis_isCCD_HO P l)"

definition Actis_isHead :: "int \<Rightarrow> SboShape3Label \<Rightarrow> bool" where
  "Actis_isHead P l = in_closed_range l (s3 (Actis_HEAD_M4 P)) (s3 (Actis_HEAD_P8 P))"

definition Actis_isSubRange :: "int \<Rightarrow> SboShape3Label \<Rightarrow> bool" where
  "Actis_isSubRange P l =
     in_closed_range l (s3 (Actis_RANGE_CCD_STD P)) (s3 (Actis_RANGE_CCD_HO P))"

lemmas Actis_isCCD_defs =
  Actis_isCCD_STD_def Actis_isCCD_HO_def Actis_isStem_def Actis_isHead_def Actis_isSubRange_def

definition Actis_getRangeStats :: "int \<Rightarrow> SboShape3Label \<Rightarrow> R option" where
  "Actis_getRangeStats P aL =
     HPROJ_DCHECK2 (Actis_isStem P aL \<or> Actis_isSubRange P aL)
       (let myRL = aL;
            myRL = (if Actis_isStem P aL \<and> Actis_isCCD_STD P aL
                    then s3 (Actis_RANGE_CCD_STD P) else myRL);
            myRL = (if Actis_isStem P aL \<and> Actis_isCCD_HO P aL
                    then s3 (Actis_RANGE_CCD_HO P) else myRL)
        in Some
          (if Actis_isSubRange P myRL \<and> myRL = s3 (Actis_RANGE_CCD_STD P) then
             \<lparr>r0 = 0, r1 = 12, label0 = s3 (Actis_STEM_STD_0 P), subRange = myRL\<rparr>
           else if Actis_isSubRange P myRL \<and> myRL = s3 (Actis_RANGE_CCD_HO P) then
             \<lparr>r0 = 0, r1 = 12, label0 = s3 (Actis_STEM_HO_0 P), subRange = myRL\<rparr>
           else R_default))"

definition Actis_nextPrevStem :: "int \<Rightarrow> SboShape3Label \<Rightarrow> bool \<Rightarrow> SboShape3Label option" where
  "Actis_nextPrevStem P aL aNext =
     HPROJ_DCHECK2 (Actis_isStem P aL)
       (do { r \<leftarrow> Actis_getRangeStats P aL; R_next r aL (if aNext then 1 else - 1) })"

definition Actis_getSimilarLabel :: "int \<Rightarrow> SboShape3Label \<Rightarrow> SboShape3Label \<Rightarrow> SboShape3Label option" where
  "Actis_getSimilarLabel P aLabel aTargetR =
     HPROJ_DCHECK2 (Actis_isStem P aLabel \<or> Actis_isSubRange P aLabel)
       (do {
          S \<leftarrow> Actis_getRangeStats P aLabel;
          let sourceR = subRange S;
          sz \<leftarrow> R_size S aLabel;
          T \<leftarrow> Actis_getRangeStats P aTargetR;
          let tsz = sz;
          label_next (label0 T) tsz
        })"

definition Actis_fillAndValidAssembly :: "int \<Rightarrow> string \<Rightarrow> SboFemImplantConfig \<Rightarrow> SboFemImplantConfig" where
  "Actis_fillAndValidAssembly P productName aFemIC =
     (let myFemIC = aFemIC\<lparr>validAssembly := False\<rparr> in
      if requestedSide myFemIC \<noteq> AnatomNone then
        (let bs = Actis_isStem P (stemLabel myFemIC);
             bh = Actis_isHead P (headLabel myFemIC);
             bn = (\<not> isSet (neckLabel myFemIC));
             myFemIC = (if \<not> isSet (cutPlaneLabel myFemIC)
                        then myFemIC\<lparr>cutPlaneLabel := s3 (Actis_CUTPLANE P)\<rparr> else myFemIC);
             b = (bs \<and> bh \<and> bn)
         in if b then
              myFemIC\<lparr>stemProductName := productName, distalShaftProductName := [],
                      headProductName := productName, neckProductName := [],
                      implantSide := requestedSide myFemIC, validAssembly := True\<rparr>
            else myFemIC)
      else myFemIC)"

definition Actis_nextPrev :: "int \<Rightarrow> SboFemImplantConfig \<Rightarrow> bool \<Rightarrow> SboFemImplantConfig option" where
  "Actis_nextPrev P aFemIC aNext =
     do {
       l \<leftarrow> Actis_nextPrevStem P (stemLabel aFemIC) aNext;
       Some (aFemIC\<lparr>stemLabel := l\<rparr>)
     }"

section \<open>Notions of the specification\<close>

text \<open>
  The side requirement as the specification words it: a side-free product ignores the
  requested side, a side-specific product requires a requested side different from none.
  Corail stamps \<open>SboAnatomLocation::None\<close> as the side of the implant (a straight stem, free
  of side); Ecofit stamps the requested side.
\<close>

definition sideRequirementSatisfied :: "bool \<Rightarrow> SboAnatomLocation \<Rightarrow> bool" where
  "sideRequirementSatisfied sideFree side = (sideFree \<or> side \<noteq> AnatomNone)"

definition Corail_sideFree :: bool where
  "Corail_sideFree = True"

definition Ecofit_sideFree :: bool where
  "Ecofit_sideFree = False"

text \<open>A configuration as \<open>defaultFemIC\<close> builds it, for a given side, stem and head.\<close>

definition sampleFemIC :: "SboAnatomLocation \<Rightarrow> SboShape3Label \<Rightarrow> SboShape3Label \<Rightarrow> SboShape3Label \<Rightarrow> SboFemImplantConfig" where
  "sampleFemIC side stem head cutPlane =
     \<lparr>requestedSide = side, implantSide = AnatomNone, stemLabel = stem, headLabel = head,
      neckLabel = NullLabel, cutPlaneLabel = cutPlane, stemProductName = [],
      distalShaftProductName = [], headProductName = [], neckProductName = [],
      validAssembly = False\<rparr>"

text \<open>
  A closed form of Amistem's \<open>getSimilarLabel\<close>, used in the proofs below (where it is
  proved equal to the function): the position in the enumeration of the label returned for
  the stem at position \<open>k\<close> and the \<open>j\<close>-th range label (STD, LAT, STD_SN, LAT_SN).
\<close>

definition Amistem_similarPos :: "int \<Rightarrow> int \<Rightarrow> int" where
  "Amistem_similarPos k j =
     (let std = (k \<le> 10 \<or> (20 \<le> k \<and> k \<le> 30));
          sz = (if k \<le> 10 then k else if k \<le> 19 then k - 11 else if k \<le> 30 then k - 20
                else k - 31);
          base = (if j = 0 then 0 else if j = 1 then 11 else if j = 2 then 20 else 31)
      in if std then
           (if j = 0 \<or> j = 2 then base + sz
            else if sz = 0 \<or> sz = 10 then k else base + (sz - 1))
         else
           (if j = 0 \<or> j = 2 then base + (sz + 1) else base + sz))"

text \<open>
  Closed forms for the Ecofit enumeration, used in the proofs below: the index of the
  sub-range (STD_133, LAT_133, STD_138, LAT_138, CV) that holds the stem at position \<open>k\<close>,
  and the first position and the last size of the sub-range with index \<open>j\<close>.
\<close>

definition Ecofit_ownRange :: "int \<Rightarrow> int" where
  "Ecofit_ownRange k =
     (if k \<le> 11 then 0 else if k \<le> 23 then 1 else if k \<le> 33 then 2 else if k \<le> 43 then 3
      else 4)"

definition Ecofit_rangeBase :: "int \<Rightarrow> int" where
  "Ecofit_rangeBase j =
     (if j = 0 then 0 else if j = 1 then 12 else if j = 2 then 24 else if j = 3 then 34 else 44)"

definition Ecofit_rangeMax :: "int \<Rightarrow> int" where
  "Ecofit_rangeMax j = (if j = 0 \<or> j = 1 then 11 else 9)"

definition Ecofit_similarSize :: "int \<Rightarrow> int \<Rightarrow> int \<Rightarrow> int" where
  "Ecofit_similarSize i j sz =
     clamp (if \<not> (i = 0 \<or> i = 1) \<and> (j = 0 \<or> j = 1) then
              (if sz = 8 then 9 else if sz = 9 then 11 else sz)
            else if (i = 0 \<or> i = 1) \<and> \<not> (j = 0 \<or> j = 1) then
              (if sz = 9 then 8 else if sz = 11 then 9 else sz)
            else sz) 0 (Ecofit_rangeMax j)"

section \<open>Classification of Corail stem labels\<close>

lemmas Corail_label_simps =
  Corail_isStem_def Corail_isCCD_defs s3_def Corail_S3UID_defs HPROJ_DCHECK2_def

lemma Corail_isStem_uid:
  "Corail_isStem P l \<longleftrightarrow> (\<exists>u. l = S3 u \<and> P + 90 \<le> u \<and> u \<le> P + 165)"
  by (cases l) (auto simp: Corail_isStem_def s3_def Corail_S3UID_defs)

lemma Corail_subRanges_filter:
  assumes "Corail_isStem P l"
  shows "length (filter (\<lambda>(p, r). p l) (Corail_subRanges P)) = 1"
  using assms
  by (cases l) (auto simp: Corail_subRanges_def Corail_label_simps)

lemma Corail_getCCDRange_unique:
  assumes "Corail_isStem P l"
  shows "\<exists>r. Corail_getCCDRange P l = Some r \<and> r \<noteq> NullLabel \<and>
              (\<forall>(p, r') \<in> set (Corail_subRanges P). p l \<longleftrightarrow> r' = r)"
  using assms
  by (cases l) (auto simp: Corail_getCCDRange_def Corail_subRanges_def Corail_label_simps)

text \<open>
  C8. Every Corail label that \<open>isStem\<close> accepts satisfies exactly one of the nine sub-range
  membership predicates (the intervals are pairwise disjoint and cover the stem interval),
  and \<open>getCCDRange\<close> returns the range label of that one sub-range, which is a set label.
\<close>

theorem Corail_stem_in_exactly_one_subRange:
  assumes "Corail_isStem P l"
  shows "length (filter (\<lambda>(p, r). p l) (Corail_subRanges P)) = 1 \<and>
         (\<exists>r. Corail_getCCDRange P l = Some r \<and> r \<noteq> NullLabel \<and>
              (\<forall>(p, r') \<in> set (Corail_subRanges P). p l \<longleftrightarrow> r' = r))"
  using Corail_subRanges_filter[OF assms] Corail_getCCDRange_unique[OF assms] by simp

theorem Corail_stem_in_exactly_one_subRange_witness:
  "Corail_isStem 20000 (S3 20105) \<and>
   length (filter (\<lambda>(p, r). p (S3 20105)) (Corail_subRanges 20000)) = 1 \<and>
   Corail_getCCDRange 20000 (S3 20105) = Some (s3 (Corail_RANGE_CCD_KS_STD135 20000)) \<and>
   Corail_isCCD_KS_STD135 20000 (S3 20105) \<and> \<not> Corail_isCCD_KA_STD135 20000 (S3 20105)"
proof -
  have h: "Corail_isStem 20000 (S3 20105)"
    by (simp add: Corail_label_simps)
  have r: "Corail_getCCDRange 20000 (S3 20105) = Some (s3 (Corail_RANGE_CCD_KS_STD135 20000))"
    by (simp add: Corail_getCCDRange_def Corail_label_simps)
  have m: "Corail_isCCD_KS_STD135 20000 (S3 20105) \<and> \<not> Corail_isCCD_KA_STD135 20000 (S3 20105)"
    by (simp add: Corail_label_simps)
  from Corail_stem_in_exactly_one_subRange[OF h] h r m show ?thesis by simp
qed

section \<open>Stepping to the next or previous stem\<close>

lemma Corail_nextPrevStem_step:
  assumes "Corail_isStem P l"
  shows "\<exists>n. label_next l (if fwd then 1 else - 1) = Some n \<and>
     Corail_nextPrevStem P l fwd =
       Some (if Corail_isStem P n \<and> Corail_getCCDRange P n = Corail_getCCDRange P l then n else l)"
  using assms
  by (cases l) (auto simp: Corail_nextPrevStem_def Corail_getCCDRange_def Corail_label_simps)

lemmas Actis_label_simps =
  Actis_isCCD_defs s3_def Actis_S3UID_defs HPROJ_DCHECK2_def

lemmas Ecofit_label_simps =
  Ecofit_isCCD_defs s3_def Ecofit_S3UID_defs HPROJ_DCHECK2_def

lemma Actis_nextPrevStem_step:
  assumes "Actis_isStem P l"
  shows "\<exists>n. label_next l (if fwd then 1 else - 1) = Some n \<and>
           Actis_nextPrevStem P l fwd =
             Some (if (Actis_isCCD_STD P l \<and> Actis_isCCD_STD P n) \<or>
                      (Actis_isCCD_HO P l \<and> Actis_isCCD_HO P n)
                   then n else l)"
proof -
  from assms obtain u where u: "l = S3 u" "P + 90 \<le> u" "u \<le> P + 115"
    by (cases l) (auto simp: Actis_label_simps)
  consider "u \<le> P + 102" | "P + 103 \<le> u" by linarith
  then show ?thesis
  proof cases
    case 1
    have r: "Actis_getRangeStats P (S3 u) =
               Some \<lparr>r0 = 0, r1 = 12, label0 = s3 (Actis_STEM_STD_0 P),
                     subRange = s3 (Actis_RANGE_CCD_STD P)\<rparr>"
      using 1 u(2) by (simp add: Actis_getRangeStats_def Actis_label_simps Let_def)
    show ?thesis unfolding u(1) using 1 u(2)
      by (simp add: Actis_nextPrevStem_def r R_defs Actis_label_simps)
  next
    case 2
    have r: "Actis_getRangeStats P (S3 u) =
               Some \<lparr>r0 = 0, r1 = 12, label0 = s3 (Actis_STEM_HO_0 P),
                     subRange = s3 (Actis_RANGE_CCD_HO P)\<rparr>"
      using 2 u(3) by (simp add: Actis_getRangeStats_def Actis_label_simps Let_def)
    show ?thesis unfolding u(1) using 2 u(3)
      by (simp add: Actis_nextPrevStem_def r R_defs Actis_label_simps)
  qed
qed

lemma Ecofit_isStem_uid:
  "Ecofit_isStem P l \<longleftrightarrow> (\<exists>u. l = S3 u \<and> P + 90 \<le> u \<and> u \<le> P + 143)"
  by (cases l) (auto simp: Ecofit_label_simps)

lemma Ecofit_getRangeStats_stem:
  assumes "Ecofit_isStem P l"
  shows "\<exists>r b. Ecofit_getRangeStats P l = Some r \<and> label0 r = S3 b"
proof -
  from assms obtain u where u: "l = S3 u" "P + 90 \<le> u" "u \<le> P + 143"
    by (auto simp: Ecofit_isStem_uid)
  consider "u \<le> P + 101" | "P + 102 \<le> u \<and> u \<le> P + 113" | "P + 114 \<le> u \<and> u \<le> P + 123"
    | "P + 124 \<le> u \<and> u \<le> P + 133" | "P + 134 \<le> u" by linarith
  then show ?thesis
    using u by cases (simp_all add: Ecofit_getRangeStats_def Let_def Ecofit_label_simps)
qed

lemma Ecofit_nextPrevStem_total:
  assumes "Ecofit_isStem P l"
  shows "\<exists>m. Ecofit_nextPrevStem P l fwd = Some m"
proof -
  from Ecofit_getRangeStats_stem[OF assms] obtain r b where
    r: "Ecofit_getRangeStats P l = Some r" "label0 r = S3 b" by blast
  from assms obtain u where u: "l = S3 u" by (auto simp: Ecofit_isStem_uid)
  show ?thesis using assms r u
    by (simp add: Ecofit_nextPrevStem_def HPROJ_DCHECK2_def R_defs)
qed

text \<open>
  C5. For a valid stem label \<open>l\<close>, \<open>nextPrevStem\<close> returns the label one offset further
  (forward) or back (backward) when that label is a stem of the same sub-range as \<open>l\<close>, and
  \<open>l\<close> itself otherwise; so a step at the last offset of a sub-range returns \<open>l\<close> and the
  sub-range is never left. Stated for Corail (sub-range read with \<open>getCCDRange\<close>) and for
  Actis (the two sub-ranges are the classes \<open>isCCD_STD\<close> and \<open>isCCD_HO\<close>).
\<close>

theorem nextPrevStem_steps_within_subRange:
  "(Corail_isStem P l \<longrightarrow>
      (\<exists>n. label_next l (if fwd then 1 else - 1) = Some n \<and>
            Corail_nextPrevStem P l fwd =
              Some (if Corail_isStem P n \<and> Corail_getCCDRange P n = Corail_getCCDRange P l
                    then n else l))) \<and>
   (Actis_isStem Q k \<longrightarrow>
      (\<exists>n. label_next k (if fwd then 1 else - 1) = Some n \<and>
            Actis_nextPrevStem Q k fwd =
              Some (if (Actis_isCCD_STD Q k \<and> Actis_isCCD_STD Q n) \<or>
                       (Actis_isCCD_HO Q k \<and> Actis_isCCD_HO Q n)
                    then n else k)))"
  using Corail_nextPrevStem_step[of P l fwd] Actis_nextPrevStem_step[of Q k fwd] by blast

theorem nextPrevStem_steps_within_subRange_witness:
  "Corail_isStem 20000 (S3 20105) \<and>
   (\<exists>n. label_next (S3 20105) (if True then 1 else - 1) = Some n \<and>
        Corail_nextPrevStem 20000 (S3 20105) True =
          Some (if Corail_isStem 20000 n \<and>
                   Corail_getCCDRange 20000 n = Corail_getCCDRange 20000 (S3 20105)
                then n else S3 20105)) \<and>
   Corail_nextPrevStem 20000 (S3 20105) True = Some (S3 20106) \<and>
   Actis_isStem 30000 (S3 30095) \<and>
   (\<exists>n. label_next (S3 30095) (if True then 1 else - 1) = Some n \<and>
        Actis_nextPrevStem 30000 (S3 30095) True =
          Some (if (Actis_isCCD_STD 30000 (S3 30095) \<and> Actis_isCCD_STD 30000 n) \<or>
                   (Actis_isCCD_HO 30000 (S3 30095) \<and> Actis_isCCD_HO 30000 n)
                then n else S3 30095)) \<and>
   Actis_nextPrevStem 30000 (S3 30095) True = Some (S3 30096) \<and>
   Corail_isStem 20000 (S3 20110) \<and>
   (\<exists>n. label_next (S3 20110) (if True then 1 else - 1) = Some n \<and>
        Corail_nextPrevStem 20000 (S3 20110) True =
          Some (if Corail_isStem 20000 n \<and>
                   Corail_getCCDRange 20000 n = Corail_getCCDRange 20000 (S3 20110)
                then n else S3 20110)) \<and>
   Corail_nextPrevStem 20000 (S3 20110) True = Some (S3 20110) \<and>
   Actis_isStem 30000 (S3 30102) \<and>
   (\<exists>n. label_next (S3 30102) (if True then 1 else - 1) = Some n \<and>
        Actis_nextPrevStem 30000 (S3 30102) True =
          Some (if (Actis_isCCD_STD 30000 (S3 30102) \<and> Actis_isCCD_STD 30000 n) \<or>
                   (Actis_isCCD_HO 30000 (S3 30102) \<and> Actis_isCCD_HO 30000 n)
                then n else S3 30102)) \<and>
   Actis_nextPrevStem 30000 (S3 30102) True = Some (S3 30102) \<and>
   Actis_isStem 30000 (S3 30103) \<and>
   Actis_nextPrevStem 30000 (S3 30103) False = Some (S3 30103)"
proof -
  have hc: "Corail_isStem 20000 (S3 20105)" "Corail_isStem 20000 (S3 20110)"
    by (simp_all add: Corail_label_simps)
  have ha: "Actis_isStem 30000 (S3 30095)" "Actis_isStem 30000 (S3 30102)"
    "Actis_isStem 30000 (S3 30103)"
    by (simp_all add: Actis_label_simps)
  have vc: "Corail_nextPrevStem 20000 (S3 20105) True = Some (S3 20106)"
    "Corail_nextPrevStem 20000 (S3 20110) True = Some (S3 20110)"
    by (simp_all add: Corail_nextPrevStem_def Corail_label_simps)
  have va: "Actis_nextPrevStem 30000 (S3 30095) True = Some (S3 30096)"
    "Actis_nextPrevStem 30000 (S3 30102) True = Some (S3 30102)"
    "Actis_nextPrevStem 30000 (S3 30103) False = Some (S3 30103)"
    by (simp_all add: Actis_nextPrevStem_def Actis_getRangeStats_def R_defs Actis_label_simps
        Let_def)
  note inner = nextPrevStem_steps_within_subRange[of 20000 "S3 20105" True 30000 "S3 30095"]
  note edge = nextPrevStem_steps_within_subRange[of 20000 "S3 20110" True 30000 "S3 30102"]
  have c1: "\<exists>n. label_next (S3 20105) (if True then 1 else - 1) = Some n \<and>
        Corail_nextPrevStem 20000 (S3 20105) True =
          Some (if Corail_isStem 20000 n \<and>
                   Corail_getCCDRange 20000 n = Corail_getCCDRange 20000 (S3 20105)
                then n else S3 20105)"
    by (rule inner[THEN conjunct1, THEN mp, OF hc(1)])
  have c2: "\<exists>n. label_next (S3 30095) (if True then 1 else - 1) = Some n \<and>
        Actis_nextPrevStem 30000 (S3 30095) True =
          Some (if (Actis_isCCD_STD 30000 (S3 30095) \<and> Actis_isCCD_STD 30000 n) \<or>
                   (Actis_isCCD_HO 30000 (S3 30095) \<and> Actis_isCCD_HO 30000 n)
                then n else S3 30095)"
    by (rule inner[THEN conjunct2, THEN mp, OF ha(1)])
  have c3: "\<exists>n. label_next (S3 20110) (if True then 1 else - 1) = Some n \<and>
        Corail_nextPrevStem 20000 (S3 20110) True =
          Some (if Corail_isStem 20000 n \<and>
                   Corail_getCCDRange 20000 n = Corail_getCCDRange 20000 (S3 20110)
                then n else S3 20110)"
    by (rule edge[THEN conjunct1, THEN mp, OF hc(2)])
  have c4: "\<exists>n. label_next (S3 30102) (if True then 1 else - 1) = Some n \<and>
        Actis_nextPrevStem 30000 (S3 30102) True =
          Some (if (Actis_isCCD_STD 30000 (S3 30102) \<and> Actis_isCCD_STD 30000 n) \<or>
                   (Actis_isCCD_HO 30000 (S3 30102) \<and> Actis_isCCD_HO 30000 n)
                then n else S3 30102)"
    by (rule edge[THEN conjunct2, THEN mp, OF ha(2)])
  show ?thesis
    by (intro conjI) (rule hc ha vc va c1 c2 c3 c4)+
qed

section \<open>Moving a configuration to the next or previous stem\<close>

text \<open>
  C9. \<open>nextPrev\<close> returns the configuration with the stem label replaced by the result of
  \<open>nextPrevStem\<close> and every other field as it was: head, neck and cut-plane labels, sides,
  product names and the \<open>validAssembly\<close> flag, which is not computed again. Stated for
  Corail and Ecofit, for a configuration whose stem label is a stem.
\<close>

theorem nextPrev_changes_only_the_stem:
  "(Corail_isStem P (stemLabel c) \<longrightarrow>
      (\<exists>l. Corail_nextPrevStem P (stemLabel c) fwd = Some l \<and>
            Corail_nextPrev P c fwd = Some (c\<lparr>stemLabel := l\<rparr>) \<and>
            map_option validAssembly (Corail_nextPrev P c fwd) = Some (validAssembly c))) \<and>
   (Ecofit_isStem Q (stemLabel d) \<longrightarrow>
      (\<exists>l. Ecofit_nextPrevStem Q (stemLabel d) fwd = Some l \<and>
            Ecofit_nextPrev Q d fwd = Some (d\<lparr>stemLabel := l\<rparr>) \<and>
            map_option validAssembly (Ecofit_nextPrev Q d fwd) = Some (validAssembly d)))"
proof (intro conjI impI)
  assume "Corail_isStem P (stemLabel c)"
  from Corail_nextPrevStem_step[OF this, of fwd]
  show "\<exists>l. Corail_nextPrevStem P (stemLabel c) fwd = Some l \<and>
            Corail_nextPrev P c fwd = Some (c\<lparr>stemLabel := l\<rparr>) \<and>
            map_option validAssembly (Corail_nextPrev P c fwd) = Some (validAssembly c)"
    by (auto simp: Corail_nextPrev_def)
next
  assume "Ecofit_isStem Q (stemLabel d)"
  from Ecofit_nextPrevStem_total[OF this, of fwd]
  show "\<exists>l. Ecofit_nextPrevStem Q (stemLabel d) fwd = Some l \<and>
            Ecofit_nextPrev Q d fwd = Some (d\<lparr>stemLabel := l\<rparr>) \<and>
            map_option validAssembly (Ecofit_nextPrev Q d fwd) = Some (validAssembly d)"
    by (auto simp: Ecofit_nextPrev_def)
qed

theorem nextPrev_changes_only_the_stem_witness:
  "Corail_isStem 20000 (stemLabel (sampleFemIC AnatomLeft (S3 20165) (S3 20168) NullLabel)) \<and>
   (\<exists>l. Corail_nextPrevStem 20000
           (stemLabel (sampleFemIC AnatomLeft (S3 20165) (S3 20168) NullLabel)) False = Some l \<and>
        Corail_nextPrev 20000 (sampleFemIC AnatomLeft (S3 20165) (S3 20168) NullLabel) False
          = Some ((sampleFemIC AnatomLeft (S3 20165) (S3 20168) NullLabel)\<lparr>stemLabel := l\<rparr>) \<and>
        map_option validAssembly
          (Corail_nextPrev 20000 (sampleFemIC AnatomLeft (S3 20165) (S3 20168) NullLabel) False)
          = Some (validAssembly (sampleFemIC AnatomLeft (S3 20165) (S3 20168) NullLabel))) \<and>
   Corail_nextPrev 20000 (sampleFemIC AnatomLeft (S3 20165) (S3 20168) NullLabel) False
     = Some (sampleFemIC AnatomLeft (S3 20164) (S3 20168) NullLabel) \<and>
   Ecofit_isStem 40000 (stemLabel (sampleFemIC AnatomLeft (S3 40143) NullLabel NullLabel)) \<and>
   (\<exists>l. Ecofit_nextPrevStem 40000
           (stemLabel (sampleFemIC AnatomLeft (S3 40143) NullLabel NullLabel)) False = Some l \<and>
        Ecofit_nextPrev 40000 (sampleFemIC AnatomLeft (S3 40143) NullLabel NullLabel) False
          = Some ((sampleFemIC AnatomLeft (S3 40143) NullLabel NullLabel)\<lparr>stemLabel := l\<rparr>) \<and>
        map_option validAssembly
          (Ecofit_nextPrev 40000 (sampleFemIC AnatomLeft (S3 40143) NullLabel NullLabel) False)
          = Some (validAssembly (sampleFemIC AnatomLeft (S3 40143) NullLabel NullLabel))) \<and>
   Ecofit_nextPrev 40000 (sampleFemIC AnatomLeft (S3 40143) NullLabel NullLabel) False
     = Some (sampleFemIC AnatomLeft (S3 40142) NullLabel NullLabel)"
proof -
  have hc: "Corail_isStem 20000 (stemLabel (sampleFemIC AnatomLeft (S3 20165) (S3 20168) NullLabel))"
    by (simp add: sampleFemIC_def Corail_label_simps)
  have he: "Ecofit_isStem 40000 (stemLabel (sampleFemIC AnatomLeft (S3 40143) NullLabel NullLabel))"
    by (simp add: sampleFemIC_def Ecofit_label_simps)
  have vc: "Corail_nextPrev 20000 (sampleFemIC AnatomLeft (S3 20165) (S3 20168) NullLabel) False
              = Some (sampleFemIC AnatomLeft (S3 20164) (S3 20168) NullLabel)"
    by (simp add: Corail_nextPrev_def Corail_nextPrevStem_def sampleFemIC_def Corail_label_simps)
  have ve: "Ecofit_nextPrev 40000 (sampleFemIC AnatomLeft (S3 40143) NullLabel NullLabel) False
              = Some (sampleFemIC AnatomLeft (S3 40142) NullLabel NullLabel)"
    by (simp add: Ecofit_nextPrev_def Ecofit_nextPrevStem_def Ecofit_getRangeStats_def R_defs
        sampleFemIC_def Ecofit_label_simps Let_def)
  from nextPrev_changes_only_the_stem[of 20000
         "sampleFemIC AnatomLeft (S3 20165) (S3 20168) NullLabel" False
         40000 "sampleFemIC AnatomLeft (S3 40143) NullLabel NullLabel"] hc he vc ve
  show ?thesis by blast
qed

section \<open>Filling and validating a configuration\<close>

lemma Corail_fill_valid_iff:
  "validAssembly (Corail_fillAndValidAssembly P pn c) \<longleftrightarrow>
     requestedSide c \<noteq> AnatomNone \<and> Corail_isStem P (stemLabel c) \<and>
     Corail_isHead P (headLabel c) \<and> \<not> isSet (neckLabel c)"
  by (simp add: Corail_fillAndValidAssembly_def Let_def)

lemma Ecofit_fill_valid_iff:
  "validAssembly (Ecofit_fillAndValidAssembly P pn c) \<longleftrightarrow>
     requestedSide c \<noteq> AnatomNone \<and> Ecofit_isStem P (stemLabel c) \<and>
     Ecofit_isHead P (headLabel c) \<and> \<not> isSet (neckLabel c)"
  by (simp add: Ecofit_fillAndValidAssembly_def Let_def)

lemma Corail_fill_failed:
  assumes "\<not> (requestedSide c \<noteq> AnatomNone \<and> Corail_isStem P (stemLabel c) \<and>
              Corail_isHead P (headLabel c) \<and> \<not> isSet (neckLabel c))"
  shows "Corail_fillAndValidAssembly P pn c =
           (if requestedSide c \<noteq> AnatomNone \<and> \<not> isSet (cutPlaneLabel c)
            then c\<lparr>cutPlaneLabel := s3 (Corail_CUTPLANE P), validAssembly := False\<rparr>
            else c\<lparr>validAssembly := False\<rparr>)"
  using assms by (auto simp add: Corail_fillAndValidAssembly_def Let_def)

lemma Ecofit_fill_failed:
  assumes "\<not> (requestedSide c \<noteq> AnatomNone \<and> Ecofit_isStem P (stemLabel c) \<and>
              Ecofit_isHead P (headLabel c) \<and> \<not> isSet (neckLabel c))"
  shows "Ecofit_fillAndValidAssembly P pn c =
           (if requestedSide c \<noteq> AnatomNone \<and> \<not> isSet (cutPlaneLabel c)
            then c\<lparr>cutPlaneLabel := s3 (Ecofit_CUTPLANE P), validAssembly := False\<rparr>
            else c\<lparr>validAssembly := False\<rparr>)"
  using assms by (auto simp add: Ecofit_fillAndValidAssembly_def Let_def)

lemma Actis_fill_failed:
  assumes "\<not> (requestedSide c \<noteq> AnatomNone \<and> Actis_isStem P (stemLabel c) \<and>
              Actis_isHead P (headLabel c) \<and> \<not> isSet (neckLabel c))"
  shows "Actis_fillAndValidAssembly P pn c =
           (if requestedSide c \<noteq> AnatomNone \<and> \<not> isSet (cutPlaneLabel c)
            then c\<lparr>cutPlaneLabel := s3 (Actis_CUTPLANE P), validAssembly := False\<rparr>
            else c\<lparr>validAssembly := False\<rparr>)"
  using assms by (auto simp add: Actis_fillAndValidAssembly_def Let_def)

lemma Corail_fill_cutplane:
  "requestedSide c \<noteq> AnatomNone \<Longrightarrow> \<not> isSet (cutPlaneLabel c) \<Longrightarrow>
     cutPlaneLabel (Corail_fillAndValidAssembly P pn c) = s3 (Corail_CUTPLANE P)"
  by (simp add: Corail_fillAndValidAssembly_def Let_def)

lemma Ecofit_fill_cutplane:
  "requestedSide c \<noteq> AnatomNone \<Longrightarrow> \<not> isSet (cutPlaneLabel c) \<Longrightarrow>
     cutPlaneLabel (Ecofit_fillAndValidAssembly P pn c) = s3 (Ecofit_CUTPLANE P)"
  by (simp add: Ecofit_fillAndValidAssembly_def Let_def)

lemma Actis_fill_cutplane:
  "requestedSide c \<noteq> AnatomNone \<Longrightarrow> \<not> isSet (cutPlaneLabel c) \<Longrightarrow>
     cutPlaneLabel (Actis_fillAndValidAssembly P pn c) = s3 (Actis_CUTPLANE P)"
  by (simp add: Actis_fillAndValidAssembly_def Let_def)

text \<open>
  C2, as the specification states it, fails on the code. Corail is a side-free product (it
  stamps \<open>SboAnatomLocation::None\<close> as the side of the implant), so the stated side
  requirement holds for a configuration whose requested side is none; with the default stem
  and head and no neck every stated condition holds, yet \<open>fillAndValidAssembly\<close> leaves
  \<open>validAssembly\<close> false, because it tests the requested side in every product.
\<close>

theorem Corail_side_free_still_needs_a_side:
  "\<not> (validAssembly
         (Corail_fillAndValidAssembly 20000 ''CORAIL''
            (sampleFemIC AnatomNone (s3 (Corail_defaultS3StemRUID 20000))
               (s3 (Corail_defaultS3HeadUID 20000)) (s3 (Corail_CUTPLANE 20000))))
       \<longleftrightarrow>
       (sideRequirementSatisfied Corail_sideFree
          (requestedSide (sampleFemIC AnatomNone (s3 (Corail_defaultS3StemRUID 20000))
               (s3 (Corail_defaultS3HeadUID 20000)) (s3 (Corail_CUTPLANE 20000)))) \<and>
        Corail_isStem 20000
          (stemLabel (sampleFemIC AnatomNone (s3 (Corail_defaultS3StemRUID 20000))
               (s3 (Corail_defaultS3HeadUID 20000)) (s3 (Corail_CUTPLANE 20000)))) \<and>
        Corail_isHead 20000
          (headLabel (sampleFemIC AnatomNone (s3 (Corail_defaultS3StemRUID 20000))
               (s3 (Corail_defaultS3HeadUID 20000)) (s3 (Corail_CUTPLANE 20000)))) \<and>
        \<not> isSet
          (neckLabel (sampleFemIC AnatomNone (s3 (Corail_defaultS3StemRUID 20000))
               (s3 (Corail_defaultS3HeadUID 20000)) (s3 (Corail_CUTPLANE 20000))))))"
  by (simp add: Corail_fill_valid_iff sampleFemIC_def sideRequirementSatisfied_def
      Corail_sideFree_def Corail_isStem_def Corail_isHead_def s3_def Corail_S3UID_defs)

text \<open>
  C2, amended. In Corail and in Ecofit, \<open>fillAndValidAssembly\<close> returns \<open>validAssembly\<close>
  true if and only if the requested side is different from none (also for the side-free
  product), the stem label classifies as a stem, the head label classifies as a head and no
  neck label is set. A configuration whose stem label is no stem comes back with
  \<open>validAssembly\<close> false and with its \<open>stemProductName\<close> as it was.
\<close>

theorem fillAndValidAssembly_valid_iff:
  "(validAssembly (Corail_fillAndValidAssembly P pn c) \<longleftrightarrow>
      requestedSide c \<noteq> AnatomNone \<and> Corail_isStem P (stemLabel c) \<and>
      Corail_isHead P (headLabel c) \<and> \<not> isSet (neckLabel c)) \<and>
   (\<not> Corail_isStem P (stemLabel c) \<longrightarrow>
      \<not> validAssembly (Corail_fillAndValidAssembly P pn c) \<and>
      stemProductName (Corail_fillAndValidAssembly P pn c) = stemProductName c) \<and>
   (validAssembly (Ecofit_fillAndValidAssembly Q qn d) \<longleftrightarrow>
      requestedSide d \<noteq> AnatomNone \<and> Ecofit_isStem Q (stemLabel d) \<and>
      Ecofit_isHead Q (headLabel d) \<and> \<not> isSet (neckLabel d)) \<and>
   (\<not> Ecofit_isStem Q (stemLabel d) \<longrightarrow>
      \<not> validAssembly (Ecofit_fillAndValidAssembly Q qn d) \<and>
      stemProductName (Ecofit_fillAndValidAssembly Q qn d) = stemProductName d)"
proof (intro conjI impI)
  assume "\<not> Corail_isStem P (stemLabel c)"
  then show "stemProductName (Corail_fillAndValidAssembly P pn c) = stemProductName c"
    by (simp add: Corail_fill_failed)
next
  assume "\<not> Ecofit_isStem Q (stemLabel d)"
  then show "stemProductName (Ecofit_fillAndValidAssembly Q qn d) = stemProductName d"
    by (simp add: Ecofit_fill_failed)
qed (simp_all add: Corail_fill_valid_iff Ecofit_fill_valid_iff)

theorem fillAndValidAssembly_valid_iff_witness:
  "\<not> Corail_isStem 20000 (stemLabel (sampleFemIC AnatomLeft (S3 20166) (S3 20168) NullLabel)) \<and>
   Corail_isHead 20000 (headLabel (sampleFemIC AnatomLeft (S3 20166) (S3 20168) NullLabel)) \<and>
   \<not> validAssembly (Corail_fillAndValidAssembly 20000 ''CORAIL''
                      (sampleFemIC AnatomLeft (S3 20166) (S3 20168) NullLabel)) \<and>
   stemProductName (Corail_fillAndValidAssembly 20000 ''CORAIL''
                      (sampleFemIC AnatomLeft (S3 20166) (S3 20168) NullLabel)) = [] \<and>
   validAssembly (Corail_fillAndValidAssembly 20000 ''CORAIL''
                      (sampleFemIC AnatomLeft (S3 20116) (S3 20168) NullLabel)) \<and>
   \<not> Ecofit_isStem 40000 (stemLabel (sampleFemIC AnatomRight (S3 40144) (S3 40146) NullLabel)) \<and>
   Ecofit_isHead 40000 (headLabel (sampleFemIC AnatomRight (S3 40144) (S3 40146) NullLabel)) \<and>
   \<not> validAssembly (Ecofit_fillAndValidAssembly 40000 ''ECOFIT''
                      (sampleFemIC AnatomRight (S3 40144) (S3 40146) NullLabel)) \<and>
   stemProductName (Ecofit_fillAndValidAssembly 40000 ''ECOFIT''
                      (sampleFemIC AnatomRight (S3 40144) (S3 40146) NullLabel)) = []"
proof -
  have hc: "\<not> Corail_isStem 20000 (stemLabel (sampleFemIC AnatomLeft (S3 20166) (S3 20168) NullLabel))"
    "Corail_isHead 20000 (headLabel (sampleFemIC AnatomLeft (S3 20166) (S3 20168) NullLabel))"
    by (simp_all add: sampleFemIC_def Corail_isStem_def Corail_isHead_def s3_def Corail_S3UID_defs)
  have he: "\<not> Ecofit_isStem 40000 (stemLabel (sampleFemIC AnatomRight (S3 40144) (S3 40146) NullLabel))"
    "Ecofit_isHead 40000 (headLabel (sampleFemIC AnatomRight (S3 40144) (S3 40146) NullLabel))"
    by (simp_all add: sampleFemIC_def Ecofit_isCCD_defs s3_def Ecofit_S3UID_defs)
  have n: "stemProductName (sampleFemIC AnatomLeft (S3 20166) (S3 20168) NullLabel) = []"
    "stemProductName (sampleFemIC AnatomRight (S3 40144) (S3 40146) NullLabel) = []"
    by (simp_all add: sampleFemIC_def)
  have ok: "requestedSide (sampleFemIC AnatomLeft (S3 20116) (S3 20168) NullLabel) \<noteq> AnatomNone \<and>
      Corail_isStem 20000 (stemLabel (sampleFemIC AnatomLeft (S3 20116) (S3 20168) NullLabel)) \<and>
      Corail_isHead 20000 (headLabel (sampleFemIC AnatomLeft (S3 20116) (S3 20168) NullLabel)) \<and>
      \<not> isSet (neckLabel (sampleFemIC AnatomLeft (S3 20116) (S3 20168) NullLabel))"
    by (simp add: sampleFemIC_def Corail_isStem_def Corail_isHead_def s3_def Corail_S3UID_defs)
  from fillAndValidAssembly_valid_iff[of 20000 "''CORAIL''"
         "sampleFemIC AnatomLeft (S3 20166) (S3 20168) NullLabel"
         40000 "''ECOFIT''" "sampleFemIC AnatomRight (S3 40144) (S3 40146) NullLabel"]
       fillAndValidAssembly_valid_iff[of 20000 "''CORAIL''"
         "sampleFemIC AnatomLeft (S3 20116) (S3 20168) NullLabel"
         40000 "''ECOFIT''" "sampleFemIC AnatomRight (S3 40144) (S3 40146) NullLabel"]
       hc he n ok
  show ?thesis by metis
qed

text \<open>
  C10. When the requested side is different from none and the cut-plane label of the input
  is not set, \<open>fillAndValidAssembly\<close> returns the product's \<open>CUTPLANE\<close> label as cut-plane
  label, also when the checks fail; and on a failed validation the result is the input with
  only that cut-plane label and \<open>validAssembly = false\<close> written. Stated for Corail, Ecofit
  and Actis.
\<close>

theorem fillAndValidAssembly_defaults_the_cutplane:
  "(requestedSide c \<noteq> AnatomNone \<and> \<not> isSet (cutPlaneLabel c) \<longrightarrow>
      cutPlaneLabel (Corail_fillAndValidAssembly P pn c) = s3 (Corail_CUTPLANE P) \<and>
      (\<not> (Corail_isStem P (stemLabel c) \<and> Corail_isHead P (headLabel c) \<and> \<not> isSet (neckLabel c))
         \<longrightarrow> Corail_fillAndValidAssembly P pn c
               = c\<lparr>cutPlaneLabel := s3 (Corail_CUTPLANE P), validAssembly := False\<rparr>)) \<and>
   (requestedSide d \<noteq> AnatomNone \<and> \<not> isSet (cutPlaneLabel d) \<longrightarrow>
      cutPlaneLabel (Ecofit_fillAndValidAssembly Q qn d) = s3 (Ecofit_CUTPLANE Q) \<and>
      (\<not> (Ecofit_isStem Q (stemLabel d) \<and> Ecofit_isHead Q (headLabel d) \<and> \<not> isSet (neckLabel d))
         \<longrightarrow> Ecofit_fillAndValidAssembly Q qn d
               = d\<lparr>cutPlaneLabel := s3 (Ecofit_CUTPLANE Q), validAssembly := False\<rparr>)) \<and>
   (requestedSide e \<noteq> AnatomNone \<and> \<not> isSet (cutPlaneLabel e) \<longrightarrow>
      cutPlaneLabel (Actis_fillAndValidAssembly R rn e) = s3 (Actis_CUTPLANE R) \<and>
      (\<not> (Actis_isStem R (stemLabel e) \<and> Actis_isHead R (headLabel e) \<and> \<not> isSet (neckLabel e))
         \<longrightarrow> Actis_fillAndValidAssembly R rn e
               = e\<lparr>cutPlaneLabel := s3 (Actis_CUTPLANE R), validAssembly := False\<rparr>))"
  by (simp add: Corail_fill_cutplane Ecofit_fill_cutplane Actis_fill_cutplane
      Corail_fill_failed Ecofit_fill_failed Actis_fill_failed)

theorem fillAndValidAssembly_defaults_the_cutplane_witness:
  "requestedSide (sampleFemIC AnatomLeft NullLabel (S3 20168) NullLabel) \<noteq> AnatomNone \<and>
   \<not> isSet (cutPlaneLabel (sampleFemIC AnatomLeft NullLabel (S3 20168) NullLabel)) \<and>
   \<not> Corail_isStem 20000 (stemLabel (sampleFemIC AnatomLeft NullLabel (S3 20168) NullLabel)) \<and>
   Corail_fillAndValidAssembly 20000 ''CORAIL'' (sampleFemIC AnatomLeft NullLabel (S3 20168) NullLabel)
     = (sampleFemIC AnatomLeft NullLabel (S3 20168) NullLabel)
         \<lparr>cutPlaneLabel := s3 (Corail_CUTPLANE 20000), validAssembly := False\<rparr> \<and>
   Ecofit_fillAndValidAssembly 40000 ''ECOFIT'' (sampleFemIC AnatomLeft NullLabel (S3 20168) NullLabel)
     = (sampleFemIC AnatomLeft NullLabel (S3 20168) NullLabel)
         \<lparr>cutPlaneLabel := s3 (Ecofit_CUTPLANE 40000), validAssembly := False\<rparr> \<and>
   Actis_fillAndValidAssembly 30000 ''ACTIS'' (sampleFemIC AnatomLeft NullLabel (S3 20168) NullLabel)
     = (sampleFemIC AnatomLeft NullLabel (S3 20168) NullLabel)
         \<lparr>cutPlaneLabel := s3 (Actis_CUTPLANE 30000), validAssembly := False\<rparr> \<and>
   cutPlaneLabel
     (Corail_fillAndValidAssembly 20000 ''CORAIL'' (sampleFemIC AnatomLeft NullLabel (S3 20168) NullLabel))
     = S3 20166"
proof -
  have h: "requestedSide (sampleFemIC AnatomLeft NullLabel (S3 20168) NullLabel) \<noteq> AnatomNone"
    "\<not> isSet (cutPlaneLabel (sampleFemIC AnatomLeft NullLabel (S3 20168) NullLabel))"
    by (simp_all add: sampleFemIC_def)
  have s: "\<not> Corail_isStem 20000 (stemLabel (sampleFemIC AnatomLeft NullLabel (S3 20168) NullLabel))"
    "\<not> Ecofit_isStem 40000 (stemLabel (sampleFemIC AnatomLeft NullLabel (S3 20168) NullLabel))"
    "\<not> Actis_isStem 30000 (stemLabel (sampleFemIC AnatomLeft NullLabel (S3 20168) NullLabel))"
    by (simp_all add: sampleFemIC_def Corail_isStem_def Ecofit_isCCD_defs Actis_isCCD_defs s3_def)
  have v: "s3 (Corail_CUTPLANE 20000) = S3 20166"
    by (simp add: s3_def Corail_CUTPLANE_def)
  from fillAndValidAssembly_defaults_the_cutplane[of
         "sampleFemIC AnatomLeft NullLabel (S3 20168) NullLabel" 20000 "''CORAIL''"
         "sampleFemIC AnatomLeft NullLabel (S3 20168) NullLabel" 40000 "''ECOFIT''"
         "sampleFemIC AnatomLeft NullLabel (S3 20168) NullLabel" 30000 "''ACTIS''"] h s v
  show ?thesis by metis
qed

section \<open>Placing the head on a Corail stem\<close>

lemma Corail_KS_STD135_5_offset:
  "Corail_getOffset P (s3 (Corail_STEM_KS_STD135_5 P)) = Some 5"
  by (simp add: Corail_getOffset_def Corail_getCCDStartIdx_def Corail_label_simps)

lemma Corail_KS_STD135_5_class:
  "Corail_isCCD_KS_STD135 P (s3 (Corail_STEM_KS_STD135_5 P))"
  "Corail_isStem P (s3 (Corail_STEM_KS_STD135_5 P))"
  by (simp_all add: Corail_label_simps)

lemma Corail_KS_STD135_5_TPR_01:
  "Corail_getTPR_01 P (s3 (Corail_STEM_KS_STD135_5 P)) = Some (SboPoint3 (- 41.67) 0 41.67)"
  using Corail_KS_STD135_5_offset Corail_KS_STD135_5_class
  by (simp add: Corail_getTPR_01_def HPROJ_DCHECK2_def)

lemma Corail_KS_STD135_5_RES_01:
  "Corail_getRES_01 P (s3 (Corail_STEM_KS_STD135_5 P)) = Some (SboPoint3 (- 14.44) 0 14.44)"
  using Corail_KS_STD135_5_offset Corail_KS_STD135_5_class
  by (simp add: Corail_getRES_01_def HPROJ_DCHECK2_def)

lemma Corail_KS_STD135_5_axis:
  "\<exists>axis. unit3 (sub3 (SboPoint3 (- 41.67) 0 41.67) (SboPoint3 (- 14.44) 0 14.44)) = Some axis"
proof -
  have "norm3 (sub3 (SboPoint3 (- 41.67) 0 41.67) (SboPoint3 (- 14.44) 0 14.44)) \<noteq> 0"
    by (simp add: norm3_def)
  then show ?thesis by (simp add: unit3_def)
qed

lemma Corail_KS_STD135_5_head_P4:
  assumes "unit3 (sub3 (SboPoint3 (- 41.67) 0 41.67) (SboPoint3 (- 14.44) 0 14.44)) = Some axis"
  shows "Corail_headToStemMatrix P (s3 (Corail_HEAD_P4 P)) (s3 (Corail_STEM_KS_STD135_5 P))
        = Some (transMat3 (add3 (SboPoint3 (- 41.67) 0 41.67) (scale3 axis 3.5)))"
proof -
  have "s3 (Corail_HEAD_P4 P) \<noteq> s3 (Corail_HEAD_M4 P)"
    by (simp add: s3_def Corail_S3UID_defs)
  then show ?thesis
    using Corail_KS_STD135_5_TPR_01 Corail_KS_STD135_5_RES_01 assms
    by (simp add: Corail_headToStemMatrix_def)
qed

text \<open>
  C7. For the Corail stem at sub-range KS_STD135, offset 5 (catalogue size 13) and the head
  \<open>HEAD_P4\<close>, \<open>headToStemMatrix\<close> returns a transform whose translation is
  \<open>TPR_01 + axis * 3.5\<close> with \<open>axis = unit3 (TPR_01 - RES_01)\<close>, where
  \<open>TPR_01 = (-41.67, 0, 41.67)\<close> and \<open>RES_01 = (-14.44, 0, 14.44)\<close> are the landmarks of
  that stem. Coordinates are real numbers here; rounding of the machine floats is not modelled.
\<close>

theorem Corail_headToStemMatrix_KS13_P4:
  "\<exists>tpr res axis m.
     Corail_getOffset P (s3 (Corail_STEM_KS_STD135_5 P)) = Some 5 \<and>
     Corail_getCCDRange P (s3 (Corail_STEM_KS_STD135_5 P)) = Some (s3 (Corail_RANGE_CCD_KS_STD135 P)) \<and>
     Corail_catalogSize P (s3 (Corail_STEM_KS_STD135_5 P)) = Some 13 \<and>
     Corail_getTPR_01 P (s3 (Corail_STEM_KS_STD135_5 P)) = Some tpr \<and>
     Corail_getRES_01 P (s3 (Corail_STEM_KS_STD135_5 P)) = Some res \<and>
     tpr = SboPoint3 (- 41.67) 0 41.67 \<and> res = SboPoint3 (- 14.44) 0 14.44 \<and>
     unit3 (sub3 tpr res) = Some axis \<and>
     Corail_headToStemMatrix P (s3 (Corail_HEAD_P4 P)) (s3 (Corail_STEM_KS_STD135_5 P)) = Some m \<and>
     translation m = add3 tpr (scale3 axis 3.5)"
proof -
  from Corail_KS_STD135_5_axis obtain axis where
    ax: "unit3 (sub3 (SboPoint3 (- 41.67) 0 41.67) (SboPoint3 (- 14.44) 0 14.44)) = Some axis"
    by blast
  have r: "Corail_getCCDRange P (s3 (Corail_STEM_KS_STD135_5 P)) = Some (s3 (Corail_RANGE_CCD_KS_STD135 P))"
    by (simp add: Corail_getCCDRange_def Corail_label_simps)
  have c: "Corail_catalogSize P (s3 (Corail_STEM_KS_STD135_5 P)) = Some 13"
    using r Corail_KS_STD135_5_offset
    by (simp add: Corail_catalogSize_def Corail_catalogSizes_def)
  have t: "translation (transMat3 (add3 (SboPoint3 (- 41.67) 0 41.67) (scale3 axis 3.5)))
             = add3 (SboPoint3 (- 41.67) 0 41.67) (scale3 axis 3.5)"
    by (simp add: transMat3_def)
  show ?thesis
    apply (rule exI[of _ "SboPoint3 (- 41.67) 0 41.67"])
    apply (rule exI[of _ "SboPoint3 (- 14.44) 0 14.44"])
    apply (rule exI[of _ axis])
    apply (rule exI[of _ "transMat3 (add3 (SboPoint3 (- 41.67) 0 41.67) (scale3 axis 3.5))"])
    apply (intro conjI)
    apply (rule Corail_KS_STD135_5_offset r c Corail_KS_STD135_5_TPR_01 Corail_KS_STD135_5_RES_01
             refl ax Corail_KS_STD135_5_head_P4[OF ax] t)+
    done
qed

section \<open>Similar labels of Corail\<close>

lemma Corail_ranges_cases:
  "r \<in> set (Corail_ranges P) \<Longrightarrow>
     r = Corail_rKS_STD135 P \<or> r = Corail_rKA_STD135 P \<or> r = Corail_rKHO_S_135 P \<or>
     r = Corail_rKHO_A_135 P \<or> r = Corail_rKLA_125 P \<or> r = Corail_rSTD125_S P \<or>
     r = Corail_rSTD125_A P \<or> r = Corail_rSN_S P \<or> r = Corail_rSN_A P"
  by (simp add: Corail_ranges_def)

lemma Corail_find_range:
  "r \<in> set (Corail_ranges P) \<Longrightarrow> find (\<lambda>x. label x = label r) (Corail_ranges P) = Some r"
  by (drule Corail_ranges_cases) (elim disjE; simp add: Corail_RT_defs s3_def Corail_S3UID_defs)

lemma Corail_stem_decompose:
  assumes "Corail_isStem P l"
  shows "\<exists>r off. r \<in> set (Corail_ranges P) \<and> 0 \<le> off \<and> off \<le> endIdx r - startIdx r \<and>
           l = S3 (P + 90 + startIdx r + off) \<and>
           Corail_getCCDRange P l = Some (label r) \<and> Corail_getOffset P l = Some off"
proof -
  from assms obtain u where u: "l = S3 u" "P + 90 \<le> u" "u \<le> P + 165"
    by (auto simp: Corail_isStem_uid)
  define k where "k = u - (P + 90)"
  have k: "0 \<le> k" "k \<le> 75" "u = P + 90 + k" using u by (auto simp: k_def)
  consider "k \<le> 9" | "10 \<le> k \<and> k \<le> 20" | "21 \<le> k \<and> k \<le> 31" | "32 \<le> k \<and> k \<le> 41"
    | "42 \<le> k \<and> k \<le> 51" | "52 \<le> k \<and> k \<le> 55" | "56 \<le> k \<and> k \<le> 63"
    | "64 \<le> k \<and> k \<le> 67" | "68 \<le> k" by linarith
  then show ?thesis
  proof cases
    case 1
    show ?thesis
      apply (rule exI[of _ "Corail_rKHO_A_135 P"], rule exI[of _ k])
      using 1 k u(1)
      apply (simp add: Corail_RT_defs Corail_getCCDRange_def Corail_getOffset_def Corail_getCCDStartIdx_def Corail_label_simps)
      done
  next
    case 2
    show ?thesis
      apply (rule exI[of _ "Corail_rKS_STD135 P"], rule exI[of _ "k - 10"])
      using 2 k u(1)
      apply (simp add: Corail_RT_defs Corail_getCCDRange_def Corail_getOffset_def Corail_getCCDStartIdx_def Corail_label_simps)
      done
  next
    case 3
    show ?thesis
      apply (rule exI[of _ "Corail_rKA_STD135 P"], rule exI[of _ "k - 21"])
      using 3 k u(1)
      apply (simp add: Corail_RT_defs Corail_getCCDRange_def Corail_getOffset_def Corail_getCCDStartIdx_def Corail_label_simps)
      done
  next
    case 4
    show ?thesis
      apply (rule exI[of _ "Corail_rKHO_S_135 P"], rule exI[of _ "k - 32"])
      using 4 k u(1)
      apply (simp add: Corail_RT_defs Corail_getCCDRange_def Corail_getOffset_def Corail_getCCDStartIdx_def Corail_label_simps)
      done
  next
    case 5
    show ?thesis
      apply (rule exI[of _ "Corail_rKLA_125 P"], rule exI[of _ "k - 42"])
      using 5 k u(1)
      apply (simp add: Corail_RT_defs Corail_getCCDRange_def Corail_getOffset_def Corail_getCCDStartIdx_def Corail_label_simps)
      done
  next
    case 6
    show ?thesis
      apply (rule exI[of _ "Corail_rSTD125_S P"], rule exI[of _ "k - 52"])
      using 6 k u(1)
      apply (simp add: Corail_RT_defs Corail_getCCDRange_def Corail_getOffset_def Corail_getCCDStartIdx_def Corail_label_simps)
      done
  next
    case 7
    show ?thesis
      apply (rule exI[of _ "Corail_rSTD125_A P"], rule exI[of _ "k - 56"])
      using 7 k u(1)
      apply (simp add: Corail_RT_defs Corail_getCCDRange_def Corail_getOffset_def Corail_getCCDStartIdx_def Corail_label_simps)
      done
  next
    case 8
    show ?thesis
      apply (rule exI[of _ "Corail_rSN_S P"], rule exI[of _ "k - 64"])
      using 8 k u(1)
      apply (simp add: Corail_RT_defs Corail_getCCDRange_def Corail_getOffset_def Corail_getCCDStartIdx_def Corail_label_simps)
      done
  next
    case 9
    show ?thesis
      apply (rule exI[of _ "Corail_rSN_A P"], rule exI[of _ "k - 68"])
      using 9 k u(1)
      apply (simp add: Corail_RT_defs Corail_getCCDRange_def Corail_getOffset_def Corail_getCCDStartIdx_def Corail_label_simps)
      done
  qed
qed

lemma Corail_stem_compose:
  assumes "r \<in> set (Corail_ranges P)" "0 \<le> off" "off \<le> endIdx r - startIdx r"
  shows "Corail_isStem P (S3 (P + 90 + startIdx r + off)) \<and>
         Corail_getCCDRange P (S3 (P + 90 + startIdx r + off)) = Some (label r) \<and>
         Corail_getOffset P (S3 (P + 90 + startIdx r + off)) = Some off"
  using Corail_ranges_cases[OF assms(1)] assms(2,3)
  by (elim disjE; simp add: Corail_RT_defs Corail_getCCDRange_def Corail_getOffset_def Corail_getCCDStartIdx_def Corail_label_simps)


lemma Corail_similarLabel_eq:
  assumes "ra \<in> set (Corail_ranges P)" "0 \<le> off" "off \<le> endIdx ra - startIdx ra"
    and "rb \<in> set (Corail_ranges P)"
  shows "Corail_similarLabel P (S3 (P + 90 + startIdx ra + off)) (label rb) =
           Some (S3 (P + 90 + startIdx rb + Corail_getSimilarOffset P off (label ra) (label rb)))"
  using Corail_stem_compose[OF assms(1-3)] Corail_find_range[OF assms(1)] Corail_find_range[OF assms(4)]
  by (simp add: Corail_similarLabel_def s3_def Corail_lowerS3UID_def Corail_STEM_KHO_A_135_0_def)

lemma Corail_getSimilarOffset_clamp:
  assumes "ra \<in> set (Corail_ranges P)" "0 \<le> off" "off \<le> endIdx ra - startIdx ra"
    and "rb \<in> set (Corail_ranges P)"
  shows "Corail_getSimilarOffset P off (label ra) (label rb) =
           clamp (Corail_shiftedOffset P off (label ra) (label rb)) 0 (Corail_maxOffset P (label rb))"
  using Corail_ranges_cases[OF assms(1)] Corail_ranges_cases[OF assms(4)] assms(2,3)
  by (elim disjE; simp add: Corail_RT_defs Corail_getSimilarOffset_def Corail_shiftedOffset_def
        Corail_maxOffset_def Corail_catalogSizes_def clamp_def s3_def Corail_S3UID_defs)


lemma Corail_maxOffset_range:
  "r \<in> set (Corail_ranges P) \<Longrightarrow> Corail_maxOffset P (label r) = endIdx r - startIdx r"
  by (drule Corail_ranges_cases)
     (elim disjE; simp add: Corail_RT_defs Corail_maxOffset_def Corail_catalogSizes_def s3_def Corail_S3UID_defs)

lemma Corail_shiftedOffset_reverse:
  "Corail_shiftedOffset P (Corail_shiftedOffset P off a b + e) b a = off + e"
  by (simp add: Corail_shiftedOffset_def)

lemma clamp_roundtrip:
  assumes "0 \<le> off" "off \<le> ma" "0 \<le> mb"
  shows "\<bar>clamp (clamp (off + d) 0 mb - d) 0 ma - off\<bar> \<le> \<bar>(off + d) - clamp (off + d) 0 mb\<bar>"
  using assms by (simp add: clamp_def)

lemma clamp_bounds: "lo \<le> hi \<Longrightarrow> lo \<le> clamp v lo hi \<and> clamp v lo hi \<le> hi"
  by (simp add: clamp_def)

lemma Corail_similarLabel_own:
  assumes "Corail_isStem P l" "Corail_getCCDRange P l = Some r"
  shows "Corail_similarLabel P l r = Some l"
proof -
  from Corail_stem_decompose[OF assms(1)] obtain ra off where
    r: "ra \<in> set (Corail_ranges P)" "0 \<le> off" "off \<le> endIdx ra - startIdx ra"
    and l: "l = S3 (P + 90 + startIdx ra + off)"
    and rl: "Corail_getCCDRange P l = Some (label ra)"
    by blast
  have "Corail_getSimilarOffset P off (label ra) (label ra) = off"
    using Corail_getSimilarOffset_clamp[OF r r(1)] Corail_maxOffset_range[OF r(1)] r(2,3)
    by (simp add: Corail_shiftedOffset_def clamp_def)
  then show ?thesis
    using Corail_similarLabel_eq[OF r r(1)] l rl assms(2) by simp
qed


section \<open>Sizes and similar labels of Amistem\<close>

lemmas Amistem_label_simps =
  Amistem_isCCD_defs s3_def Amistem_S3UID_defs HPROJ_DCHECK2_def

lemma Amistem_isStem_uid:
  "Amistem_isStem P l \<longleftrightarrow> (\<exists>k. l = S3 (P + 50 + k) \<and> 0 \<le> k \<and> k \<le> 39)"
proof (cases l)
  case NullLabel
  then show ?thesis by (simp add: Amistem_label_simps)
next
  case (S3 u)
  have "Amistem_isStem P (S3 u) \<longleftrightarrow> P + 50 \<le> u \<and> u \<le> P + 89"
    by (auto simp: Amistem_label_simps)
  also have "\<dots> \<longleftrightarrow> (\<exists>k. S3 u = S3 (P + 50 + k) \<and> 0 \<le> k \<and> k \<le> 39)"
    by (auto intro: exI[of _ "u - (P + 50)"])
  finally show ?thesis using S3 by simp
qed

lemma Amistem_isRange_cases:
  "Amistem_isRange P r \<longleftrightarrow>
     r = s3 (Amistem_RANGE_CCD_STD P) \<or> r = s3 (Amistem_RANGE_CCD_LAT P) \<or>
     r = s3 (Amistem_RANGE_CCD_STD_SN P) \<or> r = s3 (Amistem_RANGE_CCD_LAT_SN P)"
  by (cases r) (auto simp: Amistem_label_simps)

lemma Amistem_getStemSize_at:
  assumes "0 \<le> pos" "pos \<le> 39"
  shows "Amistem_getStemSize P (S3 (P + 50 + pos)) =
           Some (if pos \<le> 10 then pos else if pos \<le> 19 then pos - 11 else if pos \<le> 30 then pos - 20 else pos - 31)"
proof -
  have "pos = 0 \<or> pos = 1 \<or> pos = 2 \<or> pos = 3 \<or> pos = 4 \<or> pos = 5 \<or> pos = 6 \<or> pos = 7 \<or> pos = 8 \<or> pos = 9 \<or> pos = 10 \<or> pos = 11 \<or> pos = 12 \<or> pos = 13 \<or> pos = 14 \<or> pos = 15 \<or> pos = 16 \<or> pos = 17 \<or> pos = 18 \<or> pos = 19 \<or> pos = 20 \<or> pos = 21 \<or> pos = 22 \<or> pos = 23 \<or> pos = 24 \<or> pos = 25 \<or> pos = 26 \<or> pos = 27 \<or> pos = 28 \<or> pos = 29 \<or> pos = 30 \<or> pos = 31 \<or> pos = 32 \<or> pos = 33 \<or> pos = 34 \<or> pos = 35 \<or> pos = 36 \<or> pos = 37 \<or> pos = 38 \<or> pos = 39"
    using assms by presburger
  then show ?thesis
    by (elim disjE) (simp_all add: Amistem_getStemSize_def Amistem_label_simps)
qed

lemma Amistem_getCCDRange_at:
  assumes "0 \<le> k" "k \<le> 39"
  shows "Amistem_getCCDRange P (S3 (P + 50 + k)) =
           (if k \<le> 10 then s3 (Amistem_RANGE_CCD_STD P)
            else if k \<le> 19 then s3 (Amistem_RANGE_CCD_LAT P)
            else if k \<le> 30 then s3 (Amistem_RANGE_CCD_STD_SN P)
            else s3 (Amistem_RANGE_CCD_LAT_SN P))"
  using assms by (simp add: Amistem_getCCDRange_def Amistem_label_simps)

lemma Amistem_getRangeStats_range:
  "Amistem_getRangeStats P (s3 (Amistem_RANGE_CCD_STD P)) =
     Some \<lparr>Amistem_r0 = 0, Amistem_r1 = 10, Amistem_l = 0, Amistem_s = 10,
           Amistem_label0 = s3 (Amistem_STEM_STD_0 P)\<rparr>"
  "Amistem_getRangeStats P (s3 (Amistem_RANGE_CCD_LAT P)) =
     Some \<lparr>Amistem_r0 = 0, Amistem_r1 = 8, Amistem_l = 11, Amistem_s = 19,
           Amistem_label0 = s3 (Amistem_STEM_LAT_0 P)\<rparr>"
  "Amistem_getRangeStats P (s3 (Amistem_RANGE_CCD_STD_SN P)) =
     Some \<lparr>Amistem_r0 = 0, Amistem_r1 = 10, Amistem_l = 20, Amistem_s = 30,
           Amistem_label0 = s3 (Amistem_STEM_STD_SN_0 P)\<rparr>"
  "Amistem_getRangeStats P (s3 (Amistem_RANGE_CCD_LAT_SN P)) =
     Some \<lparr>Amistem_r0 = 0, Amistem_r1 = 8, Amistem_l = 31, Amistem_s = 39,
           Amistem_label0 = s3 (Amistem_STEM_LAT_SN_0 P)\<rparr>"
  by (simp_all add: Amistem_getRangeStats_def Amistem_isCCD_defs s3_def HPROJ_DCHECK2_def
      Amistem_RANGE_CCD_STD_def Amistem_RANGE_CCD_LAT_def Amistem_RANGE_CCD_STD_SN_def
      Amistem_RANGE_CCD_LAT_SN_def Amistem_STEM_STD_0_def Amistem_STEM_STD_10_def
      Amistem_STEM_LAT_0_def Amistem_STEM_LAT_8_def Amistem_STEM_STD_SN_0_def
      Amistem_STEM_STD_SN_10_def Amistem_STEM_LAT_SN_0_def Amistem_STEM_LAT_SN_8_def)

lemma Amistem_range_distinct:
  "s3 (Amistem_RANGE_CCD_STD P) \<noteq> s3 (Amistem_RANGE_CCD_LAT P)"
  "s3 (Amistem_RANGE_CCD_STD P) \<noteq> s3 (Amistem_RANGE_CCD_STD_SN P)"
  "s3 (Amistem_RANGE_CCD_STD P) \<noteq> s3 (Amistem_RANGE_CCD_LAT_SN P)"
  "s3 (Amistem_RANGE_CCD_LAT P) \<noteq> s3 (Amistem_RANGE_CCD_STD P)"
  "s3 (Amistem_RANGE_CCD_LAT P) \<noteq> s3 (Amistem_RANGE_CCD_STD_SN P)"
  "s3 (Amistem_RANGE_CCD_LAT P) \<noteq> s3 (Amistem_RANGE_CCD_LAT_SN P)"
  "s3 (Amistem_RANGE_CCD_STD_SN P) \<noteq> s3 (Amistem_RANGE_CCD_STD P)"
  "s3 (Amistem_RANGE_CCD_STD_SN P) \<noteq> s3 (Amistem_RANGE_CCD_LAT P)"
  "s3 (Amistem_RANGE_CCD_STD_SN P) \<noteq> s3 (Amistem_RANGE_CCD_LAT_SN P)"
  "s3 (Amistem_RANGE_CCD_LAT_SN P) \<noteq> s3 (Amistem_RANGE_CCD_STD P)"
  "s3 (Amistem_RANGE_CCD_LAT_SN P) \<noteq> s3 (Amistem_RANGE_CCD_LAT P)"
  "s3 (Amistem_RANGE_CCD_LAT_SN P) \<noteq> s3 (Amistem_RANGE_CCD_STD_SN P)"
  by (simp_all add: s3_def Amistem_RANGE_CCD_STD_def Amistem_RANGE_CCD_LAT_def
      Amistem_RANGE_CCD_STD_SN_def Amistem_RANGE_CCD_LAT_SN_def)

lemma Amistem_label0_next:
  "label_next (s3 (Amistem_STEM_STD_0 P)) t = Some (S3 (P + 50 + t))"
  "label_next (s3 (Amistem_STEM_LAT_0 P)) t = Some (S3 (P + 50 + (11 + t)))"
  "label_next (s3 (Amistem_STEM_STD_SN_0 P)) t = Some (S3 (P + 50 + (20 + t)))"
  "label_next (s3 (Amistem_STEM_LAT_SN_0 P)) t = Some (S3 (P + 50 + (31 + t)))"
  by (simp_all add: s3_def Amistem_STEM_STD_0_def Amistem_STEM_LAT_0_def
      Amistem_STEM_STD_SN_0_def Amistem_STEM_LAT_SN_0_def)

lemmas Amistem_similar_simps =
  Amistem_getSimilarLabel_def Amistem_getStemSize_at Amistem_getCCDRange_at
  Amistem_getRangeStats_range Amistem_range_distinct Amistem_label0_next
  HPROJ_DCHECK2_def Amistem_similarPos_def clamp_def Let_def

lemma Amistem_getSimilarLabel_at:
  assumes "0 \<le> k" "k \<le> 39" "0 \<le> j" "j \<le> 3"
  shows "Amistem_getSimilarLabel P (S3 (P + 50 + k)) (S3 (P + 96 + j)) =
           Some (S3 (P + 50 + Amistem_similarPos k j))"
proof -
  have st: "Amistem_isStem P (S3 (P + 50 + k))"
    using assms by (auto simp: Amistem_isStem_uid)
  consider "j = 0" | "j = 1" | "j = 2" | "j = 3" using assms by linarith
  then show ?thesis
  proof cases
    case 1
    have t: "S3 (P + 96 + j) = s3 (Amistem_RANGE_CCD_STD P)"
      using 1 by (simp add: s3_def Amistem_RANGE_CCD_STD_def)
    show ?thesis
      using assms(1,2) 1 st unfolding t
      by (simp add: Amistem_similar_simps)
  next
    case 2
    have t: "S3 (P + 96 + j) = s3 (Amistem_RANGE_CCD_LAT P)"
      using 2 by (simp add: s3_def Amistem_RANGE_CCD_LAT_def)
    show ?thesis
      using assms(1,2) 2 st unfolding t
      by (simp add: Amistem_similar_simps)
  next
    case 3
    have t: "S3 (P + 96 + j) = s3 (Amistem_RANGE_CCD_STD_SN P)"
      using 3 by (simp add: s3_def Amistem_RANGE_CCD_STD_SN_def)
    show ?thesis
      using assms(1,2) 3 st unfolding t
      by (simp add: Amistem_similar_simps)
  next
    case 4
    have t: "S3 (P + 96 + j) = s3 (Amistem_RANGE_CCD_LAT_SN P)"
      using 4 by (simp add: s3_def Amistem_RANGE_CCD_LAT_SN_def)
    show ?thesis
      using assms(1,2) 4 st unfolding t
      by (simp add: Amistem_similar_simps)
  qed
qed

lemma Amistem_range_pos:
  "Amistem_isRange P r \<longleftrightarrow> (\<exists>j. r = S3 (P + 96 + j) \<and> (j = 0 \<or> j = 1 \<or> j = 2 \<or> j = 3))"
proof (cases r)
  case NullLabel
  then show ?thesis by (simp add: Amistem_label_simps)
next
  case (S3 u)
  have "Amistem_isRange P (S3 u) \<longleftrightarrow> P + 96 \<le> u \<and> u \<le> P + 99"
    by (auto simp: Amistem_label_simps)
  also have "\<dots> \<longleftrightarrow> (\<exists>j. S3 u = S3 (P + 96 + j) \<and> (j = 0 \<or> j = 1 \<or> j = 2 \<or> j = 3))"
  proof
    assume "P + 96 \<le> u \<and> u \<le> P + 99"
    then have "u = P + 96 + (u - (P + 96)) \<and>
       (u - (P + 96) = 0 \<or> u - (P + 96) = 1 \<or> u - (P + 96) = 2 \<or> u - (P + 96) = 3)"
      by presburger
    then show "\<exists>j. S3 u = S3 (P + 96 + j) \<and> (j = 0 \<or> j = 1 \<or> j = 2 \<or> j = 3)"
      by blast
  next
    assume "\<exists>j. S3 u = S3 (P + 96 + j) \<and> (j = 0 \<or> j = 1 \<or> j = 2 \<or> j = 3)"
    then show "P + 96 \<le> u \<and> u \<le> P + 99" by auto
  qed
  finally show ?thesis using S3 by simp
qed

lemma Amistem_similarPos_own:
  assumes "0 \<le> k" "k \<le> 39"
  shows "Amistem_getCCDRange P (S3 (P + 50 + k)) =
           S3 (P + 96 + (if k \<le> 10 then 0 else if k \<le> 19 then 1 else if k \<le> 30 then 2 else 3))"
    and "Amistem_similarPos k (if k \<le> 10 then 0 else if k \<le> 19 then 1 else if k \<le> 30 then 2 else 3) = k"
  using assms
  by (simp_all add: Amistem_getCCDRange_at Amistem_similarPos_def s3_def Amistem_RANGE_CCD_STD_def
      Amistem_RANGE_CCD_LAT_def Amistem_RANGE_CCD_STD_SN_def Amistem_RANGE_CCD_LAT_SN_def)

lemma Amistem_getSimilarLabel_own:
  assumes "Amistem_isStem P l"
  shows "Amistem_getSimilarLabel P l (Amistem_getCCDRange P l) = Some l"
proof -
  from assms obtain k where k: "l = S3 (P + 50 + k)" "0 \<le> k" "k \<le> 39"
    by (auto simp: Amistem_isStem_uid)
  define j where "j = (if k \<le> 10 then 0 else if k \<le> 19 then 1 else if k \<le> 30 then 2 else (3::int))"
  have j: "0 \<le> j" "j \<le> 3" by (simp_all add: j_def)
  from Amistem_similarPos_own(1)[OF k(2,3), of P] Amistem_similarPos_own(2)[OF k(2,3)]
    Amistem_getSimilarLabel_at[OF k(2,3) j, of P]
  show ?thesis by (simp add: k(1) j_def)
qed

text \<open>
  C4. Mapping a valid stem label into its own sub-range returns the label unchanged. Stated
  for Corail (\<open>CCD_CORAIL::similarLabel\<close> with the range label that \<open>getCCDRange\<close> gives)
  and for Amistem (\<open>getSimilarLabel\<close>).
\<close>

theorem similarLabel_into_own_subRange_is_identity:
  "(Corail_isStem P l \<and> Corail_getCCDRange P l = Some r \<longrightarrow> Corail_similarLabel P l r = Some l) \<and>
   (Amistem_isStem Q m \<longrightarrow> Amistem_getSimilarLabel Q m (Amistem_getCCDRange Q m) = Some m)"
  using Corail_similarLabel_own[of P l r] Amistem_getSimilarLabel_own[of Q m] by blast

theorem similarLabel_into_own_subRange_is_identity_witness:
  "Corail_isStem 20000 (S3 20142) \<and>
   Corail_getCCDRange 20000 (S3 20142) = Some (s3 (Corail_RANGE_CCD_STD125_S 20000)) \<and>
   Corail_similarLabel 20000 (S3 20142) (s3 (Corail_RANGE_CCD_STD125_S 20000)) = Some (S3 20142) \<and>
   Amistem_isStem 50000 (S3 50050) \<and>
   Amistem_getCCDRange 50000 (S3 50050) = s3 (Amistem_RANGE_CCD_STD 50000) \<and>
   Amistem_getSimilarLabel 50000 (S3 50050) (Amistem_getCCDRange 50000 (S3 50050)) = Some (S3 50050)"
proof -
  have hc: "Corail_isStem 20000 (S3 20142)"
    by (simp add: Corail_label_simps)
  have rc: "Corail_getCCDRange 20000 (S3 20142) = Some (s3 (Corail_RANGE_CCD_STD125_S 20000))"
    by (simp add: Corail_getCCDRange_def Corail_label_simps)
  have ha: "Amistem_isStem 50000 (S3 50050)"
    by (simp add: Amistem_label_simps)
  have ra: "Amistem_getCCDRange 50000 (S3 50050) = s3 (Amistem_RANGE_CCD_STD 50000)"
    by (simp add: Amistem_getCCDRange_def Amistem_label_simps)
  from similarLabel_into_own_subRange_is_identity[of 20000 "S3 20142"
         "s3 (Corail_RANGE_CCD_STD125_S 20000)" 50000 "S3 50050"] hc rc ha ra
  show ?thesis by blast
qed

section \<open>Sizes without a correspondent\<close>

lemma Amistem_sizeNames_length:
  "length Amistem_stdSizeNames = 11" "length Amistem_latSizeNames = 9"
  by (simp_all add: Amistem_stdSizeNames_def Amistem_latSizeNames_def)

lemma Amistem_std_name_in_lat:
  assumes "ix \<le> 10"
  shows "Amistem_stdSizeNames ! ix \<in> set Amistem_latSizeNames \<longleftrightarrow> ix \<noteq> 0 \<and> ix \<noteq> 10"
proof -
  have "ix = 0 \<or> ix = 1 \<or> ix = 2 \<or> ix = 3 \<or> ix = 4 \<or> ix = 5 \<or> ix = 6 \<or> ix = 7 \<or> ix = 8 \<or> ix = 9
        \<or> ix = 10"
    using assms by arith
  then show ?thesis
    by (elim disjE) (simp_all add: Amistem_stdSizeNames_def Amistem_latSizeNames_def)
qed

lemma Amistem_lat_name_in_std:
  assumes "ix \<le> 8"
  shows "Amistem_latSizeNames ! ix \<in> set Amistem_stdSizeNames"
proof -
  have "ix = 0 \<or> ix = 1 \<or> ix = 2 \<or> ix = 3 \<or> ix = 4 \<or> ix = 5 \<or> ix = 6 \<or> ix = 7 \<or> ix = 8"
    using assms by arith
  then show ?thesis
    by (elim disjE) (simp_all add: Amistem_stdSizeNames_def Amistem_latSizeNames_def)
qed

lemma Amistem_catalogSize_at:
  assumes "0 \<le> k" "k \<le> 39"
  shows "Amistem_catalogSize P (S3 (P + 50 + k)) =
           Some (if k \<le> 10 then Amistem_stdSizeNames ! nat k
                 else if k \<le> 19 then Amistem_latSizeNames ! nat (k - 11)
                 else if k \<le> 30 then Amistem_stdSizeNames ! nat (k - 20)
                 else Amistem_latSizeNames ! nat (k - 31))"
  using assms
  by (simp add: Amistem_catalogSize_def Amistem_getStemSize_at Amistem_getCCDRange_at
      Amistem_catalogSizes_def Amistem_range_distinct Amistem_sizeNames_length Let_def) arith

lemma Amistem_range_at:
  "S3 (P + 96 + 0) = s3 (Amistem_RANGE_CCD_STD P)"
  "S3 (P + 96 + 1) = s3 (Amistem_RANGE_CCD_LAT P)"
  "S3 (P + 96 + 2) = s3 (Amistem_RANGE_CCD_STD_SN P)"
  "S3 (P + 96 + 3) = s3 (Amistem_RANGE_CCD_LAT_SN P)"
  by (simp_all add: s3_def Amistem_RANGE_CCD_STD_def Amistem_RANGE_CCD_LAT_def
      Amistem_RANGE_CCD_STD_SN_def Amistem_RANGE_CCD_LAT_SN_def)

lemma Amistem_catalogSizes_at:
  "Amistem_catalogSizes P (S3 (P + 96 + 0)) = Amistem_stdSizeNames"
  "Amistem_catalogSizes P (S3 (P + 96 + 1)) = Amistem_latSizeNames"
  "Amistem_catalogSizes P (S3 (P + 96 + 2)) = Amistem_stdSizeNames"
  "Amistem_catalogSizes P (S3 (P + 96 + 3)) = Amistem_latSizeNames"
  unfolding Amistem_range_at
  by (simp_all add: Amistem_catalogSizes_def Amistem_range_distinct)

lemma Amistem_catalogSizes_pos:
  assumes "j = 0 \<or> j = 1 \<or> j = 2 \<or> j = 3"
  shows "Amistem_catalogSizes P (S3 (P + 96 + j)) =
           (if j = 0 \<or> j = 2 then Amistem_stdSizeNames else Amistem_latSizeNames)"
  using assms by (elim disjE; simp only: Amistem_catalogSizes_at; simp)

lemma Amistem_hasCorrespondent_at:
  assumes "0 \<le> k" "k \<le> 39" "j = 0 \<or> j = 1 \<or> j = 2 \<or> j = 3"
  shows "Amistem_hasCorrespondent P (S3 (P + 50 + k)) (S3 (P + 96 + j)) \<longleftrightarrow>
           \<not> ((k = 0 \<or> k = 10 \<or> k = 20 \<or> k = 30) \<and> (j = 1 \<or> j = 3))"
proof -
  note defs = Amistem_hasCorrespondent_def Amistem_catalogSize_at[OF assms(1,2)]
    Amistem_catalogSizes_pos[OF assms(3)]
  consider "k \<le> 10" | "11 \<le> k \<and> k \<le> 19" | "20 \<le> k \<and> k \<le> 30" | "31 \<le> k"
    by linarith
  then show ?thesis
  proof cases
    case 1
    then have n: "nat k \<le> 10" "nat k < length Amistem_stdSizeNames"
      "nat k = 0 \<longleftrightarrow> k = 0" "nat k = 10 \<longleftrightarrow> k = 10"
      using assms(1) by (auto simp: Amistem_sizeNames_length)
    show ?thesis
      using 1 assms(1,3) n(3,4) Amistem_std_name_in_lat[OF n(1)] nth_mem[OF n(2)]
      by (auto simp: defs)
  next
    case 2
    then have n: "nat (k - 11) \<le> 8" "nat (k - 11) < length Amistem_latSizeNames"
      by (auto simp: Amistem_sizeNames_length)
    show ?thesis
      using 2 assms(3) Amistem_lat_name_in_std[OF n(1)] nth_mem[OF n(2)]
      by (auto simp: defs)
  next
    case 3
    then have n: "nat (k - 20) \<le> 10" "nat (k - 20) < length Amistem_stdSizeNames"
      "nat (k - 20) = 0 \<longleftrightarrow> k = 20" "nat (k - 20) = 10 \<longleftrightarrow> k = 30"
      by (auto simp: Amistem_sizeNames_length)
    show ?thesis
      using 3 assms(3) n(3,4) Amistem_std_name_in_lat[OF n(1)] nth_mem[OF n(2)]
      by (auto simp: defs)
  next
    case 4
    then have n: "nat (k - 31) \<le> 8" "nat (k - 31) < length Amistem_latSizeNames"
      using assms(2) by (auto simp: Amistem_sizeNames_length)
    show ?thesis
      using 4 assms(3) Amistem_lat_name_in_std[OF n(1)] nth_mem[OF n(2)]
      by (auto simp: defs)
  qed
qed

lemma Amistem_no_correspondent:
  assumes "Amistem_isStem P l" "Amistem_isRange P r" "\<not> Amistem_hasCorrespondent P l r"
  shows "Amistem_getSimilarLabel P l r = Some l"
proof -
  from assms(1) obtain k where k: "l = S3 (P + 50 + k)" "0 \<le> k" "k \<le> 39"
    by (auto simp: Amistem_isStem_uid)
  from assms(2) obtain j where j: "r = S3 (P + 96 + j)" "j = 0 \<or> j = 1 \<or> j = 2 \<or> j = 3"
    by (auto simp: Amistem_range_pos)
  from assms(3) Amistem_hasCorrespondent_at[OF k(2,3) j(2), of P]
  have c: "(k = 0 \<or> k = 10 \<or> k = 20 \<or> k = 30) \<and> (j = 1 \<or> j = 3)"
    by (simp add: k(1) j(1))
  then have "Amistem_similarPos k j = k"
    by (auto simp: Amistem_similarPos_def)
  moreover have "0 \<le> j" "j \<le> 3" using j(2) by auto
  ultimately show ?thesis
    using Amistem_getSimilarLabel_at[OF k(2,3), of j P] by (simp add: k(1) j(1))
qed

text \<open>
  C1, as the specification states it, fails on the code. The Corail stem
  \<open>STEM_KS_STD135_0\<close> (sub-range 135 STD, offset 0) has catalogue size 8; the lateralised
  sub-range KLA 125 offers the sizes 9 to 20, so size 8 has no correspondent there. Yet
  \<open>similarLabel\<close> returns \<open>STEM_KLA_125_0\<close>, the offset clamped into the target sub-range,
  and not the source label.
\<close>

theorem Corail_size_without_correspondent_is_clamped:
  "Corail_isStem 20000 (s3 (Corail_STEM_KS_STD135_0 20000)) \<and>
   Corail_catalogSize 20000 (s3 (Corail_STEM_KS_STD135_0 20000)) = Some 8 \<and>
   Corail_catalogSizes 20000 (s3 (Corail_RANGE_CCD_KLA_125 20000))
     = [9, 10, 11, 12, 13, 14, 15, 16, 18, 20] \<and>
   \<not> Corail_hasCorrespondent 20000 (s3 (Corail_STEM_KS_STD135_0 20000))
       (s3 (Corail_RANGE_CCD_KLA_125 20000)) \<and>
   Corail_similarLabel 20000 (s3 (Corail_STEM_KS_STD135_0 20000))
       (s3 (Corail_RANGE_CCD_KLA_125 20000)) = Some (s3 (Corail_STEM_KLA_125_0 20000)) \<and>
   Corail_similarLabel 20000 (s3 (Corail_STEM_KS_STD135_0 20000))
       (s3 (Corail_RANGE_CCD_KLA_125 20000)) \<noteq> Some (s3 (Corail_STEM_KS_STD135_0 20000))"
proof -
  have st: "Corail_isStem 20000 (s3 (Corail_STEM_KS_STD135_0 20000))"
    by (simp add: Corail_label_simps)
  have r: "Corail_getCCDRange 20000 (s3 (Corail_STEM_KS_STD135_0 20000))
             = Some (s3 (Corail_RANGE_CCD_KS_STD135 20000))"
    by (simp add: Corail_getCCDRange_def Corail_label_simps)
  have off: "Corail_getOffset 20000 (s3 (Corail_STEM_KS_STD135_0 20000)) = Some 0"
    by (simp add: Corail_getOffset_def Corail_getCCDStartIdx_def Corail_label_simps)
  have sz: "Corail_catalogSize 20000 (s3 (Corail_STEM_KS_STD135_0 20000)) = Some 8"
    using r off by (simp add: Corail_catalogSize_def Corail_catalogSizes_def)
  have tz: "Corail_catalogSizes 20000 (s3 (Corail_RANGE_CCD_KLA_125 20000))
              = [9, 10, 11, 12, 13, 14, 15, 16, 18, 20]"
    by (simp add: Corail_catalogSizes_def s3_def Corail_S3UID_defs)
  have nc: "\<not> Corail_hasCorrespondent 20000 (s3 (Corail_STEM_KS_STD135_0 20000))
              (s3 (Corail_RANGE_CCD_KLA_125 20000))"
    using sz tz by (simp add: Corail_hasCorrespondent_def)
  have so: "Corail_getSimilarOffset 20000 0 (s3 (Corail_RANGE_CCD_KS_STD135 20000))
              (s3 (Corail_RANGE_CCD_KLA_125 20000)) = 0"
    by (simp add: Corail_getSimilarOffset_def clamp_def s3_def Corail_S3UID_defs)
  have f1: "find (\<lambda>x. label x = s3 (Corail_RANGE_CCD_KS_STD135 20000)) (Corail_ranges 20000)
              = Some (Corail_rKS_STD135 20000)"
    by (simp add: Corail_RT_defs s3_def Corail_S3UID_defs)
  have f2: "find (\<lambda>x. label x = s3 (Corail_RANGE_CCD_KLA_125 20000)) (Corail_ranges 20000)
              = Some (Corail_rKLA_125 20000)"
    by (simp add: Corail_RT_defs s3_def Corail_S3UID_defs)
  have sl: "Corail_similarLabel 20000 (s3 (Corail_STEM_KS_STD135_0 20000))
              (s3 (Corail_RANGE_CCD_KLA_125 20000)) = Some (s3 (Corail_STEM_KLA_125_0 20000))"
    using r off f1 f2 so
    by (simp add: Corail_similarLabel_def Corail_rKS_STD135_def Corail_rKLA_125_def s3_def
        Corail_lowerS3UID_def Corail_STEM_KHO_A_135_0_def Corail_STEM_KLA_125_0_def)
  have ne: "s3 (Corail_STEM_KLA_125_0 20000) \<noteq> s3 (Corail_STEM_KS_STD135_0 20000)"
    by (simp add: s3_def Corail_S3UID_defs)
  from st sz tz nc sl ne show ?thesis by simp
qed

text \<open>
  C1, amended. In the Amistem product line, for every stem label and every range label such
  that the catalogue size of the stem has no correspondent in the target sub-range (sizes 00
  and 9 of the STD and SN STD families, towards LAT or SN LAT), \<open>getSimilarLabel\<close> returns
  the source label unchanged; in particular the STD label at offset 0 comes back unchanged
  for the target LAT.
\<close>

theorem Amistem_size_without_correspondent_keeps_label:
  assumes "Amistem_isStem P l" and "Amistem_isRange P r" and "\<not> Amistem_hasCorrespondent P l r"
  shows "Amistem_getSimilarLabel P l r = Some l"
  using Amistem_no_correspondent[OF assms] .

theorem Amistem_size_without_correspondent_keeps_label_witness:
  "Amistem_isStem 50000 (s3 (Amistem_STEM_STD_0 50000)) \<and>
   Amistem_isRange 50000 (s3 (Amistem_RANGE_CCD_LAT 50000)) \<and>
   \<not> Amistem_hasCorrespondent 50000 (s3 (Amistem_STEM_STD_0 50000)) (s3 (Amistem_RANGE_CCD_LAT 50000)) \<and>
   Amistem_getSimilarLabel 50000 (s3 (Amistem_STEM_STD_0 50000)) (s3 (Amistem_RANGE_CCD_LAT 50000))
     = Some (s3 (Amistem_STEM_STD_0 50000))"
proof -
  have h1: "Amistem_isStem 50000 (s3 (Amistem_STEM_STD_0 50000))"
    by (simp add: Amistem_label_simps)
  have h2: "Amistem_isRange 50000 (s3 (Amistem_RANGE_CCD_LAT 50000))"
    by (simp add: Amistem_label_simps)
  have e: "s3 (Amistem_STEM_STD_0 50000) = S3 (50000 + 50 + 0)"
    "s3 (Amistem_RANGE_CCD_LAT 50000) = S3 (50000 + 96 + 1)"
    by (simp_all add: s3_def Amistem_STEM_STD_0_def Amistem_RANGE_CCD_LAT_def)
  have h3: "\<not> Amistem_hasCorrespondent 50000 (s3 (Amistem_STEM_STD_0 50000))
              (s3 (Amistem_RANGE_CCD_LAT 50000))"
    unfolding e using Amistem_hasCorrespondent_at[of 0 1 50000] by simp
  from Amistem_size_without_correspondent_keeps_label[OF h1 h2 h3] h1 h2 h3
  show ?thesis by simp
qed

section \<open>Mapping into another sub-range and back\<close>

lemma Corail_roundtrip:
  assumes "Corail_isStem P l" and "rb \<in> set (Corail_ranges P)"
  shows "\<exists>ra off l2 l3 off3.
           Corail_getCCDRange P l = Some ra \<and> Corail_getOffset P l = Some off \<and>
           Corail_similarLabel P l (label rb) = Some l2 \<and>
           Corail_similarLabel P l2 ra = Some l3 \<and>
           Corail_getCCDRange P l3 = Some ra \<and> Corail_getOffset P l3 = Some off3 \<and>
           \<bar>off3 - off\<bar> \<le> \<bar>Corail_shiftedOffset P off ra (label rb)
                               - Corail_getSimilarOffset P off ra (label rb)\<bar>"
proof -
  from Corail_stem_decompose[OF assms(1)] obtain r off where
    r: "r \<in> set (Corail_ranges P)" "0 \<le> off" "off \<le> endIdx r - startIdx r"
    and l: "l = S3 (P + 90 + startIdx r + off)"
    and rl: "Corail_getCCDRange P l = Some (label r)" "Corail_getOffset P l = Some off"
    by blast
  define sh where "sh = Corail_shiftedOffset P off (label r) (label rb)"
  define mb where "mb = endIdx rb - startIdx rb"
  define ma where "ma = endIdx r - startIdx r"
  define off2 where "off2 = clamp sh 0 mb"
  define off3 where "off3 = clamp (Corail_shiftedOffset P off2 (label rb) (label r)) 0 ma"
  have mb0: "0 \<le> mb" and ma0: "0 \<le> ma"
    using Corail_ranges_cases[OF assms(2)] Corail_ranges_cases[OF r(1)]
    by (auto simp: mb_def ma_def Corail_RT_defs)
  have f: "Corail_getSimilarOffset P off (label r) (label rb) = off2"
    using Corail_getSimilarOffset_clamp[OF r assms(2)] Corail_maxOffset_range[OF assms(2)]
    by (simp add: off2_def sh_def mb_def)
  have b2: "0 \<le> off2" "off2 \<le> endIdx rb - startIdx rb"
    using clamp_bounds[OF mb0, of sh] by (simp_all add: off2_def mb_def)
  have g: "Corail_getSimilarOffset P off2 (label rb) (label r) = off3"
    using Corail_getSimilarOffset_clamp[OF assms(2) b2 r(1)] Corail_maxOffset_range[OF r(1)]
    by (simp add: off3_def ma_def)
  have b3: "0 \<le> off3" "off3 \<le> endIdx r - startIdx r"
    using clamp_bounds[OF ma0] by (simp_all add: off3_def ma_def)
  have s1: "Corail_similarLabel P l (label rb) = Some (S3 (P + 90 + startIdx rb + off2))"
    using Corail_similarLabel_eq[OF r assms(2)] f l by simp
  have s2: "Corail_similarLabel P (S3 (P + 90 + startIdx rb + off2)) (label r)
              = Some (S3 (P + 90 + startIdx r + off3))"
    using Corail_similarLabel_eq[OF assms(2) b2 r(1)] g by simp
  have sh2: "Corail_shiftedOffset P off2 (label rb) (label r) = off2 - (sh - off)"
    by (simp add: sh_def Corail_shiftedOffset_def)
  have o3: "off3 = clamp (clamp (off + (sh - off)) 0 mb - (sh - off)) 0 ma"
    unfolding off3_def sh2 by (simp add: off2_def)
  have "\<bar>off3 - off\<bar> \<le> \<bar>sh - off2\<bar>"
    using clamp_roundtrip[OF r(2) _ mb0, of ma "sh - off"] r(3)
    unfolding o3 by (simp add: off2_def ma_def)
  with rl s1 s2 Corail_stem_compose[OF r(1) b3] f show ?thesis
    by (auto simp: sh_def)
qed


lemma Amistem_similarPos_back:
  assumes "0 \<le> k" "k \<le> 39" "j = 0 \<or> j = 1 \<or> j = 2 \<or> j = 3"
  shows "0 \<le> Amistem_similarPos k j" and "Amistem_similarPos k j \<le> 39"
    and "Amistem_similarPos (Amistem_similarPos k j)
           (if k \<le> 10 then 0 else if k \<le> 19 then 1 else if k \<le> 30 then 2 else 3) = k"
proof -
  consider "k \<le> 10" | "11 \<le> k \<and> k \<le> 19" | "20 \<le> k \<and> k \<le> 30" | "31 \<le> k"
    by linarith
  then have "0 \<le> Amistem_similarPos k j \<and> Amistem_similarPos k j \<le> 39 \<and>
      Amistem_similarPos (Amistem_similarPos k j)
           (if k \<le> 10 then 0 else if k \<le> 19 then 1 else if k \<le> 30 then 2 else 3) = k"
    using assms
    by cases (elim disjE; simp add: Amistem_similarPos_def Let_def)+
  then show "0 \<le> Amistem_similarPos k j" and "Amistem_similarPos k j \<le> 39"
    and "Amistem_similarPos (Amistem_similarPos k j)
           (if k \<le> 10 then 0 else if k \<le> 19 then 1 else if k \<le> 30 then 2 else 3) = k"
    by simp_all
qed

lemma Amistem_roundtrip:
  assumes "Amistem_isStem P l" "Amistem_isRange P t"
  shows "\<exists>l2. Amistem_getSimilarLabel P l t = Some l2 \<and>
              Amistem_getSimilarLabel P l2 (Amistem_getCCDRange P l) = Some l"
proof -
  from assms(1) obtain k where k: "l = S3 (P + 50 + k)" "0 \<le> k" "k \<le> 39"
    by (auto simp: Amistem_isStem_uid)
  from assms(2) obtain j where j: "t = S3 (P + 96 + j)" "j = 0 \<or> j = 1 \<or> j = 2 \<or> j = 3"
    by (auto simp: Amistem_range_pos)
  define i where "i = (if k \<le> 10 then 0 else if k \<le> 19 then 1 else if k \<le> 30 then 2 else (3::int))"
  have ib: "0 \<le> i" "i \<le> 3" by (simp_all add: i_def)
  have jb: "0 \<le> j" "j \<le> 3" using j(2) by auto
  note b = Amistem_similarPos_back[OF k(2,3) j(2)]
  have g1: "Amistem_getSimilarLabel P l t = Some (S3 (P + 50 + Amistem_similarPos k j))"
    using Amistem_getSimilarLabel_at[OF k(2,3) jb, of P] by (simp add: k(1) j(1))
  have r: "Amistem_getCCDRange P l = S3 (P + 96 + i)"
    using Amistem_similarPos_own(1)[OF k(2,3), of P] by (simp add: k(1) i_def)
  have g2: "Amistem_getSimilarLabel P (S3 (P + 50 + Amistem_similarPos k j)) (S3 (P + 96 + i))
              = Some (S3 (P + 50 + k))"
    using Amistem_getSimilarLabel_at[OF b(1,2) ib, of P] b(3) by (simp add: i_def)
  from g1 g2 r k(1) show ?thesis by simp
qed


lemma Ecofit_isStem_pos:
  "Ecofit_isStem P l \<longleftrightarrow> (\<exists>k. l = S3 (P + 90 + k) \<and> 0 \<le> k \<and> k \<le> 53)"
proof -
  have "(\<exists>u. l = S3 u \<and> P + 90 \<le> u \<and> u \<le> P + 143)
          \<longleftrightarrow> (\<exists>k. l = S3 (P + 90 + k) \<and> 0 \<le> k \<and> k \<le> 53)"
  proof
    assume "\<exists>u. l = S3 u \<and> P + 90 \<le> u \<and> u \<le> P + 143"
    then obtain u where u: "l = S3 u" "P + 90 \<le> u" "u \<le> P + 143" by blast
    then have "l = S3 (P + 90 + (u - (P + 90))) \<and> 0 \<le> u - (P + 90) \<and> u - (P + 90) \<le> 53"
      by simp
    then show "\<exists>k. l = S3 (P + 90 + k) \<and> 0 \<le> k \<and> k \<le> 53" by blast
  next
    assume "\<exists>k. l = S3 (P + 90 + k) \<and> 0 \<le> k \<and> k \<le> 53"
    then show "\<exists>u. l = S3 u \<and> P + 90 \<le> u \<and> u \<le> P + 143" by auto
  qed
  then show ?thesis by (simp add: Ecofit_isStem_uid)
qed

lemma Ecofit_isSubRange_pos:
  "Ecofit_isSubRange P r \<longleftrightarrow>
     (\<exists>j. r = S3 (P + 149 + j) \<and> (j = 0 \<or> j = 1 \<or> j = 2 \<or> j = 3 \<or> j = 4))"
proof (cases r)
  case NullLabel
  then show ?thesis by (simp add: Ecofit_label_simps)
next
  case (S3 u)
  have "Ecofit_isSubRange P (S3 u) \<longleftrightarrow> P + 149 \<le> u \<and> u \<le> P + 153"
    by (auto simp: Ecofit_label_simps)
  also have "\<dots> \<longleftrightarrow> (\<exists>j. S3 u = S3 (P + 149 + j) \<and> (j = 0 \<or> j = 1 \<or> j = 2 \<or> j = 3 \<or> j = 4))"
  proof
    assume "P + 149 \<le> u \<and> u \<le> P + 153"
    then have "u = P + 149 + (u - (P + 149)) \<and>
       (u - (P + 149) = 0 \<or> u - (P + 149) = 1 \<or> u - (P + 149) = 2 \<or> u - (P + 149) = 3
        \<or> u - (P + 149) = 4)"
      by presburger
    then show "\<exists>j. S3 u = S3 (P + 149 + j) \<and> (j = 0 \<or> j = 1 \<or> j = 2 \<or> j = 3 \<or> j = 4)"
      by blast
  next
    assume "\<exists>j. S3 u = S3 (P + 149 + j) \<and> (j = 0 \<or> j = 1 \<or> j = 2 \<or> j = 3 \<or> j = 4)"
    then show "P + 149 \<le> u \<and> u \<le> P + 153" by auto
  qed
  finally show ?thesis using S3 by simp
qed

lemma Ecofit_getRangeStats_at:
  assumes "0 \<le> k" "k \<le> 53"
  shows "Ecofit_getRangeStats P (S3 (P + 90 + k)) =
           Some \<lparr>r0 = 0, r1 = Ecofit_rangeMax (Ecofit_ownRange k),
                 label0 = S3 (P + 90 + Ecofit_rangeBase (Ecofit_ownRange k)),
                 subRange = S3 (P + 149 + Ecofit_ownRange k)\<rparr>"
proof -
  consider "k \<le> 11" | "12 \<le> k \<and> k \<le> 23" | "24 \<le> k \<and> k \<le> 33"
    | "34 \<le> k \<and> k \<le> 43" | "44 \<le> k" by linarith
  then show ?thesis
    using assms
    by cases
       (simp_all add: Ecofit_getRangeStats_def Let_def Ecofit_label_simps Ecofit_ownRange_def
          Ecofit_rangeBase_def Ecofit_rangeMax_def)
qed

lemma Ecofit_getRangeStats_range:
  assumes "j = 0 \<or> j = 1 \<or> j = 2 \<or> j = 3 \<or> j = 4"
  shows "Ecofit_getRangeStats P (S3 (P + 149 + j)) =
           Some \<lparr>r0 = 0, r1 = Ecofit_rangeMax j, label0 = S3 (P + 90 + Ecofit_rangeBase j),
                 subRange = S3 (P + 149 + j)\<rparr>"
  using assms
  by (elim disjE)
     (simp_all add: Ecofit_getRangeStats_def Let_def Ecofit_label_simps Ecofit_rangeBase_def
        Ecofit_rangeMax_def)

lemma Ecofit_isSubRange133_pos:
  "Ecofit_isSubRange133 P (S3 (P + 149 + j)) \<longleftrightarrow> j = 0 \<or> j = 1"
  by (auto simp: Ecofit_isSubRange133_def s3_def Ecofit_S3UID_defs)

lemma Ecofit_own_bounds:
  assumes "0 \<le> k" "k \<le> 53"
  shows "0 \<le> k - Ecofit_rangeBase (Ecofit_ownRange k)"
    and "k - Ecofit_rangeBase (Ecofit_ownRange k) \<le> Ecofit_rangeMax (Ecofit_ownRange k)"
    and "Ecofit_ownRange k = 0 \<or> Ecofit_ownRange k = 1 \<or> Ecofit_ownRange k = 2
         \<or> Ecofit_ownRange k = 3 \<or> Ecofit_ownRange k = 4"
  using assms by (simp_all add: Ecofit_ownRange_def Ecofit_rangeBase_def Ecofit_rangeMax_def)

lemma Ecofit_R_size_at:
  assumes "0 \<le> k" "k \<le> 53"
  shows "R_size \<lparr>r0 = 0, r1 = Ecofit_rangeMax (Ecofit_ownRange k),
                 label0 = S3 (P + 90 + Ecofit_rangeBase (Ecofit_ownRange k)),
                 subRange = S3 (P + 149 + Ecofit_ownRange k)\<rparr> (S3 (P + 90 + k))
           = Some (k - Ecofit_rangeBase (Ecofit_ownRange k))"
  using Ecofit_own_bounds(1,2)[OF assms] by (simp add: R_defs)

lemma Ecofit_getSimilarLabel_at:
  assumes "0 \<le> k" "k \<le> 53" "j = 0 \<or> j = 1 \<or> j = 2 \<or> j = 3 \<or> j = 4"
  shows "Ecofit_getSimilarLabel P (S3 (P + 90 + k)) (S3 (P + 149 + j)) =
           Some (S3 (P + 90 + (Ecofit_rangeBase j
                  + Ecofit_similarSize (Ecofit_ownRange k) j (k - Ecofit_rangeBase (Ecofit_ownRange k)))))"
proof -
  define i where "i = Ecofit_ownRange k"
  define sz where "sz = k - Ecofit_rangeBase i"
  define S where "S = \<lparr>r0 = 0, r1 = Ecofit_rangeMax i, label0 = S3 (P + 90 + Ecofit_rangeBase i),
                       subRange = S3 (P + 149 + i)\<rparr>"
  define T where "T = \<lparr>r0 = 0, r1 = Ecofit_rangeMax j, label0 = S3 (P + 90 + Ecofit_rangeBase j),
                       subRange = S3 (P + 149 + j)\<rparr>"
  define src where "src = S3 (P + 90 + k)"
  define tgt where "tgt = S3 (P + 149 + j)"
  have st: "Ecofit_isStem P src"
    using assms(1,2) by (auto simp: Ecofit_isStem_pos src_def)
  have s: "Ecofit_getRangeStats P src = Some S"
    using Ecofit_getRangeStats_at[OF assms(1,2), of P] by (simp add: S_def i_def src_def)
  have z: "R_size S src = Some sz"
    using Ecofit_R_size_at[OF assms(1,2), of P] by (simp add: S_def i_def sz_def src_def)
  have t: "Ecofit_getRangeStats P tgt = Some T"
    using Ecofit_getRangeStats_range[OF assms(3), of P] by (simp add: T_def tgt_def)
  have p1: "Ecofit_isSubRange133 P (subRange S) \<longleftrightarrow> i = 0 \<or> i = 1"
    by (simp add: S_def Ecofit_isSubRange133_pos)
  have p2: "Ecofit_isSubRange133 P tgt \<longleftrightarrow> j = 0 \<or> j = 1"
    by (simp add: tgt_def Ecofit_isSubRange133_pos)
  have c: "R_clampSize T v = clamp v 0 (Ecofit_rangeMax j)" for v
    by (simp add: R_clampSize_def T_def)
  have n: "label_next (label0 T) v = Some (S3 (P + 90 + (Ecofit_rangeBase j + v)))" for v
    by (simp add: T_def)
  have "Ecofit_getSimilarLabel P src tgt =
          Some (S3 (P + 90 + (Ecofit_rangeBase j + Ecofit_similarSize i j sz)))"
    unfolding Ecofit_getSimilarLabel_def HPROJ_DCHECK2_def Ecofit_similarSize_def
    using st by (simp add: s z t p1 p2 c n Let_def)
  then show ?thesis by (simp add: src_def tgt_def i_def sz_def)
qed

lemma Ecofit_similar_pos:
  assumes "0 \<le> sz" "j = 0 \<or> j = 1 \<or> j = 2 \<or> j = 3 \<or> j = 4"
  shows "0 \<le> Ecofit_rangeBase j + Ecofit_similarSize i j sz"
    and "Ecofit_rangeBase j + Ecofit_similarSize i j sz \<le> 53"
    and "Ecofit_ownRange (Ecofit_rangeBase j + Ecofit_similarSize i j sz) = j"
    and "Ecofit_rangeBase j + Ecofit_similarSize i j sz - Ecofit_rangeBase j = Ecofit_similarSize i j sz"
  using assms(2)
  by (elim disjE;
      simp add: Ecofit_similarSize_def Ecofit_rangeBase_def Ecofit_rangeMax_def Ecofit_ownRange_def
        clamp_def)+

lemma Ecofit_similarSize_back:
  assumes "0 \<le> sz" "sz \<le> Ecofit_rangeMax i"
  shows "Ecofit_similarSize j i (Ecofit_similarSize i j sz) =
           (if (i = 0 \<or> i = 1) \<and> \<not> (j = 0 \<or> j = 1) \<and> (sz = 8 \<or> sz = 10) then sz + 1 else sz)"
  using assms
  by (simp add: Ecofit_similarSize_def Ecofit_rangeMax_def clamp_def split: if_splits)

lemma Ecofit_roundtrip:
  assumes "Ecofit_isStem P l" "Ecofit_isSubRange P t"
  shows "\<exists>S sz l2 l3 sz3.
           Ecofit_getRangeStats P l = Some S \<and> R_size S l = Some sz \<and>
           Ecofit_getSimilarLabel P l t = Some l2 \<and>
           Ecofit_getSimilarLabel P l2 (subRange S) = Some l3 \<and>
           Ecofit_getRangeStats P l3 = Some S \<and> R_size S l3 = Some sz3 \<and>
           sz3 = (if Ecofit_isSubRange133 P (subRange S) \<and> \<not> Ecofit_isSubRange133 P t \<and>
                     (sz = 8 \<or> sz = 10) then sz + 1 else sz)"
proof -
  from assms(1) obtain k where k: "l = S3 (P + 90 + k)" "0 \<le> k" "k \<le> 53"
    by (auto simp: Ecofit_isStem_pos)
  from assms(2) obtain j where j: "t = S3 (P + 149 + j)" "j = 0 \<or> j = 1 \<or> j = 2 \<or> j = 3 \<or> j = 4"
    by (auto simp: Ecofit_isSubRange_pos)
  define i where "i = Ecofit_ownRange k"
  define sz where "sz = k - Ecofit_rangeBase i"
  define S where "S = \<lparr>r0 = 0, r1 = Ecofit_rangeMax i, label0 = S3 (P + 90 + Ecofit_rangeBase i),
                       subRange = S3 (P + 149 + i)\<rparr>"
  define k2 where "k2 = Ecofit_rangeBase j + Ecofit_similarSize i j sz"
  define sz3 where "sz3 = Ecofit_similarSize j i (Ecofit_similarSize i j sz)"
  define k3 where "k3 = Ecofit_rangeBase i + sz3"
  have ib: "i = 0 \<or> i = 1 \<or> i = 2 \<or> i = 3 \<or> i = 4" and szb: "0 \<le> sz" "sz \<le> Ecofit_rangeMax i"
    using Ecofit_own_bounds[OF k(2,3)] by (simp_all add: i_def sz_def)
  have s1: "Ecofit_getRangeStats P l = Some S"
    using Ecofit_getRangeStats_at[OF k(2,3), of P] by (simp add: k(1) S_def i_def)
  have s2: "R_size S l = Some sz"
    using Ecofit_R_size_at[OF k(2,3), of P] by (simp add: k(1) S_def i_def sz_def)
  have g1: "Ecofit_getSimilarLabel P l t = Some (S3 (P + 90 + k2))"
    using Ecofit_getSimilarLabel_at[OF k(2,3) j(2), of P] by (simp add: k(1) j(1) k2_def i_def sz_def)
  have k2b: "0 \<le> k2" "k2 \<le> 53" "Ecofit_ownRange k2 = j"
    "k2 - Ecofit_rangeBase j = Ecofit_similarSize i j sz"
    using Ecofit_similar_pos[OF szb(1) j(2), of i] by (simp_all add: k2_def)
  have g2: "Ecofit_getSimilarLabel P (S3 (P + 90 + k2)) (subRange S) = Some (S3 (P + 90 + k3))"
    using Ecofit_getSimilarLabel_at[OF k2b(1,2) ib, of P] k2b(3,4)
    by (simp add: S_def k3_def sz3_def)
  have sz2b: "0 \<le> Ecofit_similarSize i j sz"
    using k2b(1,4) j(2) by (auto simp: Ecofit_similarSize_def clamp_def Ecofit_rangeMax_def)
  have k3b: "0 \<le> k3" "k3 \<le> 53" "Ecofit_ownRange k3 = i" "k3 - Ecofit_rangeBase i = sz3"
    using Ecofit_similar_pos[OF sz2b ib, of j] by (simp_all add: k3_def sz3_def)
  have s3: "Ecofit_getRangeStats P (S3 (P + 90 + k3)) = Some S"
    using Ecofit_getRangeStats_at[OF k3b(1,2), of P] k3b(3) by (simp add: S_def)
  have s4: "R_size S (S3 (P + 90 + k3)) = Some sz3"
    using Ecofit_R_size_at[OF k3b(1,2), of P] k3b(3,4) by (simp add: S_def)
  have v: "sz3 = (if Ecofit_isSubRange133 P (subRange S) \<and> \<not> Ecofit_isSubRange133 P t \<and>
                     (sz = 8 \<or> sz = 10) then sz + 1 else sz)"
    using Ecofit_similarSize_back[OF szb, of j]
    by (simp add: sz3_def S_def j(1) Ecofit_isSubRange133_pos)
  from s1 s2 g1 g2 s3 s4 v show ?thesis by blast
qed


text \<open>
  C3, as the specification states it, fails on the code. Ecofit authors the rule from the
  133 family to the 138 family and its reverse. The stem \<open>STEM_STD_133_8\<close> (size 8 of
  133 STD) maps to size 8 of 138 STD without any clamping (\<open>clampSize\<close> leaves 8 as it
  is), and size 8 of 138 STD maps back to size 9 of 133 STD: the round trip ends one offset
  away from the original although clamping forced no loss.
\<close>

theorem Ecofit_roundtrip_moves_size_8:
  "Ecofit_isStem 40000 (S3 40098) \<and>
   Ecofit_getRangeStats 40000 (S3 40098)
     = Some \<lparr>r0 = 0, r1 = 11, label0 = S3 40090, subRange = s3 (Ecofit_RANGE_CCD_STD_133 40000)\<rparr> \<and>
   R_size \<lparr>r0 = 0, r1 = 11, label0 = S3 40090, subRange = s3 (Ecofit_RANGE_CCD_STD_133 40000)\<rparr>
     (S3 40098) = Some 8 \<and>
   Ecofit_getRangeStats 40000 (s3 (Ecofit_RANGE_CCD_STD_138 40000))
     = Some \<lparr>r0 = 0, r1 = 9, label0 = S3 40114, subRange = s3 (Ecofit_RANGE_CCD_STD_138 40000)\<rparr> \<and>
   R_clampSize \<lparr>r0 = 0, r1 = 9, label0 = S3 40114, subRange = s3 (Ecofit_RANGE_CCD_STD_138 40000)\<rparr> 8
     = 8 \<and>
   Ecofit_getSimilarLabel 40000 (S3 40098) (s3 (Ecofit_RANGE_CCD_STD_138 40000)) = Some (S3 40122) \<and>
   Ecofit_getSimilarLabel 40000 (S3 40122) (s3 (Ecofit_RANGE_CCD_STD_133 40000)) = Some (S3 40099) \<and>
   R_size \<lparr>r0 = 0, r1 = 11, label0 = S3 40090, subRange = s3 (Ecofit_RANGE_CCD_STD_133 40000)\<rparr>
     (S3 40099) = Some 9 \<and>
   \<not> (\<bar>9 - 8\<bar> \<le> \<bar>8 - R_clampSize
        \<lparr>r0 = 0, r1 = 9, label0 = S3 40114, subRange = s3 (Ecofit_RANGE_CCD_STD_138 40000)\<rparr> 8\<bar>)"
proof -
  have st: "Ecofit_isStem 40000 (S3 40098)"
    by (simp add: Ecofit_label_simps)
  have e: "S3 40098 = S3 (40000 + 90 + 8)" "S3 40122 = S3 (40000 + 90 + 32)"
    "s3 (Ecofit_RANGE_CCD_STD_138 40000) = S3 (40000 + 149 + 2)"
    "s3 (Ecofit_RANGE_CCD_STD_133 40000) = S3 (40000 + 149 + 0)"
    by (simp_all add: s3_def Ecofit_S3UID_defs)
  have s1: "Ecofit_getRangeStats 40000 (S3 40098)
     = Some \<lparr>r0 = 0, r1 = 11, label0 = S3 40090, subRange = s3 (Ecofit_RANGE_CCD_STD_133 40000)\<rparr>"
    unfolding e using Ecofit_getRangeStats_at[of 8 40000]
    by (simp add: Ecofit_ownRange_def Ecofit_rangeBase_def Ecofit_rangeMax_def)
  have s2: "Ecofit_getRangeStats 40000 (s3 (Ecofit_RANGE_CCD_STD_138 40000))
     = Some \<lparr>r0 = 0, r1 = 9, label0 = S3 40114, subRange = s3 (Ecofit_RANGE_CCD_STD_138 40000)\<rparr>"
    unfolding e using Ecofit_getRangeStats_range[of 2 40000]
    by (simp add: Ecofit_rangeBase_def Ecofit_rangeMax_def)
  have z: "R_size \<lparr>r0 = 0, r1 = 11, label0 = S3 40090, subRange = s3 (Ecofit_RANGE_CCD_STD_133 40000)\<rparr>
     (S3 40098) = Some 8"
    "R_size \<lparr>r0 = 0, r1 = 11, label0 = S3 40090, subRange = s3 (Ecofit_RANGE_CCD_STD_133 40000)\<rparr>
     (S3 40099) = Some 9"
    "R_clampSize \<lparr>r0 = 0, r1 = 9, label0 = S3 40114, subRange = s3 (Ecofit_RANGE_CCD_STD_138 40000)\<rparr> 8
     = 8"
    by (simp_all add: R_defs clamp_def)
  have g1: "Ecofit_getSimilarLabel 40000 (S3 40098) (s3 (Ecofit_RANGE_CCD_STD_138 40000)) = Some (S3 40122)"
    unfolding e using Ecofit_getSimilarLabel_at[of 8 2 40000]
    by (simp add: Ecofit_ownRange_def Ecofit_rangeBase_def Ecofit_rangeMax_def Ecofit_similarSize_def
        clamp_def)
  have g2: "Ecofit_getSimilarLabel 40000 (S3 40122) (s3 (Ecofit_RANGE_CCD_STD_133 40000)) = Some (S3 40099)"
    unfolding e using Ecofit_getSimilarLabel_at[of 32 0 40000]
    by (simp add: Ecofit_ownRange_def Ecofit_rangeBase_def Ecofit_rangeMax_def Ecofit_similarSize_def
        clamp_def)
  from st s1 s2 z g1 g2 show ?thesis by simp
qed

text \<open>
  C3, amended. Mapping a valid stem label into a valid target sub-range and back into its own
  sub-range gives: in Corail, a label of the original sub-range whose offset differs from the
  original offset by no more than the loss that clamping forced on the way forward (the
  distance between the shifted offset and the offset \<open>getSimilarOffset\<close> returns), so the
  original label when nothing was clamped; in Amistem, the original label; in Ecofit, the
  original label, except for the sizes 8 and 10 of the 133 family mapped into a sub-range
  outside that family, which come back one size larger.
\<close>

theorem similarLabel_roundtrip:
  "(Corail_isStem P l \<and> rb \<in> set (Corail_ranges P) \<longrightarrow>
      (\<exists>ra off l2 l3 off3.
           Corail_getCCDRange P l = Some ra \<and> Corail_getOffset P l = Some off \<and>
           Corail_similarLabel P l (label rb) = Some l2 \<and>
           Corail_similarLabel P l2 ra = Some l3 \<and>
           Corail_getCCDRange P l3 = Some ra \<and> Corail_getOffset P l3 = Some off3 \<and>
           \<bar>off3 - off\<bar> \<le> \<bar>Corail_shiftedOffset P off ra (label rb)
                               - Corail_getSimilarOffset P off ra (label rb)\<bar>)) \<and>
   (Amistem_isStem A m \<and> Amistem_isRange A t \<longrightarrow>
      (\<exists>m2. Amistem_getSimilarLabel A m t = Some m2 \<and>
            Amistem_getSimilarLabel A m2 (Amistem_getCCDRange A m) = Some m)) \<and>
   (Ecofit_isStem E n \<and> Ecofit_isSubRange E u \<longrightarrow>
      (\<exists>S sz n2 n3 sz3.
           Ecofit_getRangeStats E n = Some S \<and> R_size S n = Some sz \<and>
           Ecofit_getSimilarLabel E n u = Some n2 \<and>
           Ecofit_getSimilarLabel E n2 (subRange S) = Some n3 \<and>
           Ecofit_getRangeStats E n3 = Some S \<and> R_size S n3 = Some sz3 \<and>
           sz3 = (if Ecofit_isSubRange133 E (subRange S) \<and> \<not> Ecofit_isSubRange133 E u \<and>
                     (sz = 8 \<or> sz = 10) then sz + 1 else sz)))"
  using Corail_roundtrip[of P l rb] Amistem_roundtrip[of A m t] Ecofit_roundtrip[of E n u]
  by blast

theorem similarLabel_roundtrip_witness:
  "Corail_isStem 20000 (S3 20100) \<and> Corail_rKHO_S_135 20000 \<in> set (Corail_ranges 20000) \<and>
   (\<exists>ra off l2 l3 off3.
           Corail_getCCDRange 20000 (S3 20100) = Some ra \<and>
           Corail_getOffset 20000 (S3 20100) = Some off \<and>
           Corail_similarLabel 20000 (S3 20100) (label (Corail_rKHO_S_135 20000)) = Some l2 \<and>
           Corail_similarLabel 20000 l2 ra = Some l3 \<and>
           Corail_getCCDRange 20000 l3 = Some ra \<and> Corail_getOffset 20000 l3 = Some off3 \<and>
           \<bar>off3 - off\<bar> \<le> \<bar>Corail_shiftedOffset 20000 off ra (label (Corail_rKHO_S_135 20000))
                - Corail_getSimilarOffset 20000 off ra (label (Corail_rKHO_S_135 20000))\<bar>) \<and>
   Amistem_isStem 50000 (S3 50055) \<and> Amistem_isRange 50000 (s3 (Amistem_RANGE_CCD_LAT 50000)) \<and>
   (\<exists>m2. Amistem_getSimilarLabel 50000 (S3 50055) (s3 (Amistem_RANGE_CCD_LAT 50000)) = Some m2 \<and>
         Amistem_getSimilarLabel 50000 m2 (Amistem_getCCDRange 50000 (S3 50055)) = Some (S3 50055)) \<and>
   Ecofit_isStem 40000 (S3 40100) \<and> Ecofit_isSubRange 40000 (s3 (Ecofit_RANGE_CCD_CV 40000)) \<and>
   (\<exists>S sz n2 n3 sz3.
           Ecofit_getRangeStats 40000 (S3 40100) = Some S \<and> R_size S (S3 40100) = Some sz \<and>
           Ecofit_getSimilarLabel 40000 (S3 40100) (s3 (Ecofit_RANGE_CCD_CV 40000)) = Some n2 \<and>
           Ecofit_getSimilarLabel 40000 n2 (subRange S) = Some n3 \<and>
           Ecofit_getRangeStats 40000 n3 = Some S \<and> R_size S n3 = Some sz3 \<and>
           sz3 = (if Ecofit_isSubRange133 40000 (subRange S) \<and>
                     \<not> Ecofit_isSubRange133 40000 (s3 (Ecofit_RANGE_CCD_CV 40000)) \<and>
                     (sz = 8 \<or> sz = 10) then sz + 1 else sz))"
proof -
  have hc: "Corail_isStem 20000 (S3 20100)" "Corail_rKHO_S_135 20000 \<in> set (Corail_ranges 20000)"
    by (simp_all add: Corail_label_simps Corail_ranges_def)
  have ha: "Amistem_isStem 50000 (S3 50055)" "Amistem_isRange 50000 (s3 (Amistem_RANGE_CCD_LAT 50000))"
    by (simp_all add: Amistem_label_simps)
  have he: "Ecofit_isStem 40000 (S3 40100)" "Ecofit_isSubRange 40000 (s3 (Ecofit_RANGE_CCD_CV 40000))"
    by (simp_all add: Ecofit_label_simps)
  from similarLabel_roundtrip[of 20000 "S3 20100" "Corail_rKHO_S_135 20000"
         50000 "S3 50055" "s3 (Amistem_RANGE_CCD_LAT 50000)"
         40000 "S3 40100" "s3 (Ecofit_RANGE_CCD_CV 40000)"] hc ha he
  show ?thesis by blast
qed

section \<open>Stem to stem transforms\<close>

lemma Corail_getRES_02_total:
  assumes "Corail_isStem P l"
  shows "\<exists>a. Corail_getRES_02 P l = Some a"
proof -
  from Corail_stem_decompose[OF assms] obtain off where "Corail_getOffset P l = Some off"
    by blast
  then show ?thesis using assms
    by (simp add: Corail_getRES_02_def HPROJ_DCHECK2_def split del: if_split)
qed

lemma Corail_stemToStemMatrix_stems:
  assumes "Corail_isStem P (stemLabel cO)" "Corail_isStem P (stemLabel cT)"
  shows "\<exists>a b. Corail_getRES_02 P (stemLabel cO) = Some a \<and>
          Corail_getRES_02 P (stemLabel cT) = Some b \<and>
          Corail_stemToStemMatrix P cO cT = Some (transMat3 (sub3 a b))"
proof -
  from Corail_getRES_02_total[OF assms(1)] obtain a where a: "Corail_getRES_02 P (stemLabel cO) = Some a"
    by blast
  from Corail_getRES_02_total[OF assms(2)] obtain b where b: "Corail_getRES_02 P (stemLabel cT) = Some b"
    by blast
  have "Corail_stemToStemMatrix P cO cT = Some (transMat3 (sub3 a b))"
    by (simp add: Corail_stemToStemMatrix_def a b)
  with a b show ?thesis by blast
qed

lemma Amistem_isCCD_pos:
  "Amistem_isCCD_STD P (S3 (P + 50 + k)) \<longleftrightarrow> 0 \<le> k \<and> k \<le> 10"
  "Amistem_isCCD_LAT P (S3 (P + 50 + k)) \<longleftrightarrow> 11 \<le> k \<and> k \<le> 19"
  "Amistem_isCCD_STD_SN P (S3 (P + 50 + k)) \<longleftrightarrow> 20 \<le> k \<and> k \<le> 30"
  "Amistem_isCCD_LAT_SN P (S3 (P + 50 + k)) \<longleftrightarrow> 31 \<le> k \<and> k \<le> 39"
  by (auto simp: Amistem_label_simps)

lemma Amistem_classes_disjoint:
  "Amistem_isCCD_STD P l \<Longrightarrow>
     \<not> Amistem_isCCD_LAT P l \<and> \<not> Amistem_isCCD_STD_SN P l \<and> \<not> Amistem_isCCD_LAT_SN P l"
  "Amistem_isCCD_LAT P l \<Longrightarrow>
     \<not> Amistem_isCCD_STD P l \<and> \<not> Amistem_isCCD_STD_SN P l \<and> \<not> Amistem_isCCD_LAT_SN P l"
  "Amistem_isCCD_STD_SN P l \<Longrightarrow>
     \<not> Amistem_isCCD_STD P l \<and> \<not> Amistem_isCCD_LAT P l \<and> \<not> Amistem_isCCD_LAT_SN P l"
  "Amistem_isCCD_LAT_SN P l \<Longrightarrow>
     \<not> Amistem_isCCD_STD P l \<and> \<not> Amistem_isCCD_LAT P l \<and> \<not> Amistem_isCCD_STD_SN P l"
  by (cases l; simp add: Amistem_label_simps)+

lemma Amistem_getStemSize_total:
  assumes "Amistem_isStem P l"
  shows "\<exists>sz. Amistem_getStemSize P l = Some sz"
proof -
  from assms obtain k where k: "l = S3 (P + 50 + k)" "0 \<le> k" "k \<le> 39"
    by (auto simp: Amistem_isStem_uid)
  show ?thesis unfolding k(1) using Amistem_getStemSize_at[OF k(2,3), of P] by blast
qed

lemma Amistem_getRES_01_total:
  assumes "Amistem_isStem P l"
  shows "\<exists>a. Amistem_getRES_01 P l = Some a"
proof -
  from Amistem_getStemSize_total[OF assms] obtain sz where "Amistem_getStemSize P l = Some sz"
    by blast
  then show ?thesis using assms
    by (simp add: Amistem_getRES_01_def HPROJ_DCHECK2_def Let_def split del: if_split)
qed

lemma Amistem_getShift_total:
  assumes "Amistem_isStem P src" "Amistem_isStem P tgt"
  shows "\<exists>m. Amistem_getShift P src tgt = Some m"
proof -
  from Amistem_getRES_01_total[OF assms(1)] obtain a where a: "Amistem_getRES_01 P src = Some a"
    by blast
  from Amistem_getRES_01_total[OF assms(2)] obtain b where b: "Amistem_getRES_01 P tgt = Some b"
    by blast
  from Amistem_getStemSize_total[OF assms(1)] obtain sz where sz: "Amistem_getStemSize P src = Some sz"
    by blast
  show ?thesis by (simp add: Amistem_getShift_def a b sz split del: if_split)
qed

lemma Amistem_getShift_direct:
  assumes "(Amistem_isSTD P src \<and> Amistem_isSTD P tgt) \<or>
           (Amistem_isCCD_LAT P src \<and> Amistem_isCCD_LAT P tgt) \<or>
           (Amistem_isCCD_LAT_SN P src \<and> Amistem_isCCD_LAT_SN P tgt)"
  shows "\<exists>a b. Amistem_getRES_01 P src = Some a \<and> Amistem_getRES_01 P tgt = Some b \<and>
               Amistem_getShift P src tgt = Some (transMat3 (sub3 a b))"
proof -
  have st: "Amistem_isStem P src" "Amistem_isStem P tgt"
    using assms by (auto simp: Amistem_isStem_def Amistem_isSTD_def)
  from Amistem_getRES_01_total[OF st(1)] obtain a where a: "Amistem_getRES_01 P src = Some a"
    by blast
  from Amistem_getRES_01_total[OF st(2)] obtain b where b: "Amistem_getRES_01 P tgt = Some b"
    by blast
  from Amistem_getStemSize_total[OF st(1)] obtain sz where sz: "Amistem_getStemSize P src = Some sz"
    by blast
  from assms consider "Amistem_isSTD P src \<and> Amistem_isSTD P tgt"
    | "Amistem_isCCD_LAT P src \<and> Amistem_isCCD_LAT P tgt"
    | "Amistem_isCCD_LAT_SN P src \<and> Amistem_isCCD_LAT_SN P tgt" by blast
  then have "Amistem_getShift P src tgt = Some (transMat3 (sub3 a b))"
    by cases (simp_all add: Amistem_getShift_def a b sz)
  with a b show ?thesis by blast
qed

lemma Amistem_getShift_z:
  assumes "(Amistem_isCCD_STD P src \<and> Amistem_isCCD_LAT P tgt) \<or>
           (Amistem_isCCD_LAT P src \<and> Amistem_isCCD_STD P tgt) \<or>
           (Amistem_isCCD_STD_SN P src \<and> Amistem_isCCD_LAT_SN P tgt) \<or>
           (Amistem_isCCD_LAT_SN P src \<and> Amistem_isCCD_STD_SN P tgt)"
  shows "\<exists>z. Amistem_getShift P src tgt = Some (transMat3 (SboPoint3 0 0 z))"
proof -
  have st: "Amistem_isStem P src" "Amistem_isStem P tgt"
    using assms by (auto simp: Amistem_isStem_def)
  from Amistem_getRES_01_total[OF st(1)] obtain a where a: "Amistem_getRES_01 P src = Some a"
    by blast
  from Amistem_getRES_01_total[OF st(2)] obtain b where b: "Amistem_getRES_01 P tgt = Some b"
    by blast
  from Amistem_getStemSize_total[OF st(1)] obtain sz where sz: "Amistem_getStemSize P src = Some sz"
    by blast
  from assms consider
      (sl) "Amistem_isCCD_STD P src" "Amistem_isCCD_LAT P tgt"
    | (ls) "Amistem_isCCD_LAT P src" "Amistem_isCCD_STD P tgt"
    | (snl) "Amistem_isCCD_STD_SN P src" "Amistem_isCCD_LAT_SN P tgt"
    | (lsn) "Amistem_isCCD_LAT_SN P src" "Amistem_isCCD_STD_SN P tgt" by blast
  then show ?thesis
  proof cases
    case sl
    from Amistem_classes_disjoint(1)[OF sl(1)] Amistem_classes_disjoint(2)[OF sl(2)] sl
    have "Amistem_getShift P src tgt = Some (transMat3 (SboPoint3 0 0
            (if sz = 1 then 5.89 else if sz = 2 then 6.03 else if sz = 3 then 6.22
             else if sz = 4 then 6.39 else if sz = 5 then 6.55 else if sz = 6 then 6.71
             else if sz = 7 then 6.85 else if sz = 8 then 7.0 else if sz = 9 then 7.26 else 0)))"
      by (simp add: Amistem_getShift_def a b sz Amistem_isSTD_def)
    then show ?thesis by blast
  next
    case ls
    from Amistem_classes_disjoint(2)[OF ls(1)] Amistem_classes_disjoint(1)[OF ls(2)] ls
    have "Amistem_getShift P src tgt = Some (transMat3 (SboPoint3 0 0
            (- (if sz = 0 then 5.89 else if sz = 1 then 6.03 else if sz = 2 then 6.22
             else if sz = 3 then 6.39 else if sz = 4 then 6.55 else if sz = 5 then 6.71
             else if sz = 6 then 6.85 else if sz = 7 then 7.0 else if sz = 8 then 7.26 else 0))))"
      by (simp add: Amistem_getShift_def a b sz Amistem_isSTD_def)
    then show ?thesis by blast
  next
    case snl
    from Amistem_classes_disjoint(3)[OF snl(1)] Amistem_classes_disjoint(4)[OF snl(2)] snl
    have "Amistem_getShift P src tgt = Some (transMat3 (SboPoint3 0 0
            (if sz = 1 then 5.01 else if sz = 2 then 5.19 else if sz = 3 then 5.38
             else if sz = 4 then 5.58 else if sz = 5 then 5.69 else if sz = 6 then 5.87
             else if sz = 7 then 6.07 else if sz = 8 then 6.13 else if sz = 9 then 6.48 else 0)))"
      by (simp add: Amistem_getShift_def a b sz Amistem_isSTD_def)
    then show ?thesis by blast
  next
    case lsn
    from Amistem_classes_disjoint(4)[OF lsn(1)] Amistem_classes_disjoint(3)[OF lsn(2)] lsn
    have "Amistem_getShift P src tgt = Some (transMat3 (SboPoint3 0 0
            (- (if sz = 0 then 5.01 else if sz = 1 then 5.19 else if sz = 2 then 5.38
             else if sz = 3 then 5.58 else if sz = 4 then 5.69 else if sz = 5 then 5.87
             else if sz = 6 then 6.07 else if sz = 7 then 6.13 else if sz = 8 then 6.48 else 0))))"
      by (simp add: Amistem_getShift_def a b sz Amistem_isSTD_def)
    then show ?thesis by blast
  qed
qed

lemma Amistem_similar_into_STD:
  assumes "Amistem_isStem P l"
  shows "\<exists>v. Amistem_getSimilarLabel P l (s3 (Amistem_RANGE_CCD_STD P)) = Some v \<and>
             Amistem_isCCD_STD P v"
    and "\<exists>v. Amistem_getSimilarLabel P l (s3 (Amistem_RANGE_CCD_STD_SN P)) = Some v \<and>
             Amistem_isCCD_STD_SN P v"
proof -
  from assms obtain k where k: "l = S3 (P + 50 + k)" "0 \<le> k" "k \<le> 39"
    by (auto simp: Amistem_isStem_uid)
  have e: "s3 (Amistem_RANGE_CCD_STD P) = S3 (P + 96 + 0)"
    "s3 (Amistem_RANGE_CCD_STD_SN P) = S3 (P + 96 + 2)"
    by (simp_all add: s3_def Amistem_RANGE_CCD_STD_def Amistem_RANGE_CCD_STD_SN_def)
  have b0: "0 \<le> Amistem_similarPos k 0 \<and> Amistem_similarPos k 0 \<le> 10"
    using k(2,3) by (simp add: Amistem_similarPos_def Let_def)
  have b2: "20 \<le> Amistem_similarPos k 2 \<and> Amistem_similarPos k 2 \<le> 30"
    using k(2,3) by (simp add: Amistem_similarPos_def Let_def)
  have g0: "Amistem_getSimilarLabel P l (s3 (Amistem_RANGE_CCD_STD P))
              = Some (S3 (P + 50 + Amistem_similarPos k 0))"
    unfolding e k(1) by (rule Amistem_getSimilarLabel_at[OF k(2,3)]) simp_all
  have g2: "Amistem_getSimilarLabel P l (s3 (Amistem_RANGE_CCD_STD_SN P))
              = Some (S3 (P + 50 + Amistem_similarPos k 2))"
    unfolding e k(1) by (rule Amistem_getSimilarLabel_at[OF k(2,3)]) simp_all
  from g0 b0 show "\<exists>v. Amistem_getSimilarLabel P l (s3 (Amistem_RANGE_CCD_STD P)) = Some v \<and>
             Amistem_isCCD_STD P v"
    by (simp add: Amistem_isCCD_pos)
  from g2 b2 show "\<exists>v. Amistem_getSimilarLabel P l (s3 (Amistem_RANGE_CCD_STD_SN P)) = Some v \<and>
             Amistem_isCCD_STD_SN P v"
    by (simp add: Amistem_isCCD_pos)
qed

lemma Amistem_stemToStemMatrix_unchained:
  assumes "(Amistem_isSTD P (stemLabel aO) \<and> Amistem_isSTD P (stemLabel aT)) \<or>
           (Amistem_isCCD_LAT P (stemLabel aO) \<and> Amistem_isCCD_LAT P (stemLabel aT)) \<or>
           (Amistem_isCCD_LAT_SN P (stemLabel aO) \<and> Amistem_isCCD_LAT_SN P (stemLabel aT)) \<or>
           (Amistem_isCCD_STD P (stemLabel aO) \<and> Amistem_isCCD_LAT P (stemLabel aT)) \<or>
           (Amistem_isCCD_LAT P (stemLabel aO) \<and> Amistem_isCCD_STD P (stemLabel aT)) \<or>
           (Amistem_isCCD_STD_SN P (stemLabel aO) \<and> Amistem_isCCD_LAT_SN P (stemLabel aT)) \<or>
           (Amistem_isCCD_LAT_SN P (stemLabel aO) \<and> Amistem_isCCD_STD_SN P (stemLabel aT))"
  shows "Amistem_stemToStemMatrix P aO aT = Amistem_getShift P (stemLabel aO) (stemLabel aT)"
proof -
  have n: "\<not> (Amistem_isCCD_STD P (stemLabel aO) \<and> Amistem_isCCD_LAT_SN P (stemLabel aT))"
    "\<not> (Amistem_isCCD_LAT_SN P (stemLabel aO) \<and> Amistem_isCCD_STD P (stemLabel aT))"
    "\<not> (Amistem_isCCD_LAT_SN P (stemLabel aO) \<and> Amistem_isCCD_LAT P (stemLabel aT))"
    "\<not> (Amistem_isCCD_STD_SN P (stemLabel aO) \<and> Amistem_isCCD_LAT P (stemLabel aT))"
    "\<not> (Amistem_isCCD_LAT P (stemLabel aO) \<and> Amistem_isCCD_STD_SN P (stemLabel aT))"
    "\<not> (Amistem_isCCD_LAT P (stemLabel aO) \<and> Amistem_isCCD_LAT_SN P (stemLabel aT))"
    using assms Amistem_classes_disjoint[of P "stemLabel aO"] Amistem_classes_disjoint[of P "stemLabel aT"]
    unfolding Amistem_isSTD_def by blast+
  show ?thesis unfolding Amistem_stemToStemMatrix_def Let_def by (simp only: n if_False)
qed

lemma Amistem_stemToStemMatrix_direct:
  assumes "(Amistem_isSTD P (stemLabel aO) \<and> Amistem_isSTD P (stemLabel aT)) \<or>
           (Amistem_isCCD_LAT P (stemLabel aO) \<and> Amistem_isCCD_LAT P (stemLabel aT)) \<or>
           (Amistem_isCCD_LAT_SN P (stemLabel aO) \<and> Amistem_isCCD_LAT_SN P (stemLabel aT))"
  shows "\<exists>a b. Amistem_getRES_01 P (stemLabel aO) = Some a \<and>
          Amistem_getRES_01 P (stemLabel aT) = Some b \<and>
          Amistem_stemToStemMatrix P aO aT = Some (transMat3 (sub3 a b))"
  using Amistem_getShift_direct[OF assms] Amistem_stemToStemMatrix_unchained[of P aO aT] assms
  by metis

lemma Amistem_stemToStemMatrix_z:
  assumes "(Amistem_isCCD_STD P (stemLabel aO) \<and> Amistem_isCCD_LAT P (stemLabel aT)) \<or>
           (Amistem_isCCD_LAT P (stemLabel aO) \<and> Amistem_isCCD_STD P (stemLabel aT)) \<or>
           (Amistem_isCCD_STD_SN P (stemLabel aO) \<and> Amistem_isCCD_LAT_SN P (stemLabel aT)) \<or>
           (Amistem_isCCD_LAT_SN P (stemLabel aO) \<and> Amistem_isCCD_STD_SN P (stemLabel aT))"
  shows "\<exists>z. Amistem_getShift P (stemLabel aO) (stemLabel aT) = Some (transMat3 (SboPoint3 0 0 z)) \<and>
          Amistem_stemToStemMatrix P aO aT = Some (transMat3 (SboPoint3 0 0 z))"
  using Amistem_getShift_z[OF assms] Amistem_stemToStemMatrix_unchained[of P aO aT] assms
  by metis

lemma Amistem_stem_classes:
  "Amistem_isCCD_STD P l \<Longrightarrow> Amistem_isStem P l"
  "Amistem_isCCD_LAT P l \<Longrightarrow> Amistem_isStem P l"
  "Amistem_isCCD_STD_SN P l \<Longrightarrow> Amistem_isStem P l"
  "Amistem_isCCD_LAT_SN P l \<Longrightarrow> Amistem_isStem P l"
  by (simp_all add: Amistem_isStem_def)

lemma Amistem_stemToStemMatrix_STD_LAT_SN:
  assumes "Amistem_isCCD_STD P (stemLabel aO)" "Amistem_isCCD_LAT_SN P (stemLabel aT)"
  shows "\<exists>via a b. Amistem_getSimilarLabel P (stemLabel aO) (s3 (Amistem_RANGE_CCD_STD_SN P)) = Some via \<and>
          Amistem_isCCD_STD_SN P via \<and>
          Amistem_getShift P via (stemLabel aT) = Some a \<and>
          Amistem_getShift P (stemLabel aO) via = Some b \<and>
          Amistem_stemToStemMatrix P aO aT = Some (mat_mult a b)"
proof -
  note so = Amistem_stem_classes(1)[OF assms(1)] and sT = Amistem_stem_classes(4)[OF assms(2)]
  from Amistem_similar_into_STD(2)[OF so] obtain via where
    v: "Amistem_getSimilarLabel P (stemLabel aO) (s3 (Amistem_RANGE_CCD_STD_SN P)) = Some via"
       "Amistem_isCCD_STD_SN P via" by blast
  note sv = Amistem_stem_classes(3)[OF v(2)]
  from Amistem_getShift_total[OF sv sT] obtain a where a: "Amistem_getShift P via (stemLabel aT) = Some a"
    by blast
  from Amistem_getShift_total[OF so sv] obtain b where b: "Amistem_getShift P (stemLabel aO) via = Some b"
    by blast
  have "Amistem_stemToStemMatrix P aO aT = Some (mat_mult a b)"
    using assms by (simp add: Amistem_stemToStemMatrix_def Let_def v(1) a b)
  with v a b show ?thesis by blast
qed

lemma Amistem_stemToStemMatrix_LAT_SN_STD:
  assumes "Amistem_isCCD_LAT_SN P (stemLabel aO)" "Amistem_isCCD_STD P (stemLabel aT)"
  shows "\<exists>via a b. Amistem_getSimilarLabel P (stemLabel aT) (s3 (Amistem_RANGE_CCD_STD_SN P)) = Some via \<and>
          Amistem_isCCD_STD_SN P via \<and>
          Amistem_getShift P via (stemLabel aT) = Some a \<and>
          Amistem_getShift P (stemLabel aO) via = Some b \<and>
          Amistem_stemToStemMatrix P aO aT = Some (mat_mult a b)"
proof -
  note so = Amistem_stem_classes(4)[OF assms(1)] and sT = Amistem_stem_classes(1)[OF assms(2)]
  note d = Amistem_classes_disjoint(4)[OF assms(1)] Amistem_classes_disjoint(1)[OF assms(2)]
  from Amistem_similar_into_STD(2)[OF sT] obtain via where
    v: "Amistem_getSimilarLabel P (stemLabel aT) (s3 (Amistem_RANGE_CCD_STD_SN P)) = Some via"
       "Amistem_isCCD_STD_SN P via" by blast
  note sv = Amistem_stem_classes(3)[OF v(2)]
  from Amistem_getShift_total[OF sv sT] obtain a where a: "Amistem_getShift P via (stemLabel aT) = Some a"
    by blast
  from Amistem_getShift_total[OF so sv] obtain b where b: "Amistem_getShift P (stemLabel aO) via = Some b"
    by blast
  have "Amistem_stemToStemMatrix P aO aT = Some (mat_mult a b)"
    using assms d by (simp add: Amistem_stemToStemMatrix_def Let_def v(1) a b)
  with v a b show ?thesis by blast
qed

lemma Amistem_stemToStemMatrix_LAT_SN_LAT:
  assumes "Amistem_isCCD_LAT_SN P (stemLabel aO)" "Amistem_isCCD_LAT P (stemLabel aT)"
  shows "\<exists>v1 v2 a b c. Amistem_getSimilarLabel P (stemLabel aO) (s3 (Amistem_RANGE_CCD_STD_SN P)) = Some v1 \<and>
          Amistem_isCCD_STD_SN P v1 \<and>
          Amistem_getSimilarLabel P (stemLabel aT) (s3 (Amistem_RANGE_CCD_STD P)) = Some v2 \<and>
          Amistem_isCCD_STD P v2 \<and>
          Amistem_getShift P v2 (stemLabel aT) = Some a \<and>
          Amistem_getShift P v1 v2 = Some b \<and>
          Amistem_getShift P (stemLabel aO) v1 = Some c \<and>
          Amistem_stemToStemMatrix P aO aT = Some (mat_mult (mat_mult a b) c)"
proof -
  note so = Amistem_stem_classes(4)[OF assms(1)] and sT = Amistem_stem_classes(2)[OF assms(2)]
  note d = Amistem_classes_disjoint(4)[OF assms(1)] Amistem_classes_disjoint(2)[OF assms(2)]
  from Amistem_similar_into_STD(2)[OF so] obtain v1 where
    v1: "Amistem_getSimilarLabel P (stemLabel aO) (s3 (Amistem_RANGE_CCD_STD_SN P)) = Some v1"
       "Amistem_isCCD_STD_SN P v1" by blast
  from Amistem_similar_into_STD(1)[OF sT] obtain v2 where
    v2: "Amistem_getSimilarLabel P (stemLabel aT) (s3 (Amistem_RANGE_CCD_STD P)) = Some v2"
       "Amistem_isCCD_STD P v2" by blast
  note s1 = Amistem_stem_classes(3)[OF v1(2)] and s2 = Amistem_stem_classes(1)[OF v2(2)]
  from Amistem_getShift_total[OF s2 sT] obtain a where a: "Amistem_getShift P v2 (stemLabel aT) = Some a"
    by blast
  from Amistem_getShift_total[OF s1 s2] obtain b where b: "Amistem_getShift P v1 v2 = Some b"
    by blast
  from Amistem_getShift_total[OF so s1] obtain c where c: "Amistem_getShift P (stemLabel aO) v1 = Some c"
    by blast
  have "Amistem_stemToStemMatrix P aO aT = Some (mat_mult (mat_mult a b) c)"
    using assms d by (simp add: Amistem_stemToStemMatrix_def Let_def v1(1) v2(1) a b c)
  with v1 v2 a b c show ?thesis by blast
qed

lemma Amistem_stemToStemMatrix_STD_SN_LAT:
  assumes "Amistem_isCCD_STD_SN P (stemLabel aO)" "Amistem_isCCD_LAT P (stemLabel aT)"
  shows "\<exists>via a b. Amistem_getSimilarLabel P (stemLabel aO) (s3 (Amistem_RANGE_CCD_STD P)) = Some via \<and>
          Amistem_isCCD_STD P via \<and>
          Amistem_getShift P via (stemLabel aT) = Some a \<and>
          Amistem_getShift P (stemLabel aO) via = Some b \<and>
          Amistem_stemToStemMatrix P aO aT = Some (mat_mult a b)"
proof -
  note so = Amistem_stem_classes(3)[OF assms(1)] and sT = Amistem_stem_classes(2)[OF assms(2)]
  note d = Amistem_classes_disjoint(3)[OF assms(1)] Amistem_classes_disjoint(2)[OF assms(2)]
  from Amistem_similar_into_STD(1)[OF so] obtain via where
    v: "Amistem_getSimilarLabel P (stemLabel aO) (s3 (Amistem_RANGE_CCD_STD P)) = Some via"
       "Amistem_isCCD_STD P via" by blast
  note sv = Amistem_stem_classes(1)[OF v(2)]
  from Amistem_getShift_total[OF sv sT] obtain a where a: "Amistem_getShift P via (stemLabel aT) = Some a"
    by blast
  from Amistem_getShift_total[OF so sv] obtain b where b: "Amistem_getShift P (stemLabel aO) via = Some b"
    by blast
  have "Amistem_stemToStemMatrix P aO aT = Some (mat_mult a b)"
    using assms d by (simp add: Amistem_stemToStemMatrix_def Let_def v(1) a b)
  with v a b show ?thesis by blast
qed

lemma Amistem_stemToStemMatrix_LAT_STD_SN:
  assumes "Amistem_isCCD_LAT P (stemLabel aO)" "Amistem_isCCD_STD_SN P (stemLabel aT)"
  shows "\<exists>via a b. Amistem_getSimilarLabel P (stemLabel aO) (s3 (Amistem_RANGE_CCD_STD P)) = Some via \<and>
          Amistem_isCCD_STD P via \<and>
          Amistem_getShift P via (stemLabel aT) = Some a \<and>
          Amistem_getShift P (stemLabel aO) via = Some b \<and>
          Amistem_stemToStemMatrix P aO aT = Some (mat_mult a b)"
proof -
  note so = Amistem_stem_classes(2)[OF assms(1)] and sT = Amistem_stem_classes(3)[OF assms(2)]
  note d = Amistem_classes_disjoint(2)[OF assms(1)] Amistem_classes_disjoint(3)[OF assms(2)]
  from Amistem_similar_into_STD(1)[OF so] obtain via where
    v: "Amistem_getSimilarLabel P (stemLabel aO) (s3 (Amistem_RANGE_CCD_STD P)) = Some via"
       "Amistem_isCCD_STD P via" by blast
  note sv = Amistem_stem_classes(1)[OF v(2)]
  from Amistem_getShift_total[OF sv sT] obtain a where a: "Amistem_getShift P via (stemLabel aT) = Some a"
    by blast
  from Amistem_getShift_total[OF so sv] obtain b where b: "Amistem_getShift P (stemLabel aO) via = Some b"
    by blast
  have "Amistem_stemToStemMatrix P aO aT = Some (mat_mult a b)"
    using assms d by (simp add: Amistem_stemToStemMatrix_def Let_def v(1) a b)
  with v a b show ?thesis by blast
qed

lemma Amistem_stemToStemMatrix_LAT_LAT_SN:
  assumes "Amistem_isCCD_LAT P (stemLabel aO)" "Amistem_isCCD_LAT_SN P (stemLabel aT)"
  shows "\<exists>v1 v2 a b c. Amistem_getSimilarLabel P (stemLabel aO) (s3 (Amistem_RANGE_CCD_STD P)) = Some v1 \<and>
          Amistem_isCCD_STD P v1 \<and>
          Amistem_getSimilarLabel P (stemLabel aT) (s3 (Amistem_RANGE_CCD_STD_SN P)) = Some v2 \<and>
          Amistem_isCCD_STD_SN P v2 \<and>
          Amistem_getShift P v2 (stemLabel aT) = Some a \<and>
          Amistem_getShift P v1 v2 = Some b \<and>
          Amistem_getShift P (stemLabel aO) v1 = Some c \<and>
          Amistem_stemToStemMatrix P aO aT = Some (mat_mult (mat_mult a b) c)"
proof -
  note so = Amistem_stem_classes(2)[OF assms(1)] and sT = Amistem_stem_classes(4)[OF assms(2)]
  note d = Amistem_classes_disjoint(2)[OF assms(1)] Amistem_classes_disjoint(4)[OF assms(2)]
  from Amistem_similar_into_STD(1)[OF so] obtain v1 where
    v1: "Amistem_getSimilarLabel P (stemLabel aO) (s3 (Amistem_RANGE_CCD_STD P)) = Some v1"
       "Amistem_isCCD_STD P v1" by blast
  from Amistem_similar_into_STD(2)[OF sT] obtain v2 where
    v2: "Amistem_getSimilarLabel P (stemLabel aT) (s3 (Amistem_RANGE_CCD_STD_SN P)) = Some v2"
       "Amistem_isCCD_STD_SN P v2" by blast
  note s1 = Amistem_stem_classes(1)[OF v1(2)] and s2 = Amistem_stem_classes(3)[OF v2(2)]
  from Amistem_getShift_total[OF s2 sT] obtain a where a: "Amistem_getShift P v2 (stemLabel aT) = Some a"
    by blast
  from Amistem_getShift_total[OF s1 s2] obtain b where b: "Amistem_getShift P v1 v2 = Some b"
    by blast
  from Amistem_getShift_total[OF so s1] obtain c where c: "Amistem_getShift P (stemLabel aO) v1 = Some c"
    by blast
  have "Amistem_stemToStemMatrix P aO aT = Some (mat_mult (mat_mult a b) c)"
    using assms d by (simp add: Amistem_stemToStemMatrix_def Let_def v1(1) v2(1) a b c)
  with v1 v2 a b c show ?thesis by blast
qed

text \<open>
  C6, as the specification states it, fails on the code. In Amistem the stems
  \<open>STEM_STD_5\<close> and \<open>STEM_STD_SN_5\<close> lie in families with a directly authored
  relationship (the first case of \<open>getShift\<close>), and \<open>getRES_02\<close> returns the origin for
  both, so the translation by \<open>RES_02(origin) - RES_02(target)\<close> is the identity; yet
  \<open>stemToStemMatrix\<close> returns the translation by the difference of the two \<open>RES_01\<close>
  landmarks, \<open>(0, 0.01, 0.01)\<close>.
\<close>

theorem Amistem_stemToStemMatrix_aligns_RES_01:
  "Amistem_isSTD 50000 (S3 50055) \<and> Amistem_isSTD 50000 (S3 50075) \<and>
   Amistem_getRES_02 50000 (S3 50055) = Some (SboPoint3 0 0 0) \<and>
   Amistem_getRES_02 50000 (S3 50075) = Some (SboPoint3 0 0 0) \<and>
   Amistem_getRES_01 50000 (S3 50055) = Some (SboPoint3 0 17.54 17.54) \<and>
   Amistem_getRES_01 50000 (S3 50075) = Some (SboPoint3 0 17.53 17.53) \<and>
   Amistem_stemToStemMatrix 50000 (sampleFemIC AnatomLeft (S3 50055) NullLabel NullLabel)
       (sampleFemIC AnatomLeft (S3 50075) NullLabel NullLabel)
     = Some (transMat3 (SboPoint3 0 (1 / 100) (1 / 100))) \<and>
   transMat3 (SboPoint3 0 (1 / 100) (1 / 100))
     \<noteq> transMat3 (sub3 (SboPoint3 0 0 0) (SboPoint3 0 0 0))"
proof -
  have st: "Amistem_isStem 50000 (S3 50055)" "Amistem_isStem 50000 (S3 50075)"
    "Amistem_isSTD 50000 (S3 50055)" "Amistem_isSTD 50000 (S3 50075)"
    by (simp_all add: Amistem_label_simps)
  have sz: "Amistem_getStemSize 50000 (S3 50055) = Some 5"
    "Amistem_getStemSize 50000 (S3 50075) = Some 5"
    using Amistem_getStemSize_at[of 5 50000] Amistem_getStemSize_at[of 25 50000] by simp_all
  have rg: "Amistem_getCCDRange 50000 (S3 50055) = S3 50096"
    "Amistem_getCCDRange 50000 (S3 50075) = S3 50098"
    using Amistem_getCCDRange_at[of 5 50000] Amistem_getCCDRange_at[of 25 50000]
    by (simp_all add: s3_def Amistem_RANGE_CCD_STD_def Amistem_RANGE_CCD_STD_SN_def)
  have r2: "Amistem_getRES_02 50000 (S3 50055) = Some (SboPoint3 0 0 0)"
    "Amistem_getRES_02 50000 (S3 50075) = Some (SboPoint3 0 0 0)"
    by (simp_all add: Amistem_getRES_02_def HPROJ_DCHECK2_def st sz)
  have r1: "Amistem_getRES_01 50000 (S3 50055) = Some (SboPoint3 0 17.54 17.54)"
    "Amistem_getRES_01 50000 (S3 50075) = Some (SboPoint3 0 17.53 17.53)"
    by (simp_all add: Amistem_getRES_01_def HPROJ_DCHECK2_def st sz rg s3_def
        Amistem_RANGE_CCD_STD_def Amistem_RANGE_CCD_LAT_def Amistem_RANGE_CCD_STD_SN_def)
  have sh: "Amistem_getShift 50000 (S3 50055) (S3 50075)
              = Some (transMat3 (SboPoint3 0 (1 / 100) (1 / 100)))"
    by (simp add: Amistem_getShift_def r1 sz st)
  have un: "Amistem_stemToStemMatrix 50000 (sampleFemIC AnatomLeft (S3 50055) NullLabel NullLabel)
       (sampleFemIC AnatomLeft (S3 50075) NullLabel NullLabel)
     = Amistem_getShift 50000 (S3 50055) (S3 50075)"
    using Amistem_stemToStemMatrix_unchained[of 50000
        "sampleFemIC AnatomLeft (S3 50055) NullLabel NullLabel"
        "sampleFemIC AnatomLeft (S3 50075) NullLabel NullLabel"] st
    by (simp add: sampleFemIC_def)
  have ne: "transMat3 (SboPoint3 0 (1 / 100) (1 / 100))
     \<noteq> transMat3 (sub3 (SboPoint3 0 0 0) (SboPoint3 0 0 0))"
    by (simp add: transMat3_def)
  from st(3,4) r2 r1 sh un ne show ?thesis by simp
qed

text \<open>
  C6, amended. In Corail, for every pair of configurations with stem labels,
  \<open>stemToStemMatrix\<close> is the pure translation by \<open>RES_02(origin) - RES_02(target)\<close>.
  In Amistem, where \<open>RES_02\<close> is the origin for every stem: for stems that both lie in the
  STD families (STD or STD SN), both in LAT or both in LAT SN, it is the pure translation by
  \<open>RES_01(origin) - RES_01(target)\<close>; between STD and LAT and between STD SN and LAT SN it is
  the translation along z that \<open>getShift\<close> authors for the size of the origin; for every
  other pair it is the product of two or three \<open>getShift\<close> transforms routed through the
  similar label of the origin (or of the target) in the STD and STD SN sub-ranges, and these
  intermediate labels do lie in those sub-ranges.
\<close>

theorem stemToStemMatrix_translation_or_chain:
  "(Corail_isStem P (stemLabel cO) \<and> Corail_isStem P (stemLabel cT) \<longrightarrow>
      (\<exists>a b. Corail_getRES_02 P (stemLabel cO) = Some a \<and>
          Corail_getRES_02 P (stemLabel cT) = Some b \<and>
          Corail_stemToStemMatrix P cO cT = Some (transMat3 (sub3 a b)))) \<and>
   ((Amistem_isSTD A (stemLabel aO) \<and> Amistem_isSTD A (stemLabel aT)) \<or>
    (Amistem_isCCD_LAT A (stemLabel aO) \<and> Amistem_isCCD_LAT A (stemLabel aT)) \<or>
    (Amistem_isCCD_LAT_SN A (stemLabel aO) \<and> Amistem_isCCD_LAT_SN A (stemLabel aT)) \<longrightarrow>
      (\<exists>a b. Amistem_getRES_01 A (stemLabel aO) = Some a \<and>
          Amistem_getRES_01 A (stemLabel aT) = Some b \<and>
          Amistem_stemToStemMatrix A aO aT = Some (transMat3 (sub3 a b)))) \<and>
   ((Amistem_isCCD_STD A (stemLabel aO) \<and> Amistem_isCCD_LAT A (stemLabel aT)) \<or>
    (Amistem_isCCD_LAT A (stemLabel aO) \<and> Amistem_isCCD_STD A (stemLabel aT)) \<or>
    (Amistem_isCCD_STD_SN A (stemLabel aO) \<and> Amistem_isCCD_LAT_SN A (stemLabel aT)) \<or>
    (Amistem_isCCD_LAT_SN A (stemLabel aO) \<and> Amistem_isCCD_STD_SN A (stemLabel aT)) \<longrightarrow>
      (\<exists>z. Amistem_getShift A (stemLabel aO) (stemLabel aT) = Some (transMat3 (SboPoint3 0 0 z)) \<and>
          Amistem_stemToStemMatrix A aO aT = Some (transMat3 (SboPoint3 0 0 z)))) \<and>
   (Amistem_isCCD_STD A (stemLabel aO) \<and> Amistem_isCCD_LAT_SN A (stemLabel aT) \<longrightarrow>
      (\<exists>via a b. Amistem_getSimilarLabel A (stemLabel aO) (s3 (Amistem_RANGE_CCD_STD_SN A)) = Some via \<and>
          Amistem_isCCD_STD_SN A via \<and>
          Amistem_getShift A via (stemLabel aT) = Some a \<and>
          Amistem_getShift A (stemLabel aO) via = Some b \<and>
          Amistem_stemToStemMatrix A aO aT = Some (mat_mult a b))) \<and>
   (Amistem_isCCD_LAT_SN A (stemLabel aO) \<and> Amistem_isCCD_STD A (stemLabel aT) \<longrightarrow>
      (\<exists>via a b. Amistem_getSimilarLabel A (stemLabel aT) (s3 (Amistem_RANGE_CCD_STD_SN A)) = Some via \<and>
          Amistem_isCCD_STD_SN A via \<and>
          Amistem_getShift A via (stemLabel aT) = Some a \<and>
          Amistem_getShift A (stemLabel aO) via = Some b \<and>
          Amistem_stemToStemMatrix A aO aT = Some (mat_mult a b))) \<and>
   (Amistem_isCCD_LAT_SN A (stemLabel aO) \<and> Amistem_isCCD_LAT A (stemLabel aT) \<longrightarrow>
      (\<exists>v1 v2 a b c. Amistem_getSimilarLabel A (stemLabel aO) (s3 (Amistem_RANGE_CCD_STD_SN A)) = Some v1 \<and>
          Amistem_isCCD_STD_SN A v1 \<and>
          Amistem_getSimilarLabel A (stemLabel aT) (s3 (Amistem_RANGE_CCD_STD A)) = Some v2 \<and>
          Amistem_isCCD_STD A v2 \<and>
          Amistem_getShift A v2 (stemLabel aT) = Some a \<and>
          Amistem_getShift A v1 v2 = Some b \<and>
          Amistem_getShift A (stemLabel aO) v1 = Some c \<and>
          Amistem_stemToStemMatrix A aO aT = Some (mat_mult (mat_mult a b) c))) \<and>
   (Amistem_isCCD_STD_SN A (stemLabel aO) \<and> Amistem_isCCD_LAT A (stemLabel aT) \<longrightarrow>
      (\<exists>via a b. Amistem_getSimilarLabel A (stemLabel aO) (s3 (Amistem_RANGE_CCD_STD A)) = Some via \<and>
          Amistem_isCCD_STD A via \<and>
          Amistem_getShift A via (stemLabel aT) = Some a \<and>
          Amistem_getShift A (stemLabel aO) via = Some b \<and>
          Amistem_stemToStemMatrix A aO aT = Some (mat_mult a b))) \<and>
   (Amistem_isCCD_LAT A (stemLabel aO) \<and> Amistem_isCCD_STD_SN A (stemLabel aT) \<longrightarrow>
      (\<exists>via a b. Amistem_getSimilarLabel A (stemLabel aO) (s3 (Amistem_RANGE_CCD_STD A)) = Some via \<and>
          Amistem_isCCD_STD A via \<and>
          Amistem_getShift A via (stemLabel aT) = Some a \<and>
          Amistem_getShift A (stemLabel aO) via = Some b \<and>
          Amistem_stemToStemMatrix A aO aT = Some (mat_mult a b))) \<and>
   (Amistem_isCCD_LAT A (stemLabel aO) \<and> Amistem_isCCD_LAT_SN A (stemLabel aT) \<longrightarrow>
      (\<exists>v1 v2 a b c. Amistem_getSimilarLabel A (stemLabel aO) (s3 (Amistem_RANGE_CCD_STD A)) = Some v1 \<and>
          Amistem_isCCD_STD A v1 \<and>
          Amistem_getSimilarLabel A (stemLabel aT) (s3 (Amistem_RANGE_CCD_STD_SN A)) = Some v2 \<and>
          Amistem_isCCD_STD_SN A v2 \<and>
          Amistem_getShift A v2 (stemLabel aT) = Some a \<and>
          Amistem_getShift A v1 v2 = Some b \<and>
          Amistem_getShift A (stemLabel aO) v1 = Some c \<and>
          Amistem_stemToStemMatrix A aO aT = Some (mat_mult (mat_mult a b) c)))"
  apply (intro conjI impI)
          apply (elim conjE, rule Corail_stemToStemMatrix_stems; assumption)
         apply (rule Amistem_stemToStemMatrix_direct, assumption)
        apply (rule Amistem_stemToStemMatrix_z, assumption)
       apply (elim conjE, rule Amistem_stemToStemMatrix_STD_LAT_SN; assumption)
      apply (elim conjE, rule Amistem_stemToStemMatrix_LAT_SN_STD; assumption)
     apply (elim conjE, rule Amistem_stemToStemMatrix_LAT_SN_LAT; assumption)
    apply (elim conjE, rule Amistem_stemToStemMatrix_STD_SN_LAT; assumption)
   apply (elim conjE, rule Amistem_stemToStemMatrix_LAT_STD_SN; assumption)
  apply (elim conjE, rule Amistem_stemToStemMatrix_LAT_LAT_SN; assumption)
  done

theorem stemToStemMatrix_translation_or_chain_witness:
  "(Corail_isStem 20000 (stemLabel (sampleFemIC AnatomLeft (S3 20100) NullLabel NullLabel)) \<and> Corail_isStem 20000 (stemLabel (sampleFemIC AnatomLeft (S3 20122) NullLabel NullLabel)) \<and>
   (\<exists>a b. Corail_getRES_02 20000 (stemLabel (sampleFemIC AnatomLeft (S3 20100) NullLabel NullLabel)) = Some a \<and>
          Corail_getRES_02 20000 (stemLabel (sampleFemIC AnatomLeft (S3 20122) NullLabel NullLabel)) = Some b \<and>
          Corail_stemToStemMatrix 20000 (sampleFemIC AnatomLeft (S3 20100) NullLabel NullLabel) (sampleFemIC AnatomLeft (S3 20122) NullLabel NullLabel) = Some (transMat3 (sub3 a b)))) \<and>
   (((Amistem_isSTD 50000 (stemLabel (sampleFemIC AnatomLeft (S3 50055) NullLabel NullLabel)) \<and> Amistem_isSTD 50000 (stemLabel (sampleFemIC AnatomLeft (S3 50075) NullLabel NullLabel))) \<or>
    (Amistem_isCCD_LAT 50000 (stemLabel (sampleFemIC AnatomLeft (S3 50055) NullLabel NullLabel)) \<and> Amistem_isCCD_LAT 50000 (stemLabel (sampleFemIC AnatomLeft (S3 50075) NullLabel NullLabel))) \<or>
    (Amistem_isCCD_LAT_SN 50000 (stemLabel (sampleFemIC AnatomLeft (S3 50055) NullLabel NullLabel)) \<and> Amistem_isCCD_LAT_SN 50000 (stemLabel (sampleFemIC AnatomLeft (S3 50075) NullLabel NullLabel)))) \<and>
   (\<exists>a b. Amistem_getRES_01 50000 (stemLabel (sampleFemIC AnatomLeft (S3 50055) NullLabel NullLabel)) = Some a \<and>
          Amistem_getRES_01 50000 (stemLabel (sampleFemIC AnatomLeft (S3 50075) NullLabel NullLabel)) = Some b \<and>
          Amistem_stemToStemMatrix 50000 (sampleFemIC AnatomLeft (S3 50055) NullLabel NullLabel) (sampleFemIC AnatomLeft (S3 50075) NullLabel NullLabel) = Some (transMat3 (sub3 a b)))) \<and>
   (((Amistem_isCCD_STD 50000 (stemLabel (sampleFemIC AnatomLeft (S3 50055) NullLabel NullLabel)) \<and> Amistem_isCCD_LAT 50000 (stemLabel (sampleFemIC AnatomLeft (S3 50065) NullLabel NullLabel))) \<or>
    (Amistem_isCCD_LAT 50000 (stemLabel (sampleFemIC AnatomLeft (S3 50055) NullLabel NullLabel)) \<and> Amistem_isCCD_STD 50000 (stemLabel (sampleFemIC AnatomLeft (S3 50065) NullLabel NullLabel))) \<or>
    (Amistem_isCCD_STD_SN 50000 (stemLabel (sampleFemIC AnatomLeft (S3 50055) NullLabel NullLabel)) \<and> Amistem_isCCD_LAT_SN 50000 (stemLabel (sampleFemIC AnatomLeft (S3 50065) NullLabel NullLabel))) \<or>
    (Amistem_isCCD_LAT_SN 50000 (stemLabel (sampleFemIC AnatomLeft (S3 50055) NullLabel NullLabel)) \<and> Amistem_isCCD_STD_SN 50000 (stemLabel (sampleFemIC AnatomLeft (S3 50065) NullLabel NullLabel)))) \<and>
   (\<exists>z. Amistem_getShift 50000 (stemLabel (sampleFemIC AnatomLeft (S3 50055) NullLabel NullLabel)) (stemLabel (sampleFemIC AnatomLeft (S3 50065) NullLabel NullLabel)) = Some (transMat3 (SboPoint3 0 0 z)) \<and>
          Amistem_stemToStemMatrix 50000 (sampleFemIC AnatomLeft (S3 50055) NullLabel NullLabel) (sampleFemIC AnatomLeft (S3 50065) NullLabel NullLabel) = Some (transMat3 (SboPoint3 0 0 z)))) \<and>
   ((Amistem_isCCD_STD 50000 (stemLabel (sampleFemIC AnatomLeft (S3 50055) NullLabel NullLabel)) \<and> Amistem_isCCD_LAT_SN 50000 (stemLabel (sampleFemIC AnatomLeft (S3 50085) NullLabel NullLabel))) \<and>
   (\<exists>via a b. Amistem_getSimilarLabel 50000 (stemLabel (sampleFemIC AnatomLeft (S3 50055) NullLabel NullLabel)) (s3 (Amistem_RANGE_CCD_STD_SN 50000)) = Some via \<and>
          Amistem_isCCD_STD_SN 50000 via \<and>
          Amistem_getShift 50000 via (stemLabel (sampleFemIC AnatomLeft (S3 50085) NullLabel NullLabel)) = Some a \<and>
          Amistem_getShift 50000 (stemLabel (sampleFemIC AnatomLeft (S3 50055) NullLabel NullLabel)) via = Some b \<and>
          Amistem_stemToStemMatrix 50000 (sampleFemIC AnatomLeft (S3 50055) NullLabel NullLabel) (sampleFemIC AnatomLeft (S3 50085) NullLabel NullLabel) = Some (mat_mult a b))) \<and>
   ((Amistem_isCCD_LAT_SN 50000 (stemLabel (sampleFemIC AnatomLeft (S3 50085) NullLabel NullLabel)) \<and> Amistem_isCCD_STD 50000 (stemLabel (sampleFemIC AnatomLeft (S3 50055) NullLabel NullLabel))) \<and>
   (\<exists>via a b. Amistem_getSimilarLabel 50000 (stemLabel (sampleFemIC AnatomLeft (S3 50055) NullLabel NullLabel)) (s3 (Amistem_RANGE_CCD_STD_SN 50000)) = Some via \<and>
          Amistem_isCCD_STD_SN 50000 via \<and>
          Amistem_getShift 50000 via (stemLabel (sampleFemIC AnatomLeft (S3 50055) NullLabel NullLabel)) = Some a \<and>
          Amistem_getShift 50000 (stemLabel (sampleFemIC AnatomLeft (S3 50085) NullLabel NullLabel)) via = Some b \<and>
          Amistem_stemToStemMatrix 50000 (sampleFemIC AnatomLeft (S3 50085) NullLabel NullLabel) (sampleFemIC AnatomLeft (S3 50055) NullLabel NullLabel) = Some (mat_mult a b))) \<and>
   ((Amistem_isCCD_LAT_SN 50000 (stemLabel (sampleFemIC AnatomLeft (S3 50085) NullLabel NullLabel)) \<and> Amistem_isCCD_LAT 50000 (stemLabel (sampleFemIC AnatomLeft (S3 50065) NullLabel NullLabel))) \<and>
   (\<exists>v1 v2 a b c. Amistem_getSimilarLabel 50000 (stemLabel (sampleFemIC AnatomLeft (S3 50085) NullLabel NullLabel)) (s3 (Amistem_RANGE_CCD_STD_SN 50000)) = Some v1 \<and>
          Amistem_isCCD_STD_SN 50000 v1 \<and>
          Amistem_getSimilarLabel 50000 (stemLabel (sampleFemIC AnatomLeft (S3 50065) NullLabel NullLabel)) (s3 (Amistem_RANGE_CCD_STD 50000)) = Some v2 \<and>
          Amistem_isCCD_STD 50000 v2 \<and>
          Amistem_getShift 50000 v2 (stemLabel (sampleFemIC AnatomLeft (S3 50065) NullLabel NullLabel)) = Some a \<and>
          Amistem_getShift 50000 v1 v2 = Some b \<and>
          Amistem_getShift 50000 (stemLabel (sampleFemIC AnatomLeft (S3 50085) NullLabel NullLabel)) v1 = Some c \<and>
          Amistem_stemToStemMatrix 50000 (sampleFemIC AnatomLeft (S3 50085) NullLabel NullLabel) (sampleFemIC AnatomLeft (S3 50065) NullLabel NullLabel) = Some (mat_mult (mat_mult a b) c))) \<and>
   ((Amistem_isCCD_STD_SN 50000 (stemLabel (sampleFemIC AnatomLeft (S3 50075) NullLabel NullLabel)) \<and> Amistem_isCCD_LAT 50000 (stemLabel (sampleFemIC AnatomLeft (S3 50065) NullLabel NullLabel))) \<and>
   (\<exists>via a b. Amistem_getSimilarLabel 50000 (stemLabel (sampleFemIC AnatomLeft (S3 50075) NullLabel NullLabel)) (s3 (Amistem_RANGE_CCD_STD 50000)) = Some via \<and>
          Amistem_isCCD_STD 50000 via \<and>
          Amistem_getShift 50000 via (stemLabel (sampleFemIC AnatomLeft (S3 50065) NullLabel NullLabel)) = Some a \<and>
          Amistem_getShift 50000 (stemLabel (sampleFemIC AnatomLeft (S3 50075) NullLabel NullLabel)) via = Some b \<and>
          Amistem_stemToStemMatrix 50000 (sampleFemIC AnatomLeft (S3 50075) NullLabel NullLabel) (sampleFemIC AnatomLeft (S3 50065) NullLabel NullLabel) = Some (mat_mult a b))) \<and>
   ((Amistem_isCCD_LAT 50000 (stemLabel (sampleFemIC AnatomLeft (S3 50065) NullLabel NullLabel)) \<and> Amistem_isCCD_STD_SN 50000 (stemLabel (sampleFemIC AnatomLeft (S3 50075) NullLabel NullLabel))) \<and>
   (\<exists>via a b. Amistem_getSimilarLabel 50000 (stemLabel (sampleFemIC AnatomLeft (S3 50065) NullLabel NullLabel)) (s3 (Amistem_RANGE_CCD_STD 50000)) = Some via \<and>
          Amistem_isCCD_STD 50000 via \<and>
          Amistem_getShift 50000 via (stemLabel (sampleFemIC AnatomLeft (S3 50075) NullLabel NullLabel)) = Some a \<and>
          Amistem_getShift 50000 (stemLabel (sampleFemIC AnatomLeft (S3 50065) NullLabel NullLabel)) via = Some b \<and>
          Amistem_stemToStemMatrix 50000 (sampleFemIC AnatomLeft (S3 50065) NullLabel NullLabel) (sampleFemIC AnatomLeft (S3 50075) NullLabel NullLabel) = Some (mat_mult a b))) \<and>
   ((Amistem_isCCD_LAT 50000 (stemLabel (sampleFemIC AnatomLeft (S3 50065) NullLabel NullLabel)) \<and> Amistem_isCCD_LAT_SN 50000 (stemLabel (sampleFemIC AnatomLeft (S3 50085) NullLabel NullLabel))) \<and>
   (\<exists>v1 v2 a b c. Amistem_getSimilarLabel 50000 (stemLabel (sampleFemIC AnatomLeft (S3 50065) NullLabel NullLabel)) (s3 (Amistem_RANGE_CCD_STD 50000)) = Some v1 \<and>
          Amistem_isCCD_STD 50000 v1 \<and>
          Amistem_getSimilarLabel 50000 (stemLabel (sampleFemIC AnatomLeft (S3 50085) NullLabel NullLabel)) (s3 (Amistem_RANGE_CCD_STD_SN 50000)) = Some v2 \<and>
          Amistem_isCCD_STD_SN 50000 v2 \<and>
          Amistem_getShift 50000 v2 (stemLabel (sampleFemIC AnatomLeft (S3 50085) NullLabel NullLabel)) = Some a \<and>
          Amistem_getShift 50000 v1 v2 = Some b \<and>
          Amistem_getShift 50000 (stemLabel (sampleFemIC AnatomLeft (S3 50065) NullLabel NullLabel)) v1 = Some c \<and>
          Amistem_stemToStemMatrix 50000 (sampleFemIC AnatomLeft (S3 50065) NullLabel NullLabel) (sampleFemIC AnatomLeft (S3 50085) NullLabel NullLabel) = Some (mat_mult (mat_mult a b) c)))"
proof -
  have h0: "Corail_isStem 20000 (stemLabel (sampleFemIC AnatomLeft (S3 20100) NullLabel NullLabel)) \<and> Corail_isStem 20000 (stemLabel (sampleFemIC AnatomLeft (S3 20122) NullLabel NullLabel))"
    by (simp add: sampleFemIC_def Corail_label_simps)
  have c0: "(\<exists>a b. Corail_getRES_02 20000 (stemLabel (sampleFemIC AnatomLeft (S3 20100) NullLabel NullLabel)) = Some a \<and>
          Corail_getRES_02 20000 (stemLabel (sampleFemIC AnatomLeft (S3 20122) NullLabel NullLabel)) = Some b \<and>
          Corail_stemToStemMatrix 20000 (sampleFemIC AnatomLeft (S3 20100) NullLabel NullLabel) (sampleFemIC AnatomLeft (S3 20122) NullLabel NullLabel) = Some (transMat3 (sub3 a b)))"
    by (rule stemToStemMatrix_translation_or_chain[of 20000 "sampleFemIC AnatomLeft (S3 20100) NullLabel NullLabel" "sampleFemIC AnatomLeft (S3 20122) NullLabel NullLabel" 50000 "sampleFemIC AnatomLeft (S3 50055) NullLabel NullLabel" "sampleFemIC AnatomLeft (S3 50075) NullLabel NullLabel", THEN conjunct1, THEN mp, OF h0])
  have h1: "(Amistem_isSTD 50000 (stemLabel (sampleFemIC AnatomLeft (S3 50055) NullLabel NullLabel)) \<and> Amistem_isSTD 50000 (stemLabel (sampleFemIC AnatomLeft (S3 50075) NullLabel NullLabel))) \<or>
    (Amistem_isCCD_LAT 50000 (stemLabel (sampleFemIC AnatomLeft (S3 50055) NullLabel NullLabel)) \<and> Amistem_isCCD_LAT 50000 (stemLabel (sampleFemIC AnatomLeft (S3 50075) NullLabel NullLabel))) \<or>
    (Amistem_isCCD_LAT_SN 50000 (stemLabel (sampleFemIC AnatomLeft (S3 50055) NullLabel NullLabel)) \<and> Amistem_isCCD_LAT_SN 50000 (stemLabel (sampleFemIC AnatomLeft (S3 50075) NullLabel NullLabel)))"
    by (simp add: sampleFemIC_def Amistem_label_simps)
  have c1: "(\<exists>a b. Amistem_getRES_01 50000 (stemLabel (sampleFemIC AnatomLeft (S3 50055) NullLabel NullLabel)) = Some a \<and>
          Amistem_getRES_01 50000 (stemLabel (sampleFemIC AnatomLeft (S3 50075) NullLabel NullLabel)) = Some b \<and>
          Amistem_stemToStemMatrix 50000 (sampleFemIC AnatomLeft (S3 50055) NullLabel NullLabel) (sampleFemIC AnatomLeft (S3 50075) NullLabel NullLabel) = Some (transMat3 (sub3 a b)))"
    by (rule stemToStemMatrix_translation_or_chain[of 20000 "sampleFemIC AnatomLeft (S3 20100) NullLabel NullLabel" "sampleFemIC AnatomLeft (S3 20122) NullLabel NullLabel" 50000 "sampleFemIC AnatomLeft (S3 50055) NullLabel NullLabel" "sampleFemIC AnatomLeft (S3 50075) NullLabel NullLabel", THEN conjunct2, THEN conjunct1, THEN mp, OF h1])
  have h2: "(Amistem_isCCD_STD 50000 (stemLabel (sampleFemIC AnatomLeft (S3 50055) NullLabel NullLabel)) \<and> Amistem_isCCD_LAT 50000 (stemLabel (sampleFemIC AnatomLeft (S3 50065) NullLabel NullLabel))) \<or>
    (Amistem_isCCD_LAT 50000 (stemLabel (sampleFemIC AnatomLeft (S3 50055) NullLabel NullLabel)) \<and> Amistem_isCCD_STD 50000 (stemLabel (sampleFemIC AnatomLeft (S3 50065) NullLabel NullLabel))) \<or>
    (Amistem_isCCD_STD_SN 50000 (stemLabel (sampleFemIC AnatomLeft (S3 50055) NullLabel NullLabel)) \<and> Amistem_isCCD_LAT_SN 50000 (stemLabel (sampleFemIC AnatomLeft (S3 50065) NullLabel NullLabel))) \<or>
    (Amistem_isCCD_LAT_SN 50000 (stemLabel (sampleFemIC AnatomLeft (S3 50055) NullLabel NullLabel)) \<and> Amistem_isCCD_STD_SN 50000 (stemLabel (sampleFemIC AnatomLeft (S3 50065) NullLabel NullLabel)))"
    by (simp add: sampleFemIC_def Amistem_label_simps)
  have c2: "(\<exists>z. Amistem_getShift 50000 (stemLabel (sampleFemIC AnatomLeft (S3 50055) NullLabel NullLabel)) (stemLabel (sampleFemIC AnatomLeft (S3 50065) NullLabel NullLabel)) = Some (transMat3 (SboPoint3 0 0 z)) \<and>
          Amistem_stemToStemMatrix 50000 (sampleFemIC AnatomLeft (S3 50055) NullLabel NullLabel) (sampleFemIC AnatomLeft (S3 50065) NullLabel NullLabel) = Some (transMat3 (SboPoint3 0 0 z)))"
    by (rule stemToStemMatrix_translation_or_chain[of 20000 "sampleFemIC AnatomLeft (S3 20100) NullLabel NullLabel" "sampleFemIC AnatomLeft (S3 20122) NullLabel NullLabel" 50000 "sampleFemIC AnatomLeft (S3 50055) NullLabel NullLabel" "sampleFemIC AnatomLeft (S3 50065) NullLabel NullLabel", THEN conjunct2, THEN conjunct2, THEN conjunct1, THEN mp, OF h2])
  have h3: "Amistem_isCCD_STD 50000 (stemLabel (sampleFemIC AnatomLeft (S3 50055) NullLabel NullLabel)) \<and> Amistem_isCCD_LAT_SN 50000 (stemLabel (sampleFemIC AnatomLeft (S3 50085) NullLabel NullLabel))"
    by (simp add: sampleFemIC_def Amistem_label_simps)
  have c3: "(\<exists>via a b. Amistem_getSimilarLabel 50000 (stemLabel (sampleFemIC AnatomLeft (S3 50055) NullLabel NullLabel)) (s3 (Amistem_RANGE_CCD_STD_SN 50000)) = Some via \<and>
          Amistem_isCCD_STD_SN 50000 via \<and>
          Amistem_getShift 50000 via (stemLabel (sampleFemIC AnatomLeft (S3 50085) NullLabel NullLabel)) = Some a \<and>
          Amistem_getShift 50000 (stemLabel (sampleFemIC AnatomLeft (S3 50055) NullLabel NullLabel)) via = Some b \<and>
          Amistem_stemToStemMatrix 50000 (sampleFemIC AnatomLeft (S3 50055) NullLabel NullLabel) (sampleFemIC AnatomLeft (S3 50085) NullLabel NullLabel) = Some (mat_mult a b))"
    by (rule stemToStemMatrix_translation_or_chain[of 20000 "sampleFemIC AnatomLeft (S3 20100) NullLabel NullLabel" "sampleFemIC AnatomLeft (S3 20122) NullLabel NullLabel" 50000 "sampleFemIC AnatomLeft (S3 50055) NullLabel NullLabel" "sampleFemIC AnatomLeft (S3 50085) NullLabel NullLabel", THEN conjunct2, THEN conjunct2, THEN conjunct2, THEN conjunct1, THEN mp, OF h3])
  have h4: "Amistem_isCCD_LAT_SN 50000 (stemLabel (sampleFemIC AnatomLeft (S3 50085) NullLabel NullLabel)) \<and> Amistem_isCCD_STD 50000 (stemLabel (sampleFemIC AnatomLeft (S3 50055) NullLabel NullLabel))"
    by (simp add: sampleFemIC_def Amistem_label_simps)
  have c4: "(\<exists>via a b. Amistem_getSimilarLabel 50000 (stemLabel (sampleFemIC AnatomLeft (S3 50055) NullLabel NullLabel)) (s3 (Amistem_RANGE_CCD_STD_SN 50000)) = Some via \<and>
          Amistem_isCCD_STD_SN 50000 via \<and>
          Amistem_getShift 50000 via (stemLabel (sampleFemIC AnatomLeft (S3 50055) NullLabel NullLabel)) = Some a \<and>
          Amistem_getShift 50000 (stemLabel (sampleFemIC AnatomLeft (S3 50085) NullLabel NullLabel)) via = Some b \<and>
          Amistem_stemToStemMatrix 50000 (sampleFemIC AnatomLeft (S3 50085) NullLabel NullLabel) (sampleFemIC AnatomLeft (S3 50055) NullLabel NullLabel) = Some (mat_mult a b))"
    by (rule stemToStemMatrix_translation_or_chain[of 20000 "sampleFemIC AnatomLeft (S3 20100) NullLabel NullLabel" "sampleFemIC AnatomLeft (S3 20122) NullLabel NullLabel" 50000 "sampleFemIC AnatomLeft (S3 50085) NullLabel NullLabel" "sampleFemIC AnatomLeft (S3 50055) NullLabel NullLabel", THEN conjunct2, THEN conjunct2, THEN conjunct2, THEN conjunct2, THEN conjunct1, THEN mp, OF h4])
  have h5: "Amistem_isCCD_LAT_SN 50000 (stemLabel (sampleFemIC AnatomLeft (S3 50085) NullLabel NullLabel)) \<and> Amistem_isCCD_LAT 50000 (stemLabel (sampleFemIC AnatomLeft (S3 50065) NullLabel NullLabel))"
    by (simp add: sampleFemIC_def Amistem_label_simps)
  have c5: "(\<exists>v1 v2 a b c. Amistem_getSimilarLabel 50000 (stemLabel (sampleFemIC AnatomLeft (S3 50085) NullLabel NullLabel)) (s3 (Amistem_RANGE_CCD_STD_SN 50000)) = Some v1 \<and>
          Amistem_isCCD_STD_SN 50000 v1 \<and>
          Amistem_getSimilarLabel 50000 (stemLabel (sampleFemIC AnatomLeft (S3 50065) NullLabel NullLabel)) (s3 (Amistem_RANGE_CCD_STD 50000)) = Some v2 \<and>
          Amistem_isCCD_STD 50000 v2 \<and>
          Amistem_getShift 50000 v2 (stemLabel (sampleFemIC AnatomLeft (S3 50065) NullLabel NullLabel)) = Some a \<and>
          Amistem_getShift 50000 v1 v2 = Some b \<and>
          Amistem_getShift 50000 (stemLabel (sampleFemIC AnatomLeft (S3 50085) NullLabel NullLabel)) v1 = Some c \<and>
          Amistem_stemToStemMatrix 50000 (sampleFemIC AnatomLeft (S3 50085) NullLabel NullLabel) (sampleFemIC AnatomLeft (S3 50065) NullLabel NullLabel) = Some (mat_mult (mat_mult a b) c))"
    by (rule stemToStemMatrix_translation_or_chain[of 20000 "sampleFemIC AnatomLeft (S3 20100) NullLabel NullLabel" "sampleFemIC AnatomLeft (S3 20122) NullLabel NullLabel" 50000 "sampleFemIC AnatomLeft (S3 50085) NullLabel NullLabel" "sampleFemIC AnatomLeft (S3 50065) NullLabel NullLabel", THEN conjunct2, THEN conjunct2, THEN conjunct2, THEN conjunct2, THEN conjunct2, THEN conjunct1, THEN mp, OF h5])
  have h6: "Amistem_isCCD_STD_SN 50000 (stemLabel (sampleFemIC AnatomLeft (S3 50075) NullLabel NullLabel)) \<and> Amistem_isCCD_LAT 50000 (stemLabel (sampleFemIC AnatomLeft (S3 50065) NullLabel NullLabel))"
    by (simp add: sampleFemIC_def Amistem_label_simps)
  have c6: "(\<exists>via a b. Amistem_getSimilarLabel 50000 (stemLabel (sampleFemIC AnatomLeft (S3 50075) NullLabel NullLabel)) (s3 (Amistem_RANGE_CCD_STD 50000)) = Some via \<and>
          Amistem_isCCD_STD 50000 via \<and>
          Amistem_getShift 50000 via (stemLabel (sampleFemIC AnatomLeft (S3 50065) NullLabel NullLabel)) = Some a \<and>
          Amistem_getShift 50000 (stemLabel (sampleFemIC AnatomLeft (S3 50075) NullLabel NullLabel)) via = Some b \<and>
          Amistem_stemToStemMatrix 50000 (sampleFemIC AnatomLeft (S3 50075) NullLabel NullLabel) (sampleFemIC AnatomLeft (S3 50065) NullLabel NullLabel) = Some (mat_mult a b))"
    by (rule stemToStemMatrix_translation_or_chain[of 20000 "sampleFemIC AnatomLeft (S3 20100) NullLabel NullLabel" "sampleFemIC AnatomLeft (S3 20122) NullLabel NullLabel" 50000 "sampleFemIC AnatomLeft (S3 50075) NullLabel NullLabel" "sampleFemIC AnatomLeft (S3 50065) NullLabel NullLabel", THEN conjunct2, THEN conjunct2, THEN conjunct2, THEN conjunct2, THEN conjunct2, THEN conjunct2, THEN conjunct1, THEN mp, OF h6])
  have h7: "Amistem_isCCD_LAT 50000 (stemLabel (sampleFemIC AnatomLeft (S3 50065) NullLabel NullLabel)) \<and> Amistem_isCCD_STD_SN 50000 (stemLabel (sampleFemIC AnatomLeft (S3 50075) NullLabel NullLabel))"
    by (simp add: sampleFemIC_def Amistem_label_simps)
  have c7: "(\<exists>via a b. Amistem_getSimilarLabel 50000 (stemLabel (sampleFemIC AnatomLeft (S3 50065) NullLabel NullLabel)) (s3 (Amistem_RANGE_CCD_STD 50000)) = Some via \<and>
          Amistem_isCCD_STD 50000 via \<and>
          Amistem_getShift 50000 via (stemLabel (sampleFemIC AnatomLeft (S3 50075) NullLabel NullLabel)) = Some a \<and>
          Amistem_getShift 50000 (stemLabel (sampleFemIC AnatomLeft (S3 50065) NullLabel NullLabel)) via = Some b \<and>
          Amistem_stemToStemMatrix 50000 (sampleFemIC AnatomLeft (S3 50065) NullLabel NullLabel) (sampleFemIC AnatomLeft (S3 50075) NullLabel NullLabel) = Some (mat_mult a b))"
    by (rule stemToStemMatrix_translation_or_chain[of 20000 "sampleFemIC AnatomLeft (S3 20100) NullLabel NullLabel" "sampleFemIC AnatomLeft (S3 20122) NullLabel NullLabel" 50000 "sampleFemIC AnatomLeft (S3 50065) NullLabel NullLabel" "sampleFemIC AnatomLeft (S3 50075) NullLabel NullLabel", THEN conjunct2, THEN conjunct2, THEN conjunct2, THEN conjunct2, THEN conjunct2, THEN conjunct2, THEN conjunct2, THEN conjunct1, THEN mp, OF h7])
  have h8: "Amistem_isCCD_LAT 50000 (stemLabel (sampleFemIC AnatomLeft (S3 50065) NullLabel NullLabel)) \<and> Amistem_isCCD_LAT_SN 50000 (stemLabel (sampleFemIC AnatomLeft (S3 50085) NullLabel NullLabel))"
    by (simp add: sampleFemIC_def Amistem_label_simps)
  have c8: "(\<exists>v1 v2 a b c. Amistem_getSimilarLabel 50000 (stemLabel (sampleFemIC AnatomLeft (S3 50065) NullLabel NullLabel)) (s3 (Amistem_RANGE_CCD_STD 50000)) = Some v1 \<and>
          Amistem_isCCD_STD 50000 v1 \<and>
          Amistem_getSimilarLabel 50000 (stemLabel (sampleFemIC AnatomLeft (S3 50085) NullLabel NullLabel)) (s3 (Amistem_RANGE_CCD_STD_SN 50000)) = Some v2 \<and>
          Amistem_isCCD_STD_SN 50000 v2 \<and>
          Amistem_getShift 50000 v2 (stemLabel (sampleFemIC AnatomLeft (S3 50085) NullLabel NullLabel)) = Some a \<and>
          Amistem_getShift 50000 v1 v2 = Some b \<and>
          Amistem_getShift 50000 (stemLabel (sampleFemIC AnatomLeft (S3 50065) NullLabel NullLabel)) v1 = Some c \<and>
          Amistem_stemToStemMatrix 50000 (sampleFemIC AnatomLeft (S3 50065) NullLabel NullLabel) (sampleFemIC AnatomLeft (S3 50085) NullLabel NullLabel) = Some (mat_mult (mat_mult a b) c))"
    by (rule stemToStemMatrix_translation_or_chain[of 20000 "sampleFemIC AnatomLeft (S3 20100) NullLabel NullLabel" "sampleFemIC AnatomLeft (S3 20122) NullLabel NullLabel" 50000 "sampleFemIC AnatomLeft (S3 50065) NullLabel NullLabel" "sampleFemIC AnatomLeft (S3 50085) NullLabel NullLabel", THEN conjunct2, THEN conjunct2, THEN conjunct2, THEN conjunct2, THEN conjunct2, THEN conjunct2, THEN conjunct2, THEN conjunct2, THEN mp, OF h8])
  show ?thesis
    apply (intro conjI)
    apply (rule c0 c1 c2 c3 c4 c5 c6 c7 c8 | (insert h0 h1 h2 h3 h4 h5 h6 h7 h8, blast)[1])+
    done
qed

end
